(* ===== verification/Prelude.thy ===== *)
theory Prelude
  imports Complex_Main
begin

text \<open>
  Shared vocabulary of the model of \<^verbatim>\<open>src/main.py\<close>.
  \<^item> \<open>sbind\<close> sequences computations that may raise, as Python's evaluation of a dict
    literal stops at the first exception;
  \<^item> the generic record-store operations the four collections share, stated over any
    element type \<open>'a\<close> and an id projection \<open>ident :: 'a \<Rightarrow> nat\<close>:
    \<open>next_id\<close> (the \<^verbatim>\<open>max([x['id'] for x in xs]) + 1 if xs else 1\<close> idiom),
    \<open>find\<close> of the List library (the \<^verbatim>\<open>next((x for x in xs if ...), None)\<close> idiom),
    \<open>update_first\<close> (an in-place \<^verbatim>\<open>dict.update\<close> of the record \<^verbatim>\<open>next\<close> found)
    and the abstraction \<open>id_map\<close> of a collection to the map from ids to records;
  \<^item> the lemmas that relate them, in the collection \<open>store_simps\<close>.
\<close>

named_theorems store_simps "rewrite rules of the generic record-store operations"

section \<open>Raising computations\<close>

definition sbind :: "'e + 'a \<Rightarrow> ('a \<Rightarrow> 'e + 'b) \<Rightarrow> 'e + 'b" where
  "sbind m f = (case m of Inl e \<Rightarrow> Inl e | Inr a \<Rightarrow> f a)"

definition lift_err :: "('e \<Rightarrow> 'f) \<Rightarrow> 'e + 'a \<Rightarrow> 'f + 'a" where
  "lift_err g m = (case m of Inl e \<Rightarrow> Inl (g e) | Inr a \<Rightarrow> Inr a)"

section \<open>Generic record store\<close>

definition next_id :: "('a \<Rightarrow> nat) \<Rightarrow> 'a list \<Rightarrow> nat" where
  "next_id ident xs = (if xs = [] then 1 else Max (set (map ident xs)) + 1)"

fun update_first :: "('a \<Rightarrow> bool) \<Rightarrow> ('a \<Rightarrow> 'a) \<Rightarrow> 'a list \<Rightarrow> 'a list" where
  "update_first p f [] = []"
| "update_first p f (x # xs) = (if p x then f x # xs else x # update_first p f xs)"

definition id_map :: "('a \<Rightarrow> nat) \<Rightarrow> 'a list \<Rightarrow> nat \<rightharpoonup> 'a" where
  "id_map ident xs = map_of (map (\<lambda>x. (ident x, x)) xs)"

definition ids_ok :: "('a \<Rightarrow> nat) \<Rightarrow> 'a list \<Rightarrow> bool" where
  "ids_ok ident xs \<longleftrightarrow> distinct (map ident xs) \<and> (\<forall>x\<in>set xs. 0 < ident x)"

subsection \<open>Lemmas on raising computations\<close>

lemma sbind_Inl [simp]: "sbind (Inl e) f = Inl e"
  by (simp add: sbind_def)

lemma sbind_Inr [simp]: "sbind (Inr a) f = f a"
  by (simp add: sbind_def)

lemma sbind_eq_Inr [simp]: "sbind m f = Inr b \<longleftrightarrow> (\<exists>a. m = Inr a \<and> f a = Inr b)"
  by (cases m) auto

lemma sbind_eq_Inl [simp]: "sbind m f = Inl e \<longleftrightarrow> m = Inl e \<or> (\<exists>a. m = Inr a \<and> f a = Inl e)"
  by (cases m) auto

lemma lift_err_Inl [simp]: "lift_err g (Inl e) = Inl (g e)"
  by (simp add: lift_err_def)

lemma lift_err_Inr [simp]: "lift_err g (Inr a) = Inr a"
  by (simp add: lift_err_def)

lemma lift_err_eq_Inr [simp]: "lift_err g m = Inr a \<longleftrightarrow> m = Inr a"
  by (cases m) auto

lemma lift_err_eq_Inl [simp]: "lift_err g m = Inl e \<longleftrightarrow> (\<exists>e'. m = Inl e' \<and> e = g e')"
  by (cases m) auto

subsection \<open>Lemmas on the store operations\<close>

lemma next_id_gt [store_simps]:
  assumes "x \<in> set xs" shows "ident x < next_id ident xs"
proof -
  have "ident x \<le> Max (ident ` set xs)" using assms by simp
  moreover have "xs \<noteq> []" using assms by auto
  ultimately show ?thesis by (simp add: next_id_def)
qed

lemma next_id_pos [store_simps]: "0 < next_id ident xs"
  by (simp add: next_id_def)

lemma next_id_fresh [store_simps]: "next_id ident xs \<notin> ident ` set xs"
  by (metis imageE less_irrefl next_id_gt)

lemma next_id_Nil [simp]: "next_id ident [] = 1"
  by (simp add: next_id_def)

lemma next_id_snoc_gt: "next_id ident xs < next_id ident (xs @ [x]) \<or> ident x < next_id ident xs"
proof (cases "ident x < next_id ident xs")
  case False
  then have "next_id ident xs \<le> ident x" by simp
  also have "ident x < next_id ident (xs @ [x])" by (rule next_id_gt) simp
  finally show ?thesis by simp
qed simp

lemma next_id_snoc_fresh [store_simps]:
  "ident x = next_id ident xs \<Longrightarrow> next_id ident (xs @ [x]) = Suc (ident x)"
proof -
  assume eq: "ident x = next_id ident xs"
  have le: "\<forall>y\<in>set xs. ident y < ident x" using eq next_id_gt by metis
  have "Max (set (map ident (xs @ [x]))) = ident x"
    using le by (intro Max_eqI) auto
  then show ?thesis by (simp add: next_id_def)
qed

lemma ids_ok_Nil [simp]: "ids_ok ident []"
  by (simp add: ids_ok_def)

lemma ids_ok_snoc_fresh [store_simps]:
  "ids_ok ident xs \<Longrightarrow> ident x = next_id ident xs \<Longrightarrow> ids_ok ident (xs @ [x])"
  by (simp add: ids_ok_def next_id_fresh next_id_pos)

lemma ids_ok_filter [store_simps]: "ids_ok ident xs \<Longrightarrow> ids_ok ident (filter P xs)"
  by (auto simp: ids_ok_def distinct_map_filter)

lemma map_update_first [store_simps]:
  "(\<And>y. g (f y) = g y) \<Longrightarrow> map g (update_first p f xs) = map g xs"
  by (induction xs) auto

lemma set_update_first_subset:
  "set (update_first p f xs) \<subseteq> set xs \<union> f ` {x \<in> set xs. p x}"
  by (induction xs) auto

lemma length_update_first [simp]: "length (update_first p f xs) = length xs"
  by (induction xs) auto

lemma update_first_no_match [store_simps]:
  "find p xs = None \<Longrightarrow> update_first p f xs = xs"
  by (induction xs) auto

lemma ids_ok_update_first [store_simps]:
  "(\<And>y. ident (f y) = ident y) \<Longrightarrow> ids_ok ident xs \<Longrightarrow> ids_ok ident (update_first p f xs)"
proof -
  assume keep: "\<And>y. ident (f y) = ident y" and ok: "ids_ok ident xs"
  have "map ident (update_first p f xs) = map ident xs"
    using keep by (rule map_update_first)
  moreover have "\<forall>x\<in>set (update_first p f xs). 0 < ident x"
  proof
    fix x assume "x \<in> set (update_first p f xs)"
    then have "x \<in> set xs \<or> (\<exists>y\<in>set xs. x = f y)"
      using set_update_first_subset [of p f xs] by blast
    then show "0 < ident x" using ok keep by (auto simp: ids_ok_def)
  qed
  ultimately show ?thesis using ok by (simp add: ids_ok_def)
qed

subsection \<open>The store refines a map from ids to records\<close>

lemma id_map_Nil [simp]: "id_map ident [] = Map.empty"
  by (simp add: id_map_def)

lemma id_map_Cons [simp]: "id_map ident (x # xs) = (id_map ident xs)(ident x \<mapsto> x)"
  by (simp add: id_map_def)

lemma id_map_None_iff: "id_map ident xs k = None \<longleftrightarrow> k \<notin> ident ` set xs"
  by (induction xs) auto

lemma id_map_snoc_fresh [store_simps]:
  "ident x \<notin> ident ` set xs \<Longrightarrow> id_map ident (xs @ [x]) = (id_map ident xs)(ident x \<mapsto> x)"
  by (induction xs) (auto simp: fun_upd_twist)

lemma id_map_filter [store_simps]:
  "id_map ident (filter (\<lambda>y. ident y \<noteq> k) xs) = (id_map ident xs)(k := None)"
  by (induction xs) (auto simp: fun_upd_twist)

lemma find_id_map [store_simps]:
  "distinct (map ident xs) \<Longrightarrow> find (\<lambda>y. ident y = k) xs = id_map ident xs k"
proof (induction xs)
  case Nil
  then show ?case by simp
next
  case (Cons x xs)
  then show ?case by (auto simp: id_map_None_iff [symmetric])
qed

lemma id_map_update_first [store_simps]:
  assumes "\<And>y. ident (f y) = ident y" and "distinct (map ident xs)"
  shows "id_map ident (update_first (\<lambda>y. ident y = k) f xs) =
     (case id_map ident xs k of None \<Rightarrow> id_map ident xs | Some v \<Rightarrow> (id_map ident xs)(k \<mapsto> f v))"
  using assms(2)
proof (induction xs)
  case Nil
  then show ?case by simp
next
  case (Cons x xs)
  show ?case
  proof (cases "ident x = k")
    case True
    with assms(1) Cons.prems show ?thesis by (simp add: id_map_None_iff)
  next
    case False
    with Cons show ?thesis by (auto simp: fun_upd_twist split: option.splits)
  qed
qed

lemma find_Some_in: "find P xs = Some x \<Longrightarrow> x \<in> set xs \<and> P x"
  by (induction xs) (auto split: if_splits)

lemma find_Some_ident: "find (\<lambda>y. ident y = k) xs = Some v \<Longrightarrow> ident v = k \<and> v \<in> set xs"
  by (auto simp: find_Some_iff)

lemma find_None_ident: "find (\<lambda>y. ident y = k) xs = None \<longleftrightarrow> k \<notin> ident ` set xs"
  by (auto simp: find_None_iff)

lemma update_first_find [store_simps]:
  "find p xs = Some v \<Longrightarrow> f v \<in> set (update_first p f xs)"
  by (induction xs) (auto split: if_splits)

lemma update_first_other:
  "y \<in> set xs \<Longrightarrow> \<not> p y \<Longrightarrow> y \<in> set (update_first p f xs)"
  by (induction xs) auto

lemma find_update_first [store_simps]:
  "(\<And>x. p x \<Longrightarrow> p (f x)) \<Longrightarrow> find p (update_first p f xs) = map_option f (find p xs)"
  by (induction xs) auto

lemma next_id_upto [store_simps]:
  "map ident xs = [1..<n + 1] \<Longrightarrow> next_id ident xs = n + 1"
proof (cases n)
  case 0
  then show "map ident xs = [1..<n + 1] \<Longrightarrow> next_id ident xs = n + 1" by simp
next
  case (Suc m)
  assume ids: "map ident xs = [1..<n + 1]"
  then have "ident ` set xs = {1..n}" by (metis atLeastLessThanSuc_atLeastAtMost list.set_map set_upt Suc_eq_plus1)
  moreover have "Max {1..n} = n" using Suc by (intro Max_eqI) auto
  moreover have "xs \<noteq> []" using ids Suc by auto
  ultimately show ?thesis by (simp add: next_id_def)
qed

lemma update_first_eq_map [store_simps]:
  "distinct (map ident xs) \<Longrightarrow>
     update_first (\<lambda>y. ident y = k) f xs = map (\<lambda>y. if ident y = k then f y else y) xs"
  by (induction xs) (auto simp: image_iff intro!: map_idI [symmetric])

text \<open>
  The refinement every update handler shares: on a collection with distinct ids, updating
  the record found under \<open>k\<close> by an id-preserving \<open>f\<close> is the map update at \<open>k\<close>.
\<close>

lemma update_first_refines:
  assumes keep: "\<And>y. ident (f y) = ident y" and ok: "ids_ok ident xs"
    and found: "find (\<lambda>y. ident y = k) xs = Some v"
  shows "id_map ident xs k = Some v \<and> ident (f v) = k \<and>
    id_map ident (update_first (\<lambda>y. ident y = k) f xs) = (id_map ident xs)(k \<mapsto> f v)"
proof -
  have dist: "distinct (map ident xs)" using ok by (simp add: ids_ok_def)
  have old: "id_map ident xs k = Some v" using found by (simp add: find_id_map [OF dist])
  moreover have "ident (f v) = k" using find_Some_ident [OF found] keep by simp
  moreover have "id_map ident (update_first (\<lambda>y. ident y = k) f xs) = (id_map ident xs)(k \<mapsto> f v)"
    using id_map_update_first [OF keep dist, of k] old by simp
  ultimately show ?thesis by blast
qed

lemma list_all_update_first [store_simps]:
  "list_all P xs \<Longrightarrow> (\<And>x. P x \<Longrightarrow> P (f x)) \<Longrightarrow> list_all P (update_first p f xs)"
  by (induction xs) auto

end
