(* ===== verification/Py_Values.thy ===== *)
theory Py_Values
  imports Prelude
begin

text \<open>
  The values the handlers of \<^verbatim>\<open>src/main.py\<close> read from a request and the Python
  built-ins they apply to them. \<^verbatim>\<open>request.get_json()\<close> yields a JSON value
  (\<open>jval\<close>); the handlers subscript it (\<^verbatim>\<open>data['sku']\<close>, \<open>py_getitem\<close>), call
  \<^verbatim>\<open>data.get(k, d)\<close> (\<open>py_get\<close>) and convert with \<^verbatim>\<open>int(...)\<close> and
  \<^verbatim>\<open>float(...)\<close> (\<open>py_int\<close>, \<open>py_float\<close>). Each raises on some inputs; the
  exception is a value of \<open>py_exc\<close>. Python floats are modelled as \<open>real\<close>: the
  rounding of IEEE doubles is not modelled, and the strings that denote the non-finite
  floats (\<^verbatim>\<open>inf\<close>, \<^verbatim>\<open>nan\<close>) give the explicit outcome \<open>Unrepresented\<close>.
  \<^verbatim>\<open>float()\<close> of an \<^verbatim>\<open>int\<close> raises \<^verbatim>\<open>OverflowError\<close> from the overflow
  threshold of round-to-nearest doubles on (\<open>float_int_limit\<close>), and is exact below it;
  the rounding of large integers to 53 bits is not modelled. Decimal strings too large
  for a double give \<^verbatim>\<open>inf\<close> in Python and an exact real here.
  Characters are the 8-bit \<open>char\<close> of HOL: the Unicode digits and spaces Python also
  accepts are not modelled.
\<close>

datatype jval =
    JNull
  | JBool bool
  | JInt int
  | JFloat real
  | JStr string
  | JList "jval list"
  | JObj "(string \<times> jval) list"

text \<open>
  The payload of a Python exception is the key (\<open>KeyError\<close>), the name of the
  offending type (\<open>TypeError\<close>, \<open>AttributeError\<close>), the rejected literal
  (\<open>ValueError\<close>) or the message of \<^verbatim>\<open>OverflowError\<close>.
\<close>

datatype py_exc =
    KeyError string
  | TypeError string
  | ValueError string
  | AttributeError string
  | OverflowError string
  | Unrepresented string

fun py_type_name :: "jval \<Rightarrow> string" where
  "py_type_name JNull = ''NoneType''"
| "py_type_name (JBool _) = ''bool''"
| "py_type_name (JInt _) = ''int''"
| "py_type_name (JFloat _) = ''float''"
| "py_type_name (JStr _) = ''str''"
| "py_type_name (JList _) = ''list''"
| "py_type_name (JObj _) = ''dict''"

text \<open>A JSON object with a repeated key keeps the last value, as \<^verbatim>\<open>json.loads\<close> does.\<close>

definition py_getitem :: "jval \<Rightarrow> string \<Rightarrow> py_exc + jval" where
  "py_getitem d k =
     (case d of
        JObj kvs \<Rightarrow> (case map_of (rev kvs) k of Some v \<Rightarrow> Inr v | None \<Rightarrow> Inl (KeyError k))
      | _ \<Rightarrow> Inl (TypeError (py_type_name d)))"

definition py_get :: "jval \<Rightarrow> string \<Rightarrow> jval \<Rightarrow> py_exc + jval" where
  "py_get d k dflt =
     (case d of
        JObj kvs \<Rightarrow> (case map_of (rev kvs) k of Some v \<Rightarrow> Inr v | None \<Rightarrow> Inr dflt)
      | _ \<Rightarrow> Inl (AttributeError (py_type_name d)))"

section \<open>Decimal literals\<close>

definition py_isspace :: "char \<Rightarrow> bool" where
  "py_isspace c \<longleftrightarrow>
     (let n = (of_char c :: nat) in n = 32 \<or> (9 \<le> n \<and> n \<le> 13) \<or> (28 \<le> n \<and> n \<le> 31))"

definition py_strip :: "string \<Rightarrow> string" where
  "py_strip s = rev (dropWhile py_isspace (rev (dropWhile py_isspace s)))"

definition digit_val :: "char \<Rightarrow> nat option" where
  "digit_val c = (let n = (of_char c :: nat) in if 48 \<le> n \<and> n \<le> 57 then Some (n - 48) else None)"

text \<open>
  \<open>digits_acc (v, k) s\<close> reads the rest of a Python \<^verbatim>\<open>digitpart\<close>
  (\<^verbatim>\<open>digit (["_"] digit)*\<close>) after \<open>k\<close> digits of value \<open>v\<close>: a single
  underscore may stand between two digits. The result is the value and the number of
  digits.
\<close>

fun digits_acc :: "nat \<times> nat \<Rightarrow> string \<Rightarrow> (nat \<times> nat) option" where
  "digits_acc (v, k) [] = Some (v, k)"
| "digits_acc (v, k) (c # cs) =
     (if c = CHR ''_'' then
        (case cs of
           [] \<Rightarrow> None
         | d # ds \<Rightarrow> (case digit_val d of
                        None \<Rightarrow> None
                      | Some x \<Rightarrow> digits_acc (10 * v + x, Suc k) ds))
      else (case digit_val c of
              None \<Rightarrow> None
            | Some x \<Rightarrow> digits_acc (10 * v + x, Suc k) cs))"

definition digitpart :: "string \<Rightarrow> (nat \<times> nat) option" where
  "digitpart s = (case s of [] \<Rightarrow> None | c # _ \<Rightarrow> if c = CHR ''_'' then None else digits_acc (0, 0) s)"

text \<open>\<^verbatim>\<open>int(s)\<close> for a \<^verbatim>\<open>str\<close> in base 10: surrounding whitespace, one optional sign.\<close>

definition parse_int :: "string \<Rightarrow> int option" where
  "parse_int s =
     (case py_strip s of
        [] \<Rightarrow> None
      | c # cs \<Rightarrow>
          if c = CHR ''-'' then map_option (\<lambda>(v, _). - int v) (digitpart cs)
          else if c = CHR ''+'' then map_option (\<lambda>(v, _). int v) (digitpart cs)
          else map_option (\<lambda>(v, _). int v) (digitpart (c # cs)))"

text \<open>
  \<^verbatim>\<open>float(s)\<close>: an optional sign, a mantissa
  \<^verbatim>\<open>digitpart ["." [digitpart]] | "." digitpart\<close> and an optional exponent
  \<^verbatim>\<open>("e" | "E") [sign] digitpart\<close>; or one of the names of the non-finite floats.
\<close>

definition scale10 :: "real \<Rightarrow> int \<Rightarrow> real" where
  "scale10 x e = (if 0 \<le> e then x * 10 ^ nat e else x / 10 ^ nat (- e))"

definition parse_mantissa :: "string \<Rightarrow> real option" where
  "parse_mantissa m =
     (let ip = takeWhile (\<lambda>c. c \<noteq> CHR ''.'') m; rest = dropWhile (\<lambda>c. c \<noteq> CHR ''.'') m in
      case rest of
        [] \<Rightarrow> map_option (\<lambda>(v, _). real v) (digitpart ip)
      | _ # fp \<Rightarrow>
          (case (digitpart ip, digitpart fp) of
             (Some (v, _), Some (w, k)) \<Rightarrow> Some (real v + real w / 10 ^ k)
           | (Some (v, _), None) \<Rightarrow> if fp = [] then Some (real v) else None
           | (None, Some (w, k)) \<Rightarrow> if ip = [] then Some (real w / 10 ^ k) else None
           | (None, None) \<Rightarrow> None))"

definition parse_exponent :: "string \<Rightarrow> int option" where
  "parse_exponent e =
     (case e of
        c # cs \<Rightarrow>
          if c = CHR ''-'' then map_option (\<lambda>(v, _). - int v) (digitpart cs)
          else if c = CHR ''+'' then map_option (\<lambda>(v, _). int v) (digitpart cs)
          else map_option (\<lambda>(v, _). int v) (digitpart e)
      | [] \<Rightarrow> None)"

definition is_exp_mark :: "char \<Rightarrow> bool" where
  "is_exp_mark c \<longleftrightarrow> c = CHR ''e'' \<or> c = CHR ''E''"

definition parse_unsigned_float :: "string \<Rightarrow> real option" where
  "parse_unsigned_float t =
     (let m = takeWhile (\<lambda>c. \<not> is_exp_mark c) t; r = dropWhile (\<lambda>c. \<not> is_exp_mark c) t in
      case r of
        [] \<Rightarrow> parse_mantissa m
      | _ # e \<Rightarrow> (case (parse_mantissa m, parse_exponent e) of
                   (Some x, Some n) \<Rightarrow> Some (scale10 x n)
                 | _ \<Rightarrow> None))"

definition ascii_lower :: "char \<Rightarrow> char" where
  "ascii_lower c = (let n = (of_char c :: nat) in if 65 \<le> n \<and> n \<le> 90 then char_of (n + 32) else c)"

definition nonfinite_name :: "string \<Rightarrow> bool" where
  "nonfinite_name t \<longleftrightarrow> map ascii_lower t \<in> {''inf'', ''infinity'', ''nan''}"

definition parse_float :: "string \<Rightarrow> py_exc + real" where
  "parse_float s =
     (let t = py_strip s;
          (neg, u) = (case t of c # cs \<Rightarrow>
                          if c = CHR ''-'' then (True, cs)
                          else if c = CHR ''+'' then (False, cs) else (False, t)
                      | [] \<Rightarrow> (False, t)) in
      if nonfinite_name u then Inl (Unrepresented s)
      else case parse_unsigned_float u of
             None \<Rightarrow> Inl (ValueError s)
           | Some x \<Rightarrow> Inr (if neg then - x else x))"

section \<open>The conversions \<^verbatim>\<open>int()\<close> and \<^verbatim>\<open>float()\<close>\<close>

text \<open>\<^verbatim>\<open>int(x)\<close> of a float truncates towards zero; of a bool it is 0 or 1.\<close>

definition py_trunc :: "real \<Rightarrow> int" where
  "py_trunc r = (if r < 0 then \<lceil>r\<rceil> else \<lfloor>r\<rfloor>)"

fun py_int :: "jval \<Rightarrow> py_exc + int" where
  "py_int (JInt i) = Inr i"
| "py_int (JBool b) = Inr (if b then 1 else 0)"
| "py_int (JFloat r) = Inr (py_trunc r)"
| "py_int (JStr s) = (case parse_int s of Some i \<Rightarrow> Inr i | None \<Rightarrow> Inl (ValueError s))"
| "py_int v = Inl (TypeError (py_type_name v))"

text \<open>
  The overflow threshold of IEEE double precision with rounding to nearest,
  \<open>2^1023 * (2 - 2^-53)\<close>: an integer of at least this magnitude rounds to infinity,
  and \<^verbatim>\<open>float()\<close> raises \<^verbatim>\<open>OverflowError: int too large to convert to float\<close>.
\<close>

definition float_int_limit :: int where
  "float_int_limit = 2 ^ 1024 - 2 ^ 970"

fun py_float :: "jval \<Rightarrow> py_exc + real" where
  "py_float (JInt i) =
     (if \<bar>i\<bar> < float_int_limit then Inr (of_int i)
      else Inl (OverflowError ''int too large to convert to float''))"
| "py_float (JBool b) = Inr (if b then 1 else 0)"
| "py_float (JFloat r) = Inr r"
| "py_float (JStr s) = parse_float s"
| "py_float v = Inl (TypeError (py_type_name v))"

end
