(* ===== verification/Auth.thy ===== *)
theory Auth
  imports Py_Values
begin

text \<open>
  Authentication and the permission gate of \<^verbatim>\<open>src/main.py\<close>: the credential table
  \<^verbatim>\<open>USERS\<close>, the session (\<^verbatim>\<open>session['user']\<close>, \<open>None\<close> when absent), the
  decorators \<^verbatim>\<open>login_required\<close> and \<^verbatim>\<open>admin_required\<close>, the handlers
  \<^verbatim>\<open>login\<close> (POST) and \<^verbatim>\<open>logout\<close>, and the errors a handler answers with
  (\<open>api_error\<close>, with the HTTP status of each). The permission table of the
  specification (roles, resources, actions, \<open>spec_permits\<close>) is stated here as the
  abstract contract; the handlers' role tests are proved to implement it in
  \<open>Spec2Isabelle\<close>.
\<close>

record user_row =
  username :: string
  password :: string
  role :: string

definition USERS :: "user_row list" where
  "USERS =
     [\<lparr>username = ''admin'', password = ''admin123'', role = ''admin''\<rparr>,
      \<lparr>username = ''sales'', password = ''sales123'', role = ''sales''\<rparr>,
      \<lparr>username = ''production'', password = ''production123'', role = ''production''\<rparr>,
      \<lparr>username = ''staff'', password = ''staff123'', role = ''staff''\<rparr>]"

text \<open>\<^verbatim>\<open>session['user'] = {'username': ..., 'role': ...}\<close>\<close>

record session_user =
  su_username :: string
  su_role :: string

type_synonym session = "session_user option"

text \<open>
  The answers other than success: the redirect of \<^verbatim>\<open>login_required\<close>, the 403 and
  404 JSON errors with their message, the 401 of a failed login, and an exception no
  handler catches (Flask answers 500).
\<close>

datatype api_error =
    LoginRedirect
  | Forbidden string
  | NotFound string
  | InvalidCredentials
  | Raised py_exc

fun http_status :: "api_error \<Rightarrow> nat" where
  "http_status LoginRedirect = 302"
| "http_status (Forbidden _) = 403"
| "http_status (NotFound _) = 404"
| "http_status InvalidCredentials = 401"
| "http_status (Raised _) = 500"

definition login_required :: "session \<Rightarrow> (session_user \<Rightarrow> api_error + 'a) \<Rightarrow> api_error + 'a" where
  "login_required sess f = (case sess of None \<Rightarrow> Inl LoginRedirect | Some u \<Rightarrow> f u)"

text \<open>Declared in the source but applied to no route.\<close>

definition admin_required :: "session \<Rightarrow> (session_user \<Rightarrow> api_error + 'a) \<Rightarrow> api_error + 'a" where
  "admin_required sess f =
     (case sess of
        None \<Rightarrow> Inl (Forbidden ''Admin access required'')
      | Some u \<Rightarrow> if su_role u \<noteq> ''admin'' then Inl (Forbidden ''Admin access required'') else f u)"

text \<open>
  \<^verbatim>\<open>POST /login\<close>: \<^verbatim>\<open>data.get('username')\<close> is \<^verbatim>\<open>None\<close> when the key is
  missing, and a JSON value equals a table string only when it is that string. On
  success the session holds the user; on failure it is left as it was.
\<close>

definition login_post :: "jval \<Rightarrow> api_error + (session_user \<times> string)" where
  "login_post data =
     sbind (lift_err Raised (py_get data ''username'' JNull)) (\<lambda>uname.
     sbind (lift_err Raised (py_get data ''password'' JNull)) (\<lambda>pw.
       case find (\<lambda>u. JStr (username u) = uname \<and> JStr (password u) = pw) USERS of
         Some u \<Rightarrow> Inr (\<lparr>su_username = username u, su_role = role u\<rparr>, role u)
       | None \<Rightarrow> Inl InvalidCredentials))"

definition logout :: "session \<Rightarrow> session" where
  "logout sess = None"

section \<open>The permission table of the specification\<close>

datatype role_kind = Admin | Sales | Production | Staff

fun role_name :: "role_kind \<Rightarrow> string" where
  "role_name Admin = ''admin''"
| "role_name Sales = ''sales''"
| "role_name Production = ''production''"
| "role_name Staff = ''staff''"

datatype resource = Inventory | ProductionLines | SalesOrders | Alerts

text \<open>\<open>Write\<close> is create and update; \<open>Remove\<close> is delete, and resolve for alerts.\<close>

datatype action = Read | Write | Remove

fun spec_permits :: "role_kind \<Rightarrow> resource \<Rightarrow> action \<Rightarrow> bool" where
  "spec_permits r Inventory Read = True"
| "spec_permits r Inventory Write = (r = Admin)"
| "spec_permits r Inventory Remove = (r = Admin)"
| "spec_permits r ProductionLines Read = True"
| "spec_permits r ProductionLines Write = (r \<in> {Admin, Production})"
| "spec_permits r ProductionLines Remove = False"
| "spec_permits r SalesOrders Read = True"
| "spec_permits r SalesOrders Write = (r \<in> {Admin, Sales})"
| "spec_permits r SalesOrders Remove = False"
| "spec_permits r Alerts Read = (r = Admin)"
| "spec_permits r Alerts Write = False"
| "spec_permits r Alerts Remove = (r = Admin)"

definition session_of :: "role_kind \<Rightarrow> session" where
  "session_of r = Some \<lparr>su_username = role_name r, su_role = role_name r\<rparr>"

section \<open>Lemmas\<close>

lemma login_required_None [simp]: "login_required None f = Inl LoginRedirect"
  by (simp add: login_required_def)

lemma login_required_Some [simp]: "login_required (Some u) f = f u"
  by (simp add: login_required_def)

lemma role_name_inj [simp]: "role_name r = role_name r' \<longleftrightarrow> r = r'"
  by (cases r; cases r') simp_all

lemma role_name_admin [simp]: "role_name r = ''admin'' \<longleftrightarrow> r = Admin"
  by (cases r) simp_all

lemma role_name_production [simp]: "role_name r = ''production'' \<longleftrightarrow> r = Production"
  by (cases r) simp_all

lemma role_name_sales [simp]: "role_name r = ''sales'' \<longleftrightarrow> r = Sales"
  by (cases r) simp_all

lemma session_of_role [simp]: "session_of r = Some u \<longleftrightarrow> u = \<lparr>su_username = role_name r, su_role = role_name r\<rparr>"
  by (auto simp: session_of_def)

lemma USERS_eq:
  "USERS = map (\<lambda>r. \<lparr>username = role_name r, password = role_name r @ ''123'', role = role_name r\<rparr>)
     [Admin, Sales, Production, Staff]"
  by (simp add: USERS_def)

lemma login_post_match:
  "login_post data = Inr (u, rl) \<Longrightarrow>
     \<exists>r. py_get data ''username'' JNull = Inr (JStr (role_name r)) \<and>
         py_get data ''password'' JNull = Inr (JStr (role_name r @ ''123'')) \<and>
         Some u = session_of r \<and> rl = role_name r"
proof -
  assume "login_post data = Inr (u, rl)"
  then obtain uname pw row where g1: "py_get data ''username'' JNull = Inr uname"
      and g2: "py_get data ''password'' JNull = Inr pw"
      and f: "find (\<lambda>u. JStr (username u) = uname \<and> JStr (password u) = pw) USERS = Some row"
      and u: "u = \<lparr>su_username = username row, su_role = role row\<rparr>" and rl: "rl = role row"
    by (auto simp: login_post_def split: option.splits)
  from f have "row \<in> set USERS" and m: "JStr (username row) = uname \<and> JStr (password row) = pw"
    by (auto dest: find_Some_in)
  then obtain r where "row = \<lparr>username = role_name r, password = role_name r @ ''123'', role = role_name r\<rparr>"
    unfolding USERS_eq set_map by blast
  with g1 g2 m u rl show ?thesis by (auto simp: session_of_def)
qed

lemma login_post_role:
  "login_post (JObj [(''username'', JStr (role_name r)), (''password'', JStr (role_name r @ ''123''))]) =
     Inr (the (session_of r), role_name r)"
  by (cases r) (simp_all add: login_post_def py_get_def USERS_def session_of_def)

lemma login_post_session_of:
  "login_post data = Inr (u, rl) \<Longrightarrow> \<exists>r. Some u = session_of r \<and> rl = role_name r"
  by (blast dest: login_post_match)

text \<open>
  C12: \<^verbatim>\<open>POST /login\<close> with a username and a password succeeds exactly for the
  four accounts of the credential table (user name equal to the role name, password the
  role name followed by \<^verbatim>\<open>123\<close>), and the session it establishes carries that
  account's role.
\<close>

theorem login_post_iff:
  "login_post (JObj [(''username'', JStr usr), (''password'', JStr pw)]) = Inr (u, rl) \<longleftrightarrow>
   (\<exists>r. usr = role_name r \<and> pw = role_name r @ ''123'' \<and> Some u = session_of r \<and> rl = role_name r)"
proof
  assume "login_post (JObj [(''username'', JStr usr), (''password'', JStr pw)]) = Inr (u, rl)"
  then show "\<exists>r. usr = role_name r \<and> pw = role_name r @ ''123'' \<and> Some u = session_of r \<and> rl = role_name r"
    by (auto dest!: login_post_match simp: py_get_def)
next
  assume "\<exists>r. usr = role_name r \<and> pw = role_name r @ ''123'' \<and> Some u = session_of r \<and> rl = role_name r"
  then show "login_post (JObj [(''username'', JStr usr), (''password'', JStr pw)]) = Inr (u, rl)"
    by (auto simp: login_post_role session_of_def)
qed
end
