(* ===== verification/Inventory.thy ===== *)
theory Inventory
  imports Auth
begin

text \<open>
  The inventory collection of \<^verbatim>\<open>src/main.py\<close>: the item record (a Python dict with
  fixed keys), the fixture list \<^verbatim>\<open>inventory\<close>, the derived status
  \<^verbatim>\<open>get_inventory_status\<close> and the four API handlers \<^verbatim>\<open>get_inventory\<close>,
  \<^verbatim>\<open>add_inventory\<close>, \<^verbatim>\<open>update_inventory\<close>, \<^verbatim>\<open>delete_inventory\<close>. A handler
  takes the session, the request body and the current list, and returns the error it
  answers with or its result together with the new list. The text fields are stored as
  the JSON values the client sent (\<^verbatim>\<open>data['sku']\<close> is not converted), the counts
  after \<^verbatim>\<open>int()\<close>, the price after \<^verbatim>\<open>float()\<close>.
\<close>

record inv_item =
  item_id :: nat
  sku :: jval
  item_name :: jval
  category :: jval
  quantity :: int
  min_quantity :: int
  price :: real
  supplier :: jval
  expiry_date :: jval
  total_sold :: int

definition inventory_init :: "inv_item list" where
  "inventory_init =
     [\<lparr>item_id = 1, sku = JStr ''SHP-001'', item_name = JStr ''Lavender Dreams Shampoo'',
       category = JStr ''Shampoos'', quantity = 850, min_quantity = 500, price = 24.99,
       supplier = JStr ''Botanical Supplies Co'', expiry_date = JStr ''2026-08-15'', total_sold = 2450\<rparr>,
      \<lparr>item_id = 2, sku = JStr ''PRF-102'', item_name = JStr ''Rose Garden Perfume'',
       category = JStr ''Perfumes'', quantity = 320, min_quantity = 200, price = 89.99,
       supplier = JStr ''Essence International'', expiry_date = JStr ''2027-12-31'', total_sold = 1850\<rparr>,
      \<lparr>item_id = 3, sku = JStr ''CRM-203'', item_name = JStr ''Vitamin C Face Cream'',
       category = JStr ''Creams'', quantity = 0, min_quantity = 300, price = 45.99,
       supplier = JStr ''Derma Solutions Ltd'', expiry_date = JStr ''2026-03-20'', total_sold = 3200\<rparr>,
      \<lparr>item_id = 4, sku = JStr ''LOT-304'', item_name = JStr ''Hydrating Body Lotion'',
       category = JStr ''Lotions'', quantity = 1250, min_quantity = 600, price = 18.99,
       supplier = JStr ''Natural Ingredients Inc'', expiry_date = JStr ''2026-06-10'', total_sold = 4100\<rparr>,
      \<lparr>item_id = 5, sku = JStr ''SER-405'', item_name = JStr ''Anti-Aging Serum'',
       category = JStr ''Serums'', quantity = 180, min_quantity = 150, price = 125.99,
       supplier = JStr ''Premium Beauty Supply'', expiry_date = JStr ''2026-02-28'', total_sold = 1680\<rparr>]"

text \<open>The three strings \<^verbatim>\<open>get_inventory_status\<close> returns, as an enumeration.\<close>

datatype stock_status = Out_of_Stock | Low_Stock | In_Stock

fun stock_label :: "stock_status \<Rightarrow> string" where
  "stock_label Out_of_Stock = ''Out of Stock''"
| "stock_label Low_Stock = ''Low Stock''"
| "stock_label In_Stock = ''In Stock''"

definition get_inventory_status :: "inv_item \<Rightarrow> stock_status" where
  "get_inventory_status item =
     (if quantity item = 0 then Out_of_Stock
      else if quantity item < min_quantity item then Low_Stock
      else In_Stock)"

text \<open>\<^verbatim>\<open>GET /api/inventory\<close>: a copy of each item with its status attached.\<close>

definition get_inventory :: "session \<Rightarrow> inv_item list \<Rightarrow> api_error + (inv_item \<times> stock_status) list" where
  "get_inventory sess items =
     login_required sess (\<lambda>_. Inr (map (\<lambda>item. (item, get_inventory_status item)) items))"

text \<open>The dict literal of \<^verbatim>\<open>add_inventory\<close>, evaluated key by key.\<close>

definition new_inventory_item :: "nat \<Rightarrow> jval \<Rightarrow> py_exc + inv_item" where
  "new_inventory_item new_id data =
     sbind (py_getitem data ''sku'') (\<lambda>s.
     sbind (py_getitem data ''name'') (\<lambda>n.
     sbind (py_getitem data ''category'') (\<lambda>c.
     sbind (sbind (py_getitem data ''quantity'') py_int) (\<lambda>q.
     sbind (sbind (py_getitem data ''min_quantity'') py_int) (\<lambda>mq.
     sbind (sbind (py_getitem data ''price'') py_float) (\<lambda>p.
     sbind (py_getitem data ''supplier'') (\<lambda>sup.
     sbind (py_get data ''expiry_date'' (JStr '''')) (\<lambda>e.
       Inr \<lparr>item_id = new_id, sku = s, item_name = n, category = c, quantity = q,
            min_quantity = mq, price = p, supplier = sup, expiry_date = e, total_sold = 0\<rparr>))))))))"

definition add_inventory :: "session \<Rightarrow> jval \<Rightarrow> inv_item list \<Rightarrow> api_error + (inv_item \<times> inv_item list)" where
  "add_inventory sess data items =
     login_required sess (\<lambda>u.
       if su_role u \<notin> set [''admin''] then Inl (Forbidden ''Permission denied'')
       else let new_id = next_id item_id items in
         sbind (lift_err Raised (new_inventory_item new_id data)) (\<lambda>new_item.
           Inr (new_item, items @ [new_item])))"

text \<open>
  The dict literal \<^verbatim>\<open>update_inventory\<close> passes to \<^verbatim>\<open>item.update\<close>: every field
  but \<^verbatim>\<open>id\<close> and \<^verbatim>\<open>total_sold\<close>, as a function that overwrites them.
\<close>

definition inventory_update_fields :: "jval \<Rightarrow> py_exc + (inv_item \<Rightarrow> inv_item)" where
  "inventory_update_fields data =
     sbind (py_getitem data ''sku'') (\<lambda>s.
     sbind (py_getitem data ''name'') (\<lambda>n.
     sbind (py_getitem data ''category'') (\<lambda>c.
     sbind (sbind (py_getitem data ''quantity'') py_int) (\<lambda>q.
     sbind (sbind (py_getitem data ''min_quantity'') py_int) (\<lambda>mq.
     sbind (sbind (py_getitem data ''price'') py_float) (\<lambda>p.
     sbind (py_getitem data ''supplier'') (\<lambda>sup.
     sbind (py_get data ''expiry_date'' (JStr '''')) (\<lambda>e.
       Inr (\<lambda>item. item\<lparr>sku := s, item_name := n, category := c, quantity := q,
            min_quantity := mq, price := p, supplier := sup, expiry_date := e\<rparr>)))))))))"

definition update_inventory ::
  "session \<Rightarrow> nat \<Rightarrow> jval \<Rightarrow> inv_item list \<Rightarrow> api_error + (inv_item \<times> inv_item list)" where
  "update_inventory sess iid data items =
     login_required sess (\<lambda>u.
       if su_role u \<notin> set [''admin''] then Inl (Forbidden ''Permission denied'')
       else case find (\<lambda>i. item_id i = iid) items of
         None \<Rightarrow> Inl (NotFound ''Item not found'')
       | Some item \<Rightarrow>
           sbind (lift_err Raised (inventory_update_fields data)) (\<lambda>upd.
             Inr (upd item, update_first (\<lambda>i. item_id i = iid) upd items)))"

definition delete_inventory :: "session \<Rightarrow> nat \<Rightarrow> inv_item list \<Rightarrow> api_error + inv_item list" where
  "delete_inventory sess iid items =
     login_required sess (\<lambda>u.
       if su_role u \<notin> set [''admin''] then Inl (Forbidden ''Permission denied'')
       else Inr (filter (\<lambda>i. item_id i \<noteq> iid) items))"

text \<open>A request body for \<^verbatim>\<open>POST /api/inventory\<close>, as a form would send it.\<close>

definition sample_item_payload :: jval where
  "sample_item_payload =
     JObj [(''sku'', JStr ''MSK-506''), (''name'', JStr ''Clay Face Mask''), (''category'', JStr ''Masks''),
           (''quantity'', JStr ''40''), (''min_quantity'', JInt 25), (''price'', JStr ''15.50''),
           (''supplier'', JStr ''Botanical Supplies Co'')]"

definition sample_item :: inv_item where
  "sample_item =
     \<lparr>item_id = 6, sku = JStr ''MSK-506'', item_name = JStr ''Clay Face Mask'', category = JStr ''Masks'',
      quantity = 40, min_quantity = 25, price = 15.5, supplier = JStr ''Botanical Supplies Co'',
      expiry_date = JStr '''', total_sold = 0\<rparr>"

section \<open>Lemmas\<close>

subsection \<open>What each handler does when it succeeds\<close>

lemma new_inventory_item_Inr:
  "new_inventory_item nid data = Inr it \<Longrightarrow> item_id it = nid \<and> total_sold it = 0"
  by (auto simp: new_inventory_item_def)

lemma inventory_update_fields_frame:
  "inventory_update_fields data = Inr upd \<Longrightarrow>
     item_id (upd i) = item_id i \<and> total_sold (upd i) = total_sold i"
  by (auto simp: inventory_update_fields_def)

lemma add_inventory_Inr:
  "add_inventory sess data items = Inr (it, items') \<Longrightarrow>
     \<exists>u. sess = Some u \<and> su_role u = ''admin'' \<and>
        new_inventory_item (next_id item_id items) data = Inr it \<and> items' = items @ [it]"
  by (auto simp: add_inventory_def login_required_def split: option.splits if_splits)

lemma update_inventory_Inr:
  "update_inventory sess iid data items = Inr (it, items') \<Longrightarrow>
     \<exists>u item upd. sess = Some u \<and> su_role u = ''admin'' \<and>
        find (\<lambda>i. item_id i = iid) items = Some item \<and>
        inventory_update_fields data = Inr upd \<and> it = upd item \<and>
        items' = update_first (\<lambda>i. item_id i = iid) upd items"
  by (auto simp: update_inventory_def login_required_def split: option.splits if_splits)

lemma delete_inventory_Inr:
  "delete_inventory sess iid items = Inr items' \<Longrightarrow>
     \<exists>u. sess = Some u \<and> su_role u = ''admin'' \<and> items' = filter (\<lambda>i. item_id i \<noteq> iid) items"
  by (auto simp: delete_inventory_def login_required_def split: option.splits if_splits)

subsection \<open>Every handler keeps the ids distinct and positive\<close>

lemma add_inventory_ids_ok:
  "add_inventory sess data items = Inr (it, items') \<Longrightarrow> ids_ok item_id items \<Longrightarrow> ids_ok item_id items'"
  by (auto dest!: add_inventory_Inr new_inventory_item_Inr intro: ids_ok_snoc_fresh)

lemma update_inventory_ids_ok:
  "update_inventory sess iid data items = Inr (it, items') \<Longrightarrow> ids_ok item_id items \<Longrightarrow> ids_ok item_id items'"
  by (auto dest!: update_inventory_Inr intro!: ids_ok_update_first dest: inventory_update_fields_frame)

lemma delete_inventory_ids_ok:
  "delete_inventory sess iid items = Inr items' \<Longrightarrow> ids_ok item_id items \<Longrightarrow> ids_ok item_id items'"
  by (auto dest!: delete_inventory_Inr intro: ids_ok_filter)

subsection \<open>Properties\<close>

text \<open>
  C9: the stock status is the one the specification lists: out of stock at
  quantity 0, low stock when positive and below the minimum, in stock when positive and
  at least the minimum. (A negative quantity, which the code accepts, is low stock below
  the minimum.)
\<close>

theorem get_inventory_status_cases:
  "(quantity item = 0 \<longrightarrow> get_inventory_status item = Out_of_Stock) \<and>
   (0 < quantity item \<and> quantity item < min_quantity item \<longrightarrow> get_inventory_status item = Low_Stock) \<and>
   (0 < quantity item \<and> min_quantity item \<le> quantity item \<longrightarrow> get_inventory_status item = In_Stock)"
  by (simp add: get_inventory_status_def)

text \<open>
  C5: a successful \<^verbatim>\<open>POST /api/inventory\<close> appends exactly one item, whose id is
  one more than the largest id present (1 for an empty list) and whose
  \<^verbatim>\<open>total_sold\<close> is 0.
\<close>

theorem add_inventory_next_id:
  "add_inventory sess data items = Inr (it, items') \<Longrightarrow>
     items' = items @ [it] \<and> total_sold it = 0 \<and>
     item_id it = (if items = [] then 1 else Max (item_id ` set items) + 1)"
  by (auto dest!: add_inventory_Inr new_inventory_item_Inr simp: next_id_def)

text \<open>
  C7: on a collection with distinct ids, a successful
  \<^verbatim>\<open>PUT /api/inventory/<id>\<close> acts on the abstract store (the map from ids to items)
  as a map update at that id; the stored item keeps its id and its
  \<^verbatim>\<open>total_sold\<close>.
\<close>

theorem update_inventory_refines:
  "update_inventory sess iid data items = Inr (it, items') \<Longrightarrow> ids_ok item_id items \<Longrightarrow>
     id_map item_id items' = (id_map item_id items)(iid \<mapsto> it) \<and> item_id it = iid \<and>
     (\<exists>old. id_map item_id items iid = Some old \<and> total_sold it = total_sold old)"
proof -
  assume upd: "update_inventory sess iid data items = Inr (it, items')" and ok: "ids_ok item_id items"
  from update_inventory_Inr [OF upd] obtain u item f where
      found: "find (\<lambda>i. item_id i = iid) items = Some item"
      and fields: "inventory_update_fields data = Inr f" and it: "it = f item"
      and items': "items' = update_first (\<lambda>i. item_id i = iid) f items"
    by (elim exE conjE)
  have keep: "\<And>i. item_id (f i) = item_id i" by (simp add: inventory_update_fields_frame [OF fields])
  show ?thesis
    using update_first_refines [OF keep ok found] inventory_update_fields_frame [OF fields] it items'
    by auto
qed

text \<open>
  C8: after a successful \<^verbatim>\<open>DELETE /api/inventory/<id>\<close> the id is gone from
  the collection and the abstract store is the old one with that id removed; deleting an
  id that is not present succeeds and changes nothing.
\<close>

theorem delete_inventory_refines:
  "delete_inventory sess iid items = Inr items' \<Longrightarrow>
     id_map item_id items' = (id_map item_id items)(iid := None) \<and> iid \<notin> item_id ` set items' \<and>
     (iid \<notin> item_id ` set items \<longrightarrow> items' = items)"
  by (auto dest!: delete_inventory_Inr simp: id_map_filter filter_id_conv)

text \<open>
  C15: on a collection with distinct ids, the in-place update of
  \<^verbatim>\<open>update_inventory\<close> (find the first record with the id, then \<^verbatim>\<open>dict.update\<close>
  it) is equivalent to the comprehension
  \<^verbatim>\<open>[it if i['id'] == item_id else i for i in inventory]\<close> that replaces every record
  with that id by the returned one.
\<close>

theorem update_inventory_comprehension:
  "ids_ok item_id items \<Longrightarrow> update_inventory sess iid data items = Inr (it, items') \<Longrightarrow>
     items' = map (\<lambda>i. if item_id i = iid then it else i) items"
proof -
  assume ok: "ids_ok item_id items" and upd: "update_inventory sess iid data items = Inr (it, items')"
  from update_inventory_Inr [OF upd] obtain u item f where
      found: "find (\<lambda>i. item_id i = iid) items = Some item" and it: "it = f item"
      and items': "items' = update_first (\<lambda>i. item_id i = iid) f items"
    by (elim exE conjE)
  have dist: "distinct (map item_id items)" using ok by (simp add: ids_ok_def)
  have item: "item \<in> set items" "item_id item = iid" using find_Some_ident [OF found] by simp_all
  have same: "y = item" if "y \<in> set items" "item_id y = iid" for y
    using that item dist by (metis inj_on_eq_iff distinct_map)
  have "items' = map (\<lambda>i. if item_id i = iid then f i else i) items"
    using items' by (simp add: update_first_eq_map [OF dist])
  also have "\<dots> = map (\<lambda>i. if item_id i = iid then it else i) items"
    using same it by (auto intro: map_cong)
  finally show ?thesis .
qed

subsection \<open>Witnesses\<close>

lemma add_sample_item:
  "add_inventory (session_of Admin) sample_item_payload inventory_init =
     Inr (sample_item, inventory_init @ [sample_item])"
  by code_simp

theorem add_inventory_next_id_witness:
  "add_inventory (session_of Admin) sample_item_payload inventory_init =
     Inr (sample_item, inventory_init @ [sample_item]) \<and>
   inventory_init @ [sample_item] = inventory_init @ [sample_item] \<and> total_sold sample_item = 0 \<and>
   item_id sample_item = (if inventory_init = [] then 1 else Max (item_id ` set inventory_init) + 1)"
  using add_sample_item add_inventory_next_id [OF add_sample_item] by (rule conjI)

theorem get_inventory_status_cases_witness:
  "quantity (inventory_init ! 2) = 0 \<and> get_inventory_status (inventory_init ! 2) = Out_of_Stock"
proof -
  have h: "quantity (inventory_init ! 2) = 0" by (simp add: inventory_init_def)
  show ?thesis using h get_inventory_status_cases [of "inventory_init ! 2"] by blast
qed

theorem update_inventory_refines_witness:
  "update_inventory (session_of Admin) 3 sample_item_payload inventory_init =
     Inr (fst (projr (update_inventory (session_of Admin) 3 sample_item_payload inventory_init)),
          snd (projr (update_inventory (session_of Admin) 3 sample_item_payload inventory_init))) \<and>
   ids_ok item_id inventory_init \<and>
   id_map item_id (snd (projr (update_inventory (session_of Admin) 3 sample_item_payload inventory_init))) =
     (id_map item_id inventory_init)(3 \<mapsto> fst (projr (update_inventory (session_of Admin) 3 sample_item_payload inventory_init))) \<and>
   item_id (fst (projr (update_inventory (session_of Admin) 3 sample_item_payload inventory_init))) = 3 \<and>
   (\<exists>old. id_map item_id inventory_init 3 = Some old \<and>
      total_sold (fst (projr (update_inventory (session_of Admin) 3 sample_item_payload inventory_init))) = total_sold old)"
proof -
  have h1: "update_inventory (session_of Admin) 3 sample_item_payload inventory_init =
     Inr (fst (projr (update_inventory (session_of Admin) 3 sample_item_payload inventory_init)),
          snd (projr (update_inventory (session_of Admin) 3 sample_item_payload inventory_init)))"
    by code_simp
  have h2: "ids_ok item_id inventory_init" by (simp add: ids_ok_def inventory_init_def)
  show ?thesis using h1 h2 update_inventory_refines [OF h1 h2] by blast
qed

theorem delete_inventory_refines_witness:
  "delete_inventory (session_of Admin) 5 inventory_init = Inr (take 4 inventory_init) \<and>
   id_map item_id (take 4 inventory_init) = (id_map item_id inventory_init)(5 := None) \<and>
   5 \<notin> item_id ` set (take 4 inventory_init)"
proof -
  have h: "delete_inventory (session_of Admin) 5 inventory_init = Inr (take 4 inventory_init)"
    by (simp add: delete_inventory_def session_of_def inventory_init_def)
  show ?thesis using h delete_inventory_refines [OF h] by blast
qed

theorem update_inventory_comprehension_witness:
  "ids_ok item_id inventory_init \<and>
   update_inventory (session_of Admin) 2 sample_item_payload inventory_init =
     Inr (fst (projr (update_inventory (session_of Admin) 2 sample_item_payload inventory_init)),
          snd (projr (update_inventory (session_of Admin) 2 sample_item_payload inventory_init))) \<and>
   snd (projr (update_inventory (session_of Admin) 2 sample_item_payload inventory_init)) =
     map (\<lambda>i. if item_id i = 2 then fst (projr (update_inventory (session_of Admin) 2 sample_item_payload inventory_init))
              else i) inventory_init"
proof -
  have ok: "ids_ok item_id inventory_init" by (simp add: ids_ok_def inventory_init_def)
  have h: "update_inventory (session_of Admin) 2 sample_item_payload inventory_init =
     Inr (fst (projr (update_inventory (session_of Admin) 2 sample_item_payload inventory_init)),
          snd (projr (update_inventory (session_of Admin) 2 sample_item_payload inventory_init)))"
    by code_simp
  show ?thesis using ok h update_inventory_comprehension [OF ok h] by blast
qed

end
