(* ===== verification/Production.thy ===== *)
theory Production
  imports Auth
begin

text \<open>
  The production-line collection of \<^verbatim>\<open>src/main.py\<close>: the line record, the fixture
  list \<^verbatim>\<open>production_lines\<close> and the handlers \<^verbatim>\<open>get_production\<close>,
  \<^verbatim>\<open>add_production\<close> and \<^verbatim>\<open>update_production\<close> (there is no delete). Writes are
  allowed to the roles \<^verbatim>\<open>admin\<close> and \<^verbatim>\<open>production\<close>. The update leaves
  \<^verbatim>\<open>id\<close> and \<^verbatim>\<open>materials\<close> as they were; \<^verbatim>\<open>materials\<close> is stored as whatever
  JSON value the client sent (\<^verbatim>\<open>[]\<close> when absent).
\<close>

record prod_line =
  line_id :: nat
  line_name :: jval
  product :: jval
  materials :: jval
  output_rate :: int
  output_unit :: jval
  line_status :: jval
  efficiency :: real
  today_produced :: int
  target_production :: int

definition material :: "string \<Rightarrow> int \<Rightarrow> string \<Rightarrow> jval" where
  "material n q u = JObj [(''name'', JStr n), (''quantity'', JInt q), (''unit'', JStr u)]"

definition production_lines_init :: "prod_line list" where
  "production_lines_init =
     [\<lparr>line_id = 1, line_name = JStr ''Shampoo Production Line'', product = JStr ''Lavender Dreams Shampoo'',
       materials = JList [material ''Lavender Extract'' 50 ''ml'', material ''Surfactant Base'' 200 ''ml'',
                          material ''Preservatives'' 5 ''ml''],
       output_rate = 450, output_unit = JStr ''bottles'', line_status = JStr ''active'',
       efficiency = 92.5, today_produced = 3325, target_production = 3600\<rparr>,
      \<lparr>line_id = 2, line_name = JStr ''Perfume Blending Line'', product = JStr ''Rose Garden Perfume'',
       materials = JList [material ''Rose Essence'' 30 ''ml'', material ''Alcohol Base'' 40 ''ml'',
                          material ''Fixative'' 5 ''ml''],
       output_rate = 180, output_unit = JStr ''bottles'', line_status = JStr ''active'',
       efficiency = 88.7, today_produced = 1276, target_production = 1440\<rparr>,
      \<lparr>line_id = 3, line_name = JStr ''Cream Manufacturing Line'', product = JStr ''Vitamin C Face Cream'',
       materials = JList [material ''Vitamin C Powder'' 10 ''g'', material ''Emulsion Base'' 45 ''ml''],
       output_rate = 300, output_unit = JStr ''jars'', line_status = JStr ''maintenance'',
       efficiency = 0, today_produced = 0, target_production = 2400\<rparr>]"

definition get_production :: "session \<Rightarrow> prod_line list \<Rightarrow> api_error + prod_line list" where
  "get_production sess lines = login_required sess (\<lambda>_. Inr lines)"

definition new_production_line :: "nat \<Rightarrow> jval \<Rightarrow> py_exc + prod_line" where
  "new_production_line new_id data =
     sbind (py_getitem data ''name'') (\<lambda>n.
     sbind (py_getitem data ''product'') (\<lambda>p.
     sbind (py_get data ''materials'' (JList [])) (\<lambda>m.
     sbind (sbind (py_getitem data ''output_rate'') py_int) (\<lambda>r.
     sbind (py_getitem data ''output_unit'') (\<lambda>ou.
     sbind (py_getitem data ''status'') (\<lambda>st.
     sbind (sbind (py_getitem data ''efficiency'') py_float) (\<lambda>ef.
     sbind (sbind (py_getitem data ''today_produced'') py_int) (\<lambda>tp.
     sbind (sbind (py_getitem data ''target_production'') py_int) (\<lambda>tg.
       Inr \<lparr>line_id = new_id, line_name = n, product = p, materials = m, output_rate = r,
            output_unit = ou, line_status = st, efficiency = ef, today_produced = tp,
            target_production = tg\<rparr>)))))))))"

definition add_production :: "session \<Rightarrow> jval \<Rightarrow> prod_line list \<Rightarrow> api_error + (prod_line \<times> prod_line list)" where
  "add_production sess data lines =
     login_required sess (\<lambda>u.
       if su_role u \<notin> set [''admin'', ''production''] then Inl (Forbidden ''Permission denied'')
       else let new_id = next_id line_id lines in
         sbind (lift_err Raised (new_production_line new_id data)) (\<lambda>new_line.
           Inr (new_line, lines @ [new_line])))"

definition production_update_fields :: "jval \<Rightarrow> py_exc + (prod_line \<Rightarrow> prod_line)" where
  "production_update_fields data =
     sbind (py_getitem data ''name'') (\<lambda>n.
     sbind (py_getitem data ''product'') (\<lambda>p.
     sbind (sbind (py_getitem data ''output_rate'') py_int) (\<lambda>r.
     sbind (py_getitem data ''output_unit'') (\<lambda>ou.
     sbind (py_getitem data ''status'') (\<lambda>st.
     sbind (sbind (py_getitem data ''efficiency'') py_float) (\<lambda>ef.
     sbind (sbind (py_getitem data ''today_produced'') py_int) (\<lambda>tp.
     sbind (sbind (py_getitem data ''target_production'') py_int) (\<lambda>tg.
       Inr (\<lambda>line. line\<lparr>line_name := n, product := p, output_rate := r, output_unit := ou,
            line_status := st, efficiency := ef, today_produced := tp,
            target_production := tg\<rparr>)))))))))"

definition update_production ::
  "session \<Rightarrow> nat \<Rightarrow> jval \<Rightarrow> prod_line list \<Rightarrow> api_error + (prod_line \<times> prod_line list)" where
  "update_production sess lid data lines =
     login_required sess (\<lambda>u.
       if su_role u \<notin> set [''admin'', ''production''] then Inl (Forbidden ''Permission denied'')
       else case find (\<lambda>l. line_id l = lid) lines of
         None \<Rightarrow> Inl (NotFound ''Line not found'')
       | Some line \<Rightarrow>
           sbind (lift_err Raised (production_update_fields data)) (\<lambda>upd.
             Inr (upd line, update_first (\<lambda>l. line_id l = lid) upd lines)))"

text \<open>
  A request body for \<^verbatim>\<open>PUT /api/production/<id>\<close>; it also sends a
  \<^verbatim>\<open>materials\<close> list, which the handler ignores.
\<close>

definition line_update_payload :: jval where
  "line_update_payload =
     JObj [(''name'', JStr ''Shampoo Production Line''), (''product'', JStr ''Lavender Dreams Shampoo''),
           (''materials'', JList []), (''output_rate'', JStr ''500''), (''output_unit'', JStr ''bottles''),
           (''status'', JStr ''maintenance''), (''efficiency'', JInt 90), (''today_produced'', JInt 10),
           (''target_production'', JInt 3600)]"

section \<open>Lemmas\<close>

lemma new_production_line_Inr:
  "new_production_line nid data = Inr l \<Longrightarrow> line_id l = nid"
  by (auto simp: new_production_line_def)

lemma production_update_fields_frame:
  "production_update_fields data = Inr upd \<Longrightarrow>
     line_id (upd l) = line_id l \<and> materials (upd l) = materials l"
  by (auto simp: production_update_fields_def)

lemma add_production_Inr:
  "add_production sess data lines = Inr (l, lines') \<Longrightarrow>
     \<exists>u. sess = Some u \<and> su_role u \<in> {''admin'', ''production''} \<and>
        new_production_line (next_id line_id lines) data = Inr l \<and> lines' = lines @ [l]"
  by (auto simp: add_production_def login_required_def split: option.splits if_splits)

lemma update_production_Inr:
  "update_production sess lid data lines = Inr (l, lines') \<Longrightarrow>
     \<exists>u line upd. sess = Some u \<and> su_role u \<in> {''admin'', ''production''} \<and>
        find (\<lambda>x. line_id x = lid) lines = Some line \<and>
        production_update_fields data = Inr upd \<and> l = upd line \<and>
        lines' = update_first (\<lambda>x. line_id x = lid) upd lines"
  by (auto simp: update_production_def login_required_def split: option.splits if_splits)

lemma add_production_ids_ok:
  "add_production sess data lines = Inr (l, lines') \<Longrightarrow> ids_ok line_id lines \<Longrightarrow> ids_ok line_id lines'"
  by (auto dest!: add_production_Inr new_production_line_Inr intro: ids_ok_snoc_fresh)

lemma update_production_ids_ok:
  "update_production sess lid data lines = Inr (l, lines') \<Longrightarrow> ids_ok line_id lines \<Longrightarrow> ids_ok line_id lines'"
  by (auto dest!: update_production_Inr intro!: ids_ok_update_first dest: production_update_fields_frame)

subsection \<open>Properties\<close>

text \<open>
  C13: on a collection with distinct ids, a successful
  \<^verbatim>\<open>PUT /api/production/<id>\<close> is the map update at that id of the abstract store,
  and the stored line keeps its id and its \<^verbatim>\<open>materials\<close>, whatever the body says.
\<close>

theorem update_production_refines:
  "update_production sess lid data lines = Inr (l, lines') \<Longrightarrow> ids_ok line_id lines \<Longrightarrow>
     \<exists>old. id_map line_id lines lid = Some old \<and> id_map line_id lines' = (id_map line_id lines)(lid \<mapsto> l) \<and>
       line_id l = lid \<and> materials l = materials old"
proof -
  assume upd: "update_production sess lid data lines = Inr (l, lines')" and ok: "ids_ok line_id lines"
  from update_production_Inr [OF upd] obtain u line f where
      found: "find (\<lambda>x. line_id x = lid) lines = Some line"
      and fields: "production_update_fields data = Inr f" and l: "l = f line"
      and lines': "lines' = update_first (\<lambda>x. line_id x = lid) f lines"
    by (elim exE conjE)
  have keep: "\<And>x. line_id (f x) = line_id x" by (simp add: production_update_fields_frame [OF fields])
  show ?thesis
    using update_first_refines [OF keep ok found] production_update_fields_frame [OF fields] l lines'
    by auto
qed

subsection \<open>Witnesses\<close>

theorem update_production_refines_witness:
  "update_production (session_of Production) 1 line_update_payload production_lines_init =
     Inr (fst (projr (update_production (session_of Production) 1 line_update_payload production_lines_init)),
          snd (projr (update_production (session_of Production) 1 line_update_payload production_lines_init))) \<and>
   ids_ok line_id production_lines_init \<and>
   (\<exists>old. id_map line_id production_lines_init 1 = Some old \<and>
      id_map line_id (snd (projr (update_production (session_of Production) 1 line_update_payload production_lines_init))) =
        (id_map line_id production_lines_init)
          (1 \<mapsto> fst (projr (update_production (session_of Production) 1 line_update_payload production_lines_init))) \<and>
      line_id (fst (projr (update_production (session_of Production) 1 line_update_payload production_lines_init))) = 1 \<and>
      materials (fst (projr (update_production (session_of Production) 1 line_update_payload production_lines_init))) =
        materials old)"
proof -
  have h: "update_production (session_of Production) 1 line_update_payload production_lines_init =
     Inr (fst (projr (update_production (session_of Production) 1 line_update_payload production_lines_init)),
          snd (projr (update_production (session_of Production) 1 line_update_payload production_lines_init)))"
    by code_simp
  have ok: "ids_ok line_id production_lines_init" by (simp add: ids_ok_def production_lines_init_def)
  show ?thesis using h ok update_production_refines [OF h ok] by blast
qed

end
