(* ===== verification/Sales.thy ===== *)
theory Sales
  imports Auth
begin

text \<open>
  The sales-order collection of \<^verbatim>\<open>src/main.py\<close>: the order record, the fixture list
  \<^verbatim>\<open>sales_orders\<close> and the handlers \<^verbatim>\<open>get_sales\<close>, \<^verbatim>\<open>add_sales\<close> and
  \<^verbatim>\<open>update_sales\<close> (there is no delete). Writes are allowed to the roles
  \<^verbatim>\<open>admin\<close> and \<^verbatim>\<open>sales\<close>. The update leaves \<^verbatim>\<open>id\<close> and \<^verbatim>\<open>products\<close> as
  they were; \<^verbatim>\<open>products\<close> is stored as whatever JSON value the client sent
  (\<^verbatim>\<open>[]\<close> when absent), and \<^verbatim>\<open>total_amount\<close> is taken from the request, not
  computed from the products.
\<close>

record sales_order =
  order_id :: nat
  order_number :: jval
  client :: jval
  products :: jval
  total_amount :: real
  order_date :: jval
  due_date :: jval
  payment_status :: jval
  delivery_status :: jval

definition order_line :: "string \<Rightarrow> int \<Rightarrow> real \<Rightarrow> jval" where
  "order_line n q p = JObj [(''name'', JStr n), (''quantity'', JInt q), (''price'', JFloat p)]"

definition sales_orders_init :: "sales_order list" where
  "sales_orders_init =
     [\<lparr>order_id = 1, order_number = JStr ''ORD-2025-001'', client = JStr ''BeautyMart Retail Chain'',
       products = JList [order_line ''Lavender Dreams Shampoo'' 500 24.99,
                         order_line ''Coconut Oil Conditioner'' 500 28.99],
       total_amount = 26990.00, order_date = JStr ''2025-10-15'', due_date = JStr ''2025-10-30'',
       payment_status = JStr ''Paid'', delivery_status = JStr ''Delivered''\<rparr>,
      \<lparr>order_id = 2, order_number = JStr ''ORD-2025-002'', client = JStr ''Luxury Spa International'',
       products = JList [order_line ''Rose Garden Perfume'' 200 89.99],
       total_amount = 17998.00, order_date = JStr ''2025-10-18'', due_date = JStr ''2025-11-05'',
       payment_status = JStr ''Pending'', delivery_status = JStr ''Processing''\<rparr>,
      \<lparr>order_id = 3, order_number = JStr ''ORD-2025-003'', client = JStr ''Online Beauty Store'',
       products = JList [order_line ''Anti-Aging Serum'' 150 125.99],
       total_amount = 18898.50, order_date = JStr ''2025-10-10'', due_date = JStr ''2025-10-25'',
       payment_status = JStr ''Overdue'', delivery_status = JStr ''Shipped''\<rparr>]"

definition get_sales :: "session \<Rightarrow> sales_order list \<Rightarrow> api_error + sales_order list" where
  "get_sales sess orders = login_required sess (\<lambda>_. Inr orders)"

definition new_sales_order :: "nat \<Rightarrow> jval \<Rightarrow> py_exc + sales_order" where
  "new_sales_order new_id data =
     sbind (py_getitem data ''order_number'') (\<lambda>num.
     sbind (py_getitem data ''client'') (\<lambda>c.
     sbind (py_get data ''products'' (JList [])) (\<lambda>ps.
     sbind (sbind (py_getitem data ''total_amount'') py_float) (\<lambda>amt.
     sbind (py_getitem data ''order_date'') (\<lambda>od.
     sbind (py_getitem data ''due_date'') (\<lambda>dd.
     sbind (py_getitem data ''payment_status'') (\<lambda>pst.
     sbind (py_getitem data ''delivery_status'') (\<lambda>dst.
       Inr \<lparr>order_id = new_id, order_number = num, client = c, products = ps, total_amount = amt,
            order_date = od, due_date = dd, payment_status = pst, delivery_status = dst\<rparr>))))))))"

definition add_sales :: "session \<Rightarrow> jval \<Rightarrow> sales_order list \<Rightarrow> api_error + (sales_order \<times> sales_order list)" where
  "add_sales sess data orders =
     login_required sess (\<lambda>u.
       if su_role u \<notin> set [''admin'', ''sales''] then Inl (Forbidden ''Permission denied'')
       else let new_id = next_id order_id orders in
         sbind (lift_err Raised (new_sales_order new_id data)) (\<lambda>new_order.
           Inr (new_order, orders @ [new_order])))"

definition sales_update_fields :: "jval \<Rightarrow> py_exc + (sales_order \<Rightarrow> sales_order)" where
  "sales_update_fields data =
     sbind (py_getitem data ''order_number'') (\<lambda>num.
     sbind (py_getitem data ''client'') (\<lambda>c.
     sbind (sbind (py_getitem data ''total_amount'') py_float) (\<lambda>amt.
     sbind (py_getitem data ''order_date'') (\<lambda>od.
     sbind (py_getitem data ''due_date'') (\<lambda>dd.
     sbind (py_getitem data ''payment_status'') (\<lambda>pst.
     sbind (py_getitem data ''delivery_status'') (\<lambda>dst.
       Inr (\<lambda>order. order\<lparr>order_number := num, client := c, total_amount := amt,
            order_date := od, due_date := dd, payment_status := pst,
            delivery_status := dst\<rparr>))))))))"

definition update_sales ::
  "session \<Rightarrow> nat \<Rightarrow> jval \<Rightarrow> sales_order list \<Rightarrow> api_error + (sales_order \<times> sales_order list)" where
  "update_sales sess oid data orders =
     login_required sess (\<lambda>u.
       if su_role u \<notin> set [''admin'', ''sales''] then Inl (Forbidden ''Permission denied'')
       else case find (\<lambda>ordr. order_id ordr = oid) orders of
         None \<Rightarrow> Inl (NotFound ''Order not found'')
       | Some order \<Rightarrow>
           sbind (lift_err Raised (sales_update_fields data)) (\<lambda>upd.
             Inr (upd order, update_first (\<lambda>ordr. order_id ordr = oid) upd orders)))"

text \<open>A request body for \<^verbatim>\<open>POST /api/sales\<close>.\<close>

definition sample_order_payload :: jval where
  "sample_order_payload =
     JObj [(''order_number'', JStr ''ORD-2025-004''), (''client'', JStr ''Glow Boutique''),
           (''total_amount'', JStr ''45.75''), (''order_date'', JStr ''2025-11-01''),
           (''due_date'', JStr ''2025-11-20''), (''payment_status'', JStr ''Pending''),
           (''delivery_status'', JStr ''Processing'')]"

section \<open>Lemmas\<close>

lemma new_sales_order_Inr:
  "new_sales_order nid data = Inr ordr \<Longrightarrow> order_id ordr = nid"
  by (auto simp: new_sales_order_def)

lemma sales_update_fields_frame:
  "sales_update_fields data = Inr upd \<Longrightarrow>
     order_id (upd ordr) = order_id ordr \<and> products (upd ordr) = products ordr"
  by (auto simp: sales_update_fields_def)

lemma add_sales_Inr:
  "add_sales sess data orders = Inr (ordr, orders') \<Longrightarrow>
     \<exists>u. sess = Some u \<and> su_role u \<in> {''admin'', ''sales''} \<and>
        new_sales_order (next_id order_id orders) data = Inr ordr \<and> orders' = orders @ [ordr]"
  by (auto simp: add_sales_def login_required_def split: option.splits if_splits)

lemma update_sales_Inr:
  "update_sales sess oid data orders = Inr (ordr, orders') \<Longrightarrow>
     \<exists>u order upd. sess = Some u \<and> su_role u \<in> {''admin'', ''sales''} \<and>
        find (\<lambda>x. order_id x = oid) orders = Some order \<and>
        sales_update_fields data = Inr upd \<and> ordr = upd order \<and>
        orders' = update_first (\<lambda>x. order_id x = oid) upd orders"
  by (auto simp: update_sales_def login_required_def split: option.splits if_splits)

lemma add_sales_ids_ok:
  "add_sales sess data orders = Inr (ordr, orders') \<Longrightarrow> ids_ok order_id orders \<Longrightarrow> ids_ok order_id orders'"
  by (auto dest!: add_sales_Inr new_sales_order_Inr intro: ids_ok_snoc_fresh)

lemma update_sales_ids_ok:
  "update_sales sess oid data orders = Inr (ordr, orders') \<Longrightarrow> ids_ok order_id orders \<Longrightarrow> ids_ok order_id orders'"
  by (auto dest!: update_sales_Inr intro!: ids_ok_update_first dest: sales_update_fields_frame)

subsection \<open>Properties\<close>

text \<open>
  C14: on a collection with distinct ids, a successful
  \<^verbatim>\<open>PUT /api/sales/<id>\<close> is the map update at that id of the abstract store,
  and the stored order keeps its id and its \<^verbatim>\<open>products\<close>, whatever the body says.
\<close>

theorem update_sales_refines:
  "update_sales sess oid data orders = Inr (ordr, orders') \<Longrightarrow> ids_ok order_id orders \<Longrightarrow>
     \<exists>old. id_map order_id orders oid = Some old \<and> id_map order_id orders' = (id_map order_id orders)(oid \<mapsto> ordr) \<and>
       order_id ordr = oid \<and> products ordr = products old"
proof -
  assume upd: "update_sales sess oid data orders = Inr (ordr, orders')" and ok: "ids_ok order_id orders"
  from update_sales_Inr [OF upd] obtain u order f where
      found: "find (\<lambda>x. order_id x = oid) orders = Some order"
      and fields: "sales_update_fields data = Inr f" and o: "ordr = f order"
      and orders': "orders' = update_first (\<lambda>x. order_id x = oid) f orders"
    by (elim exE conjE)
  have keep: "\<And>x. order_id (f x) = order_id x" by (simp add: sales_update_fields_frame [OF fields])
  show ?thesis
    using update_first_refines [OF keep ok found] sales_update_fields_frame [OF fields] o orders'
    by auto
qed

subsection \<open>Witnesses\<close>

theorem update_sales_refines_witness:
  "update_sales (session_of Sales) 2 sample_order_payload sales_orders_init =
     Inr (fst (projr (update_sales (session_of Sales) 2 sample_order_payload sales_orders_init)),
          snd (projr (update_sales (session_of Sales) 2 sample_order_payload sales_orders_init))) \<and>
   ids_ok order_id sales_orders_init \<and>
   (\<exists>old. id_map order_id sales_orders_init 2 = Some old \<and>
      id_map order_id (snd (projr (update_sales (session_of Sales) 2 sample_order_payload sales_orders_init))) =
        (id_map order_id sales_orders_init)
          (2 \<mapsto> fst (projr (update_sales (session_of Sales) 2 sample_order_payload sales_orders_init))) \<and>
      order_id (fst (projr (update_sales (session_of Sales) 2 sample_order_payload sales_orders_init))) = 2 \<and>
      products (fst (projr (update_sales (session_of Sales) 2 sample_order_payload sales_orders_init))) =
        products old)"
proof -
  have h: "update_sales (session_of Sales) 2 sample_order_payload sales_orders_init =
     Inr (fst (projr (update_sales (session_of Sales) 2 sample_order_payload sales_orders_init)),
          snd (projr (update_sales (session_of Sales) 2 sample_order_payload sales_orders_init)))"
    by code_simp
  have ok: "ids_ok order_id sales_orders_init" by (simp add: ids_ok_def sales_orders_init_def)
  show ?thesis using h ok update_sales_refines [OF h ok] by blast
qed

end
