(* ===== verification/Dashboard.thy ===== *)
theory Dashboard
  imports Inventory Production Sales
begin

text \<open>
  The derived views of \<^verbatim>\<open>src/main.py\<close> that read several collections:
  \<^verbatim>\<open>calculate_dashboard_stats\<close>, recomputed from the live lists on every call, and
  the HTML page routes (\<^verbatim>\<open>index\<close>, \<^verbatim>\<open>dashboard\<close>, \<^verbatim>\<open>inventory_page\<close>,
  \<^verbatim>\<open>production_page\<close>, \<^verbatim>\<open>sales_page\<close>, \<^verbatim>\<open>alerts_page\<close>), modelled as the
  redirect or the template each answers with; the rendering itself is not modelled.
  The revenue is the left-to-right sum Python's \<^verbatim>\<open>sum\<close> computes, over reals.
\<close>

record dashboard_stats =
  total_products :: nat
  low_stock :: nat
  active_lines :: nat
  total_revenue :: real

definition calculate_dashboard_stats ::
  "inv_item list \<Rightarrow> prod_line list \<Rightarrow> sales_order list \<Rightarrow> dashboard_stats" where
  "calculate_dashboard_stats items lines orders =
     \<lparr>total_products = length items,
      low_stock = length (filter (\<lambda>item. get_inventory_status item = Low_Stock) items),
      active_lines = length (filter (\<lambda>line. line_status line = JStr ''active'') lines),
      total_revenue = foldl (\<lambda>acc order. acc + total_amount order) 0 orders\<rparr>"

datatype page =
    Redirect string
  | Render string
  | RenderDashboard dashboard_stats

definition index_page :: "session \<Rightarrow> page" where
  "index_page sess = (case sess of Some _ \<Rightarrow> Redirect ''dashboard'' | None \<Rightarrow> Redirect ''login'')"

definition dashboard_page ::
  "session \<Rightarrow> inv_item list \<Rightarrow> prod_line list \<Rightarrow> sales_order list \<Rightarrow> api_error + page" where
  "dashboard_page sess items lines orders =
     login_required sess (\<lambda>u.
       if su_role u \<noteq> ''admin'' then Inr (Redirect ''inventory_page'')
       else Inr (RenderDashboard (calculate_dashboard_stats items lines orders)))"

definition inventory_page :: "session \<Rightarrow> api_error + page" where
  "inventory_page sess = login_required sess (\<lambda>_. Inr (Render ''inventory.html''))"

definition production_page :: "session \<Rightarrow> api_error + page" where
  "production_page sess = login_required sess (\<lambda>_. Inr (Render ''production.html''))"

definition sales_page :: "session \<Rightarrow> api_error + page" where
  "sales_page sess = login_required sess (\<lambda>_. Inr (Render ''sales.html''))"

definition alerts_page :: "session \<Rightarrow> api_error + page" where
  "alerts_page sess =
     login_required sess (\<lambda>u.
       if su_role u \<noteq> ''admin'' then Inr (Redirect ''dashboard'') else Inr (Render ''alerts.html''))"

text \<open>\<^verbatim>\<open>GET /login\<close>: the login form, with or without a session.\<close>

definition login_page :: page where
  "login_page = Render ''login.html''"

section \<open>Lemmas\<close>

lemma foldl_total_amount:
  "foldl (\<lambda>acc order. acc + total_amount order) a orders = a + sum_list (map total_amount orders)"
  by (induction orders arbitrary: a) (simp_all add: algebra_simps)

text \<open>
  C10: the revenue on the dashboard is exactly the sum of the \<^verbatim>\<open>total_amount\<close>
  of all sales orders at call time, and after a successful \<^verbatim>\<open>POST /api/sales\<close> it
  grows by exactly the new order's amount.
\<close>

theorem dashboard_revenue:
  "total_revenue (calculate_dashboard_stats items lines orders) = sum_list (map total_amount orders) \<and>
   (add_sales sess data orders = Inr (ordr, orders') \<longrightarrow>
      total_revenue (calculate_dashboard_stats items lines orders') =
      total_revenue (calculate_dashboard_stats items lines orders) + total_amount ordr)"
  by (auto simp: calculate_dashboard_stats_def foldl_total_amount dest!: add_sales_Inr)

text \<open>
  C17: the dashboard page, the only place the statistics are shown, renders them
  exactly for a session whose role is \<^verbatim>\<open>admin\<close>, and then renders the statistics of
  the live collections; every other session is redirected (to the inventory page, or to the
  login page without a session).
\<close>

theorem dashboard_page_admin_only:
  "(dashboard_page sess items lines orders = Inr (RenderDashboard st)) \<longleftrightarrow>
   (\<exists>u. sess = Some u \<and> su_role u = ''admin'') \<and> st = calculate_dashboard_stats items lines orders"
  by (auto simp: dashboard_page_def login_required_def split: option.splits)

subsection \<open>Witnesses\<close>

theorem dashboard_revenue_witness:
  "add_sales (session_of Sales) sample_order_payload sales_orders_init =
     Inr (fst (projr (add_sales (session_of Sales) sample_order_payload sales_orders_init)),
          snd (projr (add_sales (session_of Sales) sample_order_payload sales_orders_init))) \<and>
   total_revenue (calculate_dashboard_stats inventory_init production_lines_init
      (snd (projr (add_sales (session_of Sales) sample_order_payload sales_orders_init)))) =
   total_revenue (calculate_dashboard_stats inventory_init production_lines_init sales_orders_init) +
      total_amount (fst (projr (add_sales (session_of Sales) sample_order_payload sales_orders_init)))"
proof -
  have h: "add_sales (session_of Sales) sample_order_payload sales_orders_init =
     Inr (fst (projr (add_sales (session_of Sales) sample_order_payload sales_orders_init)),
          snd (projr (add_sales (session_of Sales) sample_order_payload sales_orders_init)))"
    by code_simp
  show ?thesis
    using h dashboard_revenue [where items = inventory_init and lines = production_lines_init and
        orders = sales_orders_init and sess = "session_of Sales" and data = sample_order_payload]
    by blast
qed

end
