(* ===== verification/Alerts.thy ===== *)
theory Alerts
  imports Auth
begin

text \<open>
  The security-alert collection of \<^verbatim>\<open>src/main.py\<close>: the alert record, the fixture
  list \<^verbatim>\<open>alerts\<close> and the two admin-only handlers \<^verbatim>\<open>get_alerts\<close> and
  \<^verbatim>\<open>resolve_alert\<close>. No handler creates or deletes an alert, and resolving only sets
  the status to \<^verbatim>\<open>'Resolved'\<close>. The fixture timestamps are
  \<^verbatim>\<open>(datetime.now() - timedelta(...)).isoformat()\<close>, evaluated once at start-up: the
  model keeps the instant, in seconds, as a function of the start-up time \<open>now\<close>; the
  ISO rendering is not modelled.
\<close>

record alert =
  alert_id :: nat
  title :: string
  description :: string
  severity :: string
  alert_category :: string
  location :: string
  timestamp :: int
  alert_status :: string

definition alerts_init :: "int \<Rightarrow> alert list" where
  "alerts_init now =
     [\<lparr>alert_id = 1, title = ''Unauthorized Access Detected'',
       description = ''Security cameras detected unauthorized personnel attempting to access Warehouse Section C.'',
       severity = ''Critical'', alert_category = ''Theft'', location = ''Warehouse - Section C'',
       timestamp = now - 2 * 3600, alert_status = ''Active''\<rparr>,
      \<lparr>alert_id = 2, title = ''Fire Alarm Activated'',
       description = ''Smoke detected in Production Line 3 area. Automatic sprinkler system activated.'',
       severity = ''Critical'', alert_category = ''Fire'', location = ''Production Floor - Line 3'',
       timestamp = now - 3600, alert_status = ''Active''\<rparr>,
      \<lparr>alert_id = 3, title = ''Shipment Discrepancy Alert'',
       description = ''Loading dock reported shipment leaving facility without matching order documentation.'',
       severity = ''Warning'', alert_category = ''UnauthorizedShipment'', location = ''Loading Dock - Bay 2'',
       timestamp = now - 24 * 3600, alert_status = ''Resolved''\<rparr>]"

definition get_alerts :: "session \<Rightarrow> alert list \<Rightarrow> api_error + alert list" where
  "get_alerts sess als =
     login_required sess (\<lambda>u.
       if su_role u \<noteq> ''admin'' then Inl (Forbidden ''Admin access required'') else Inr als)"

definition mark_resolved :: "alert \<Rightarrow> alert" where
  "mark_resolved a = a\<lparr>alert_status := ''Resolved''\<rparr>"

definition resolve_alert :: "session \<Rightarrow> nat \<Rightarrow> alert list \<Rightarrow> api_error + (alert \<times> alert list)" where
  "resolve_alert sess aid als =
     login_required sess (\<lambda>u.
       if su_role u \<noteq> ''admin'' then Inl (Forbidden ''Admin access required'')
       else case find (\<lambda>a. alert_id a = aid) als of
         Some a \<Rightarrow> Inr (mark_resolved a, update_first (\<lambda>a. alert_id a = aid) mark_resolved als)
       | None \<Rightarrow> Inl (NotFound ''Alert not found''))"

text \<open>
  The relation between an alert list and its successor: the same alerts in the same
  order, each either unchanged or resolved.
\<close>

definition alert_evolves :: "alert \<Rightarrow> alert \<Rightarrow> bool" where
  "alert_evolves a b \<longleftrightarrow> b = a \<or> b = mark_resolved a"

definition alerts_evolve :: "alert list \<Rightarrow> alert list \<Rightarrow> bool" where
  "alerts_evolve als als' \<longleftrightarrow> list_all2 alert_evolves als als'"

section \<open>Lemmas\<close>

lemma mark_resolved_simps [simp]:
  "alert_id (mark_resolved a) = alert_id a" "alert_status (mark_resolved a) = ''Resolved''"
  "timestamp (mark_resolved a) = timestamp a" "title (mark_resolved a) = title a"
  by (simp_all add: mark_resolved_def)

lemma mark_resolved_idem [simp]: "mark_resolved (mark_resolved a) = mark_resolved a"
  by (simp add: mark_resolved_def)

lemma resolve_alert_Inr:
  "resolve_alert sess aid als = Inr (a', als') \<Longrightarrow>
     \<exists>u a. sess = Some u \<and> su_role u = ''admin'' \<and> find (\<lambda>a. alert_id a = aid) als = Some a \<and>
        a' = mark_resolved a \<and> als' = update_first (\<lambda>a. alert_id a = aid) mark_resolved als"
  by (auto simp: resolve_alert_def login_required_def split: option.splits if_splits)

lemma alerts_evolve_refl [simp]: "alerts_evolve als als"
  by (simp add: alerts_evolve_def alert_evolves_def list.rel_refl)

lemma alerts_evolve_update_first: "alerts_evolve als (update_first p mark_resolved als)"
  by (induction als) (auto simp: alerts_evolve_def alert_evolves_def list.rel_refl)

lemma alert_evolves_trans: "alert_evolves a b \<Longrightarrow> alert_evolves b c \<Longrightarrow> alert_evolves a c"
  by (auto simp: alert_evolves_def)

lemma alerts_evolve_trans:
  "alerts_evolve als als' \<Longrightarrow> alerts_evolve als' als'' \<Longrightarrow> alerts_evolve als als''"
  unfolding alerts_evolve_def by (rule list_all2_trans [OF alert_evolves_trans])

lemma resolve_alert_evolve:
  "resolve_alert sess aid als = Inr (a', als') \<Longrightarrow> alerts_evolve als als'"
  by (auto dest!: resolve_alert_Inr intro: alerts_evolve_update_first)

lemma alerts_evolve_map:
  assumes ev: "alerts_evolve als als'" and keep: "\<And>a. f (mark_resolved a) = f a"
  shows "map f als' = map f als"
proof -
  have len: "length als' = length als" using ev by (simp add: alerts_evolve_def list_all2_lengthD)
  have "f (als' ! i) = f (als ! i)" if i: "i < length als" for i
  proof -
    have "alert_evolves (als ! i) (als' ! i)"
      using ev i by (simp add: alerts_evolve_def list_all2_nthD)
    then show ?thesis using keep by (auto simp: alert_evolves_def)
  qed
  then show ?thesis using len by (auto intro!: nth_equalityI)
qed

end
