(* ===== verification/App.thy ===== *)
theory App
  imports Dashboard Alerts
begin

text \<open>
  The whole application of \<^verbatim>\<open>src/main.py\<close> as a state machine. The state is the
  client's session and the four module-level lists (\<open>db\<close>); a request is one API route
  with its arguments (\<open>request\<close>); \<open>dispatch\<close> runs the route's handler and, when the
  handler returns a new list, stores it in the module global, as the in-place
  \<^verbatim>\<open>append\<close>, \<^verbatim>\<open>dict.update\<close> and the rebinding of \<^verbatim>\<open>inventory\<close> in
  \<^verbatim>\<open>delete_inventory\<close> do. A failing handler changes nothing: every dict literal is
  evaluated before the list is touched. \<open>run\<close> serves a sequence of requests one at a
  time (the single-threaded development server); \<open>reachable\<close> is the set of states
  some sequence of requests leads to from start-up.
\<close>

record db =
  inventory :: "inv_item list"
  production_lines :: "prod_line list"
  sales_orders :: "sales_order list"
  alerts :: "alert list"

definition init_db :: "int \<Rightarrow> db" where
  "init_db now =
     \<lparr>inventory = inventory_init, production_lines = production_lines_init,
      sales_orders = sales_orders_init, alerts = alerts_init now\<rparr>"

datatype request =
    GetInventory
  | AddInventory jval
  | UpdateInventory nat jval
  | DeleteInventory nat
  | GetProduction
  | AddProduction jval
  | UpdateProduction nat jval
  | GetSales
  | AddSales jval
  | UpdateSales nat jval
  | GetAlerts
  | ResolveAlert nat
  | Login jval
  | Logout

datatype reply =
    InventoryList "(inv_item \<times> stock_status) list"
  | InventoryItem inv_item
  | Success
  | LineList "prod_line list"
  | LineItem prod_line
  | OrderList "sales_order list"
  | OrderItem sales_order
  | AlertList "alert list"
  | AlertItem alert
  | LoggedIn string
  | LoggedOut

type_synonym app_state = "session \<times> db"

text \<open>
  \<open>answer r f\<close>: the handler's error, with the state unchanged, or its reply and the
  state \<open>f\<close> builds from its result.
\<close>

definition answer :: "app_state \<Rightarrow> api_error + 'a \<Rightarrow> ('a \<Rightarrow> reply \<times> app_state) \<Rightarrow> (api_error + reply) \<times> app_state" where
  "answer s r f = (case r of Inl e \<Rightarrow> (Inl e, s) | Inr a \<Rightarrow> (let (rep, s') = f a in (Inr rep, s')))"

fun dispatch :: "app_state \<Rightarrow> request \<Rightarrow> (api_error + reply) \<times> app_state" where
  "dispatch (sess, d) GetInventory =
     answer (sess, d) (get_inventory sess (inventory d)) (\<lambda>xs. (InventoryList xs, (sess, d)))"
| "dispatch (sess, d) (AddInventory data) =
     answer (sess, d) (add_inventory sess data (inventory d))
       (\<lambda>(it, items). (InventoryItem it, (sess, d\<lparr>inventory := items\<rparr>)))"
| "dispatch (sess, d) (UpdateInventory iid data) =
     answer (sess, d) (update_inventory sess iid data (inventory d))
       (\<lambda>(it, items). (InventoryItem it, (sess, d\<lparr>inventory := items\<rparr>)))"
| "dispatch (sess, d) (DeleteInventory iid) =
     answer (sess, d) (delete_inventory sess iid (inventory d))
       (\<lambda>items. (Success, (sess, d\<lparr>inventory := items\<rparr>)))"
| "dispatch (sess, d) GetProduction =
     answer (sess, d) (get_production sess (production_lines d)) (\<lambda>ls. (LineList ls, (sess, d)))"
| "dispatch (sess, d) (AddProduction data) =
     answer (sess, d) (add_production sess data (production_lines d))
       (\<lambda>(l, ls). (LineItem l, (sess, d\<lparr>production_lines := ls\<rparr>)))"
| "dispatch (sess, d) (UpdateProduction lid data) =
     answer (sess, d) (update_production sess lid data (production_lines d))
       (\<lambda>(l, ls). (LineItem l, (sess, d\<lparr>production_lines := ls\<rparr>)))"
| "dispatch (sess, d) GetSales =
     answer (sess, d) (get_sales sess (sales_orders d)) (\<lambda>os. (OrderList os, (sess, d)))"
| "dispatch (sess, d) (AddSales data) =
     answer (sess, d) (add_sales sess data (sales_orders d))
       (\<lambda>(x, os). (OrderItem x, (sess, d\<lparr>sales_orders := os\<rparr>)))"
| "dispatch (sess, d) (UpdateSales oid data) =
     answer (sess, d) (update_sales sess oid data (sales_orders d))
       (\<lambda>(x, os). (OrderItem x, (sess, d\<lparr>sales_orders := os\<rparr>)))"
| "dispatch (sess, d) GetAlerts =
     answer (sess, d) (get_alerts sess (alerts d)) (\<lambda>als. (AlertList als, (sess, d)))"
| "dispatch (sess, d) (ResolveAlert aid) =
     answer (sess, d) (resolve_alert sess aid (alerts d))
       (\<lambda>(a, als). (AlertItem a, (sess, d\<lparr>alerts := als\<rparr>)))"
| "dispatch (sess, d) (Login data) =
     answer (sess, d) (login_post data) (\<lambda>(u, rl). (LoggedIn rl, (Some u, d)))"
| "dispatch (sess, d) Logout = (Inr LoggedOut, (logout sess, d))"

fun run :: "app_state \<Rightarrow> request list \<Rightarrow> (api_error + reply) list \<times> app_state" where
  "run s [] = ([], s)"
| "run s (r # rs) =
     (let (res, s') = dispatch s r; (ress, s'') = run s' rs in (res # ress, s''))"

inductive reachable :: "int \<Rightarrow> app_state \<Rightarrow> bool" for now :: int where
  start: "reachable now (None, init_db now)"
| step: "reachable now s \<Longrightarrow> reachable now (snd (dispatch s req))"

text \<open>
  Which entry of the specification's permission table each request exercises; the
  login and logout routes are not gated.
\<close>

fun request_perm :: "request \<Rightarrow> (resource \<times> action) option" where
  "request_perm GetInventory = Some (Inventory, Read)"
| "request_perm (AddInventory _) = Some (Inventory, Write)"
| "request_perm (UpdateInventory _ _) = Some (Inventory, Write)"
| "request_perm (DeleteInventory _) = Some (Inventory, Remove)"
| "request_perm GetProduction = Some (ProductionLines, Read)"
| "request_perm (AddProduction _) = Some (ProductionLines, Write)"
| "request_perm (UpdateProduction _ _) = Some (ProductionLines, Write)"
| "request_perm GetSales = Some (SalesOrders, Read)"
| "request_perm (AddSales _) = Some (SalesOrders, Write)"
| "request_perm (UpdateSales _ _) = Some (SalesOrders, Write)"
| "request_perm GetAlerts = Some (Alerts, Read)"
| "request_perm (ResolveAlert _) = Some (Alerts, Remove)"
| "request_perm (Login _) = None"
| "request_perm Logout = None"

definition db_ok :: "db \<Rightarrow> bool" where
  "db_ok d \<longleftrightarrow> ids_ok item_id (inventory d) \<and> ids_ok line_id (production_lines d) \<and>
     ids_ok order_id (sales_orders d) \<and> ids_ok alert_id (alerts d)"

definition session_ok :: "session \<Rightarrow> bool" where
  "session_ok sess \<longleftrightarrow> sess = None \<or> (\<exists>r. sess = session_of r)"

text \<open>A login request body for the admin account.\<close>

definition sample_login :: jval where
  "sample_login = JObj [(''username'', JStr ''admin''), (''password'', JStr ''admin123'')]"

text \<open>
  The sales counter of every stored item is 0 or one of the start-up values: no route ever
  increments or otherwise sets \<^verbatim>\<open>total_sold\<close>.
\<close>

definition sold_ok :: "inv_item list \<Rightarrow> bool" where
  "sold_ok items \<longleftrightarrow> list_all (\<lambda>i. total_sold i \<in> insert 0 (total_sold ` set inventory_init)) items"

section \<open>Lemmas\<close>

lemma answer_Inl [simp]: "answer s (Inl e) f = (Inl e, s)"
  by (simp add: answer_def)

lemma answer_Inr [simp]: "answer s (Inr a) f = (Inr (fst (f a)), snd (f a))"
  by (simp add: answer_def split: prod.splits)

lemma answer_fst_Inl: "fst (answer s r f) = Inl e \<longleftrightarrow> r = Inl e"
  by (cases r) auto

lemma answer_Inl_state: "fst (answer s r f) = Inl e \<Longrightarrow> snd (answer s r f) = s"
  by (cases r) auto

lemma answer_induct:
  "P s \<Longrightarrow> (\<And>a. r = Inr a \<Longrightarrow> P (snd (f a))) \<Longrightarrow> P (snd (answer s r f))"
  by (cases r) auto

lemma run_Cons_fst: "fst (run s (r # rs)) = fst (dispatch s r) # fst (run (snd (dispatch s r)) rs)"
  by (simp split: prod.splits)

lemma run_Cons_snd: "snd (run s (r # rs)) = snd (run (snd (dispatch s r)) rs)"
  by (simp split: prod.splits)

lemma resolve_alert_ids_ok:
  "resolve_alert sess aid als = Inr (a, als') \<Longrightarrow> ids_ok alert_id als \<Longrightarrow> ids_ok alert_id als'"
  by (auto dest!: resolve_alert_Inr intro!: ids_ok_update_first)

lemmas handler_ids_ok = add_inventory_ids_ok update_inventory_ids_ok delete_inventory_ids_ok
  add_production_ids_ok update_production_ids_ok add_sales_ids_ok update_sales_ids_ok
  resolve_alert_ids_ok

lemmas handler_defs = get_inventory_def add_inventory_def update_inventory_def delete_inventory_def
  get_production_def add_production_def update_production_def get_sales_def add_sales_def
  update_sales_def get_alerts_def resolve_alert_def

subsection \<open>One step keeps the invariants\<close>

lemma dispatch_db_ok:
  "db_ok d \<Longrightarrow> db_ok (snd (snd (dispatch (sess, d) req)))"
  by (cases req; simp only: dispatch.simps; (rule answer_induct [where P = "\<lambda>s. db_ok (snd s)"])?)
     (auto simp: db_ok_def split: prod.splits dest: handler_ids_ok)

lemma dispatch_session_ok:
  "session_ok sess \<Longrightarrow> session_ok (fst (snd (dispatch (sess, d) req)))"
  by (cases req; simp only: dispatch.simps; (rule answer_induct [where P = "\<lambda>s. session_ok (fst s)"])?)
     (auto simp: session_ok_def logout_def split: prod.splits dest: login_post_session_of)

lemma dispatch_alerts_evolve:
  "alerts_evolve (alerts d) (alerts (snd (snd (dispatch (sess, d) req))))"
  by (cases req; simp only: dispatch.simps; (rule answer_induct [where P = "\<lambda>s. alerts_evolve (alerts d) (alerts (snd s))"])?)
     (auto split: prod.splits dest: resolve_alert_evolve)

lemma db_ok_init: "db_ok (init_db now)"
  by (simp add: db_ok_def init_db_def ids_ok_def inventory_init_def production_lines_init_def
      sales_orders_init_def alerts_init_def)

lemma reachable_alerts_evolve:
  "reachable now s \<Longrightarrow> alerts_evolve (alerts_init now) (alerts (snd s))"
proof (induction rule: reachable.induct)
  case start
  then show ?case by (simp add: init_db_def)
next
  case (step s req)
  obtain sess d where s: "s = (sess, d)" by (cases s)
  have "alerts_evolve (alerts d) (alerts (snd (snd (dispatch (sess, d) req))))"
    by (rule dispatch_alerts_evolve)
  with step.IH s show ?case by (auto intro: alerts_evolve_trans)
qed

lemma login_sample_login: "login_post sample_login = Inr (the (session_of Admin), ''admin'')"
  using login_post_role [of Admin] by (simp add: sample_login_def)

lemma add_inventory_sold:
  "add_inventory sess data items = Inr (it, items') \<Longrightarrow> sold_ok items \<Longrightarrow> sold_ok items'"
  by (auto simp: sold_ok_def dest!: add_inventory_Inr new_inventory_item_Inr)

lemma update_inventory_sold:
  "update_inventory sess iid data items = Inr (it, items') \<Longrightarrow> sold_ok items \<Longrightarrow> sold_ok items'"
proof -
  assume upd: "update_inventory sess iid data items = Inr (it, items')" and ok: "sold_ok items"
  from update_inventory_Inr [OF upd] obtain u item f where
      fields: "inventory_update_fields data = Inr f"
      and items': "items' = update_first (\<lambda>i. item_id i = iid) f items"
    by (elim exE conjE)
  have "\<And>i. total_sold (f i) = total_sold i" by (simp add: inventory_update_fields_frame [OF fields])
  then show ?thesis using ok items' unfolding sold_ok_def by (auto intro!: list_all_update_first)
qed

lemma delete_inventory_sold:
  "delete_inventory sess iid items = Inr items' \<Longrightarrow> sold_ok items \<Longrightarrow> sold_ok items'"
  by (auto simp: sold_ok_def list_all_iff dest!: delete_inventory_Inr)

lemma dispatch_sold_ok:
  "sold_ok (inventory d) \<Longrightarrow> sold_ok (inventory (snd (snd (dispatch (sess, d) req))))"
  by (cases req; simp only: dispatch.simps; (rule answer_induct [where P = "\<lambda>s. sold_ok (inventory (snd s))"])?)
     (auto split: prod.splits dest: add_inventory_sold update_inventory_sold delete_inventory_sold)

subsection \<open>Properties of the whole application\<close>

text \<open>
  C1: the role tests of the handlers implement the permission table of the
  specification: for every gated route and every one of the four roles, the route
  answers 403 exactly when the table denies that role the route's action on its
  resource.
\<close>

theorem dispatch_permission:
  "request_perm req = Some (res, act) \<Longrightarrow>
   (\<exists>msg. fst (dispatch (session_of r, d) req) = Inl (Forbidden msg)) \<longleftrightarrow> \<not> spec_permits r res act"
  by (cases req; cases r) (auto simp: session_of_def handler_defs answer_fst_Inl split: option.splits)

text \<open>
  C2: in every state reachable from start-up, the ids of each collection are
  distinct and positive, the session is empty or one of the four roles, and the alert
  list is the fixture list with some alerts resolved (same ids, titles and timestamps;
  an alert resolved at start-up is still resolved).
\<close>

theorem reachable_invariant:
  "reachable now s \<Longrightarrow>
     db_ok (snd s) \<and> session_ok (fst s) \<and> alerts_evolve (alerts_init now) (alerts (snd s))"
proof (induction rule: reachable.induct)
  case start
  have "alerts (init_db now) = alerts_init now" by (simp add: init_db_def)
  then show ?case by (simp add: db_ok_init session_ok_def)
next
  case (step s req)
  obtain sess d where s: "s = (sess, d)" by (cases s)
  have "alerts_evolve (alerts d) (alerts (snd (snd (dispatch (sess, d) req))))"
    by (rule dispatch_alerts_evolve)
  with step.IH s show ?case
    by (auto simp: dispatch_db_ok dispatch_session_ok intro: alerts_evolve_trans)
qed

text \<open>
  C3: a request that fails (403, 404, 401, redirect or an uncaught exception)
  leaves the session and all four collections exactly as they were: no partial update is
  ever stored.
\<close>

theorem dispatch_error_atomic:
  "fst (dispatch s req) = Inl e \<Longrightarrow> snd (dispatch s req) = s"
  by (cases s; cases req) (auto simp: answer_Inl_state)

text \<open>
  C4: without a session every gated route answers with the redirect to
  the login page and changes nothing.
\<close>

theorem dispatch_no_session:
  "request_perm req \<noteq> None \<Longrightarrow> dispatch (None, d) req = (Inl LoginRedirect, (None, d))"
  by (cases req) (simp_all add: handler_defs)

text \<open>
  C16: from every reachable state, whatever earlier requests did to the
  session and the store, the admin can log in and resolve the alerts 1, 2 and 3: each of
  these four requests succeeds and afterwards every alert is resolved. No sequence of
  requests can leave an alert that cannot be resolved.
\<close>

theorem alerts_resolvable:
  "reachable now s \<Longrightarrow>
     list_all (\<lambda>r. \<not> isl r) (fst (run s [Login sample_login, ResolveAlert 1, ResolveAlert 2, ResolveAlert 3])) \<and>
     list_all (\<lambda>a. alert_status a = ''Resolved'')
       (alerts (snd (snd (run s [Login sample_login, ResolveAlert 1, ResolveAlert 2, ResolveAlert 3]))))"
proof -
  assume r: "reachable now s"
  obtain sess d where s: "s = (sess, d)" by (cases s)
  have ev: "alerts_evolve (alerts_init now) (alerts d)" using reachable_alerts_evolve [OF r] s by simp
  have "map alert_id (alerts d) = map alert_id (alerts_init now)"
    by (rule alerts_evolve_map [OF ev]) simp
  then have "map alert_id (alerts d) = [1, 2, 3]" by (simp add: alerts_init_def)
  then obtain a1 a2 a3 where als: "alerts d = [a1, a2, a3]"
      and ids: "alert_id a1 = 1" "alert_id a2 = 2" "alert_id a3 = 3"
    by (auto simp: map_eq_Cons_conv)
  show ?thesis
    using s als ids login_sample_login
    by (simp add: resolve_alert_def session_of_def)
qed

text \<open>
  C20: in every reachable state the \<^verbatim>\<open>total_sold\<close> of every item is 0 (a created
  item) or one of the start-up values: as the specification says, the core never
  increments the counter, and no route writes it.
\<close>

theorem reachable_total_sold:
  "reachable now s \<Longrightarrow> sold_ok (inventory (snd s))"
proof (induction rule: reachable.induct)
  case start
  then show ?case by (simp add: init_db_def sold_ok_def list_all_iff)
next
  case (step s req)
  obtain sess d where s: "s = (sess, d)" by (cases s)
  with step.IH show ?case by (simp add: dispatch_sold_ok)
qed

subsection \<open>Witnesses\<close>

theorem dispatch_permission_witness:
  "request_perm (DeleteInventory 3) = Some (Inventory, Remove) \<and>
   ((\<exists>msg. fst (dispatch (session_of Staff, init_db 0) (DeleteInventory 3)) = Inl (Forbidden msg)) \<longleftrightarrow>
    \<not> spec_permits Staff Inventory Remove)"
proof -
  have h: "request_perm (DeleteInventory 3) = Some (Inventory, Remove)" by simp
  show ?thesis using h dispatch_permission [OF h, where r = Staff and d = "init_db 0"] by (rule conjI)
qed

theorem reachable_invariant_witness:
  "reachable 0 (snd (dispatch (None, init_db 0) (Login sample_login))) \<and>
   db_ok (snd (snd (dispatch (None, init_db 0) (Login sample_login)))) \<and>
   session_ok (fst (snd (dispatch (None, init_db 0) (Login sample_login)))) \<and>
   alerts_evolve (alerts_init 0) (alerts (snd (snd (dispatch (None, init_db 0) (Login sample_login)))))"
proof -
  have h: "reachable 0 (snd (dispatch (None, init_db 0) (Login sample_login)))"
    by (rule reachable.step [OF reachable.start])
  show ?thesis using h reachable_invariant [OF h] by (rule conjI)
qed

theorem dispatch_error_atomic_witness:
  "fst (dispatch (session_of Staff, init_db 0) (DeleteInventory 3)) = Inl (Forbidden ''Permission denied'') \<and>
   snd (dispatch (session_of Staff, init_db 0) (DeleteInventory 3)) = (session_of Staff, init_db 0)"
proof -
  have h: "fst (dispatch (session_of Staff, init_db 0) (DeleteInventory 3)) = Inl (Forbidden ''Permission denied'')"
    by (simp add: delete_inventory_def session_of_def)
  show ?thesis using h dispatch_error_atomic [OF h] by (rule conjI)
qed

theorem dispatch_no_session_witness:
  "request_perm GetAlerts \<noteq> None \<and> dispatch (None, init_db 0) GetAlerts = (Inl LoginRedirect, (None, init_db 0))"
proof -
  have h: "request_perm GetAlerts \<noteq> None" by simp
  show ?thesis using h dispatch_no_session [OF h] by (rule conjI)
qed

theorem alerts_resolvable_witness:
  "reachable 0 (None, init_db 0) \<and>
   list_all (\<lambda>r. \<not> isl r)
     (fst (run (None, init_db 0) [Login sample_login, ResolveAlert 1, ResolveAlert 2, ResolveAlert 3])) \<and>
   list_all (\<lambda>a. alert_status a = ''Resolved'')
     (alerts (snd (snd (run (None, init_db 0) [Login sample_login, ResolveAlert 1, ResolveAlert 2, ResolveAlert 3]))))"
proof -
  have r: "reachable 0 (None, init_db 0)" by (rule reachable.start)
  show ?thesis using r alerts_resolvable [OF r] by (rule conjI)
qed

theorem reachable_total_sold_witness:
  "reachable 0 (snd (dispatch (None, init_db 0) (Login sample_login))) \<and>
   sold_ok (inventory (snd (snd (dispatch (None, init_db 0) (Login sample_login)))))"
proof -
  have r: "reachable 0 (snd (dispatch (None, init_db 0) (Login sample_login)))"
    by (rule reachable.step [OF reachable.start])
  show ?thesis using r reachable_total_sold [OF r] by (rule conjI)
qed

end
