(* ===== verification/Schema.thy ===== *)
theory Schema
  imports App
begin

text \<open>
  The typed input structure the specification asks for (sections 3 and 4.4: required and
  optional fields of each create and update, with their types and bounds) and the types of
  the stored records, against which the handlers of \<^verbatim>\<open>src/main.py\<close> are checked. The
  handlers validate nothing themselves; the theorems say what a body that conforms to the
  schema guarantees: the handler does not raise unless \<^verbatim>\<open>float()\<close> overflows on a number
  too large for a double, and the store keeps the specified types.
\<close>

datatype ftype = FText | FInteger | FCount | FNumber | FAmount | FPercent | FSeq

fun field_ok :: "ftype \<Rightarrow> jval \<Rightarrow> bool" where
  "field_ok FText (JStr _) = True"
| "field_ok FInteger (JInt _) = True"
| "field_ok FCount (JInt i) = (0 \<le> i)"
| "field_ok FNumber (JInt _) = True"
| "field_ok FNumber (JFloat _) = True"
| "field_ok FAmount (JInt i) = (0 \<le> i)"
| "field_ok FAmount (JFloat r) = (0 \<le> r)"
| "field_ok FPercent (JInt i) = (0 \<le> i \<and> i \<le> 100)"
| "field_ok FPercent (JFloat r) = (0 \<le> r \<and> r \<le> 100)"
| "field_ok FSeq (JList _) = True"
| "field_ok _ _ = False"

type_synonym schema = "(string \<times> ftype \<times> bool) list"

text \<open>A body conforms when it is an object, every required key is present with a value of its
  type, and every optional key is absent or has a value of its type.\<close>

definition conforms :: "schema \<Rightarrow> jval \<Rightarrow> bool" where
  "conforms sch data \<longleftrightarrow>
     (case data of
        JObj _ \<Rightarrow> list_all (\<lambda>(k, ty, req). case py_getitem data k of
                    Inr v \<Rightarrow> field_ok ty v | Inl _ \<Rightarrow> \<not> req) sch
      | _ \<Rightarrow> False)"

definition inventory_schema :: schema where
  "inventory_schema =
     [(''sku'', FText, True), (''name'', FText, True), (''category'', FText, True),
      (''quantity'', FCount, True), (''min_quantity'', FCount, True), (''price'', FAmount, True),
      (''supplier'', FText, True), (''expiry_date'', FText, False)]"

definition production_schema :: schema where
  "production_schema =
     [(''name'', FText, True), (''product'', FText, True), (''materials'', FSeq, False),
      (''output_rate'', FInteger, True), (''output_unit'', FText, True), (''status'', FText, True),
      (''efficiency'', FPercent, True), (''today_produced'', FCount, True),
      (''target_production'', FCount, True)]"

definition sales_schema :: schema where
  "sales_schema =
     [(''order_number'', FText, True), (''client'', FText, True), (''products'', FSeq, False),
      (''total_amount'', FNumber, True), (''order_date'', FText, True), (''due_date'', FText, True),
      (''payment_status'', FText, True), (''delivery_status'', FText, True)]"

text \<open>The types of the stored records (section 3).\<close>

definition item_typed :: "inv_item \<Rightarrow> bool" where
  "item_typed i \<longleftrightarrow>
     field_ok FText (sku i) \<and> field_ok FText (item_name i) \<and> field_ok FText (category i) \<and>
     field_ok FText (supplier i) \<and> field_ok FText (expiry_date i) \<and>
     0 \<le> quantity i \<and> 0 \<le> min_quantity i \<and> 0 \<le> price i \<and> 0 \<le> total_sold i"

definition line_typed :: "prod_line \<Rightarrow> bool" where
  "line_typed l \<longleftrightarrow>
     field_ok FText (line_name l) \<and> field_ok FText (product l) \<and> field_ok FSeq (materials l) \<and>
     field_ok FText (output_unit l) \<and> field_ok FText (line_status l) \<and>
     0 \<le> efficiency l \<and> efficiency l \<le> 100 \<and> 0 \<le> today_produced l \<and> 0 \<le> target_production l"

definition order_typed :: "sales_order \<Rightarrow> bool" where
  "order_typed ordr \<longleftrightarrow>
     field_ok FText (order_number ordr) \<and> field_ok FText (client ordr) \<and> field_ok FSeq (products ordr) \<and>
     field_ok FText (order_date ordr) \<and> field_ok FText (due_date ordr) \<and>
     field_ok FText (payment_status ordr) \<and> field_ok FText (delivery_status ordr)"

definition db_typed :: "db \<Rightarrow> bool" where
  "db_typed d \<longleftrightarrow>
     list_all item_typed (inventory d) \<and> list_all line_typed (production_lines d) \<and>
     list_all order_typed (sales_orders d)"

text \<open>
  A number fits a double when \<^verbatim>\<open>float()\<close> of it does not overflow; a body's numbers fit
  when every value of a float field does.
\<close>

fun float_fits :: "jval \<Rightarrow> bool" where
  "float_fits (JInt i) = (\<bar>i\<bar> < float_int_limit)"
| "float_fits _ = True"

definition floats_fit :: "schema \<Rightarrow> jval \<Rightarrow> bool" where
  "floats_fit sch data \<longleftrightarrow>
     list_all (\<lambda>(k, ty, req). ty \<in> {FNumber, FAmount} \<longrightarrow>
       (case py_getitem data k of Inr v \<Rightarrow> float_fits v | Inl _ \<Rightarrow> True)) sch"

fun request_conforms :: "request \<Rightarrow> bool" where
  "request_conforms (AddInventory data) = conforms inventory_schema data"
| "request_conforms (UpdateInventory _ data) = conforms inventory_schema data"
| "request_conforms (AddProduction data) = conforms production_schema data"
| "request_conforms (UpdateProduction _ data) = conforms production_schema data"
| "request_conforms (AddSales data) = conforms sales_schema data"
| "request_conforms (UpdateSales _ data) = conforms sales_schema data"
| "request_conforms _ = True"

text \<open>Request bodies that conform to the three schemas.\<close>

definition typed_item_body :: jval where
  "typed_item_body =
     JObj [(''sku'', JStr ''SER-9''), (''name'', JStr ''Serum''), (''category'', JStr ''Serums''),
           (''quantity'', JInt 40), (''min_quantity'', JInt 25), (''price'', JInt 15),
           (''supplier'', JStr ''Derma Solutions Ltd'')]"

definition typed_line_body :: jval where
  "typed_line_body =
     JObj [(''name'', JStr ''Line B''), (''product'', JStr ''Serum''), (''output_rate'', JInt 80),
           (''output_unit'', JStr ''bottles''), (''status'', JStr ''active''), (''efficiency'', JInt 75),
           (''today_produced'', JInt 0), (''target_production'', JInt 500)]"

definition typed_order_body :: jval where
  "typed_order_body =
     JObj [(''order_number'', JStr ''ORD-2025-005''), (''client'', JStr ''Glow Boutique''),
           (''total_amount'', JInt 120), (''order_date'', JStr ''2025-11-01''),
           (''due_date'', JStr ''2025-11-20''), (''payment_status'', JStr ''Pending''),
           (''delivery_status'', JStr ''Processing'')]"

section \<open>Lemmas\<close>

lemma conforms_field:
  assumes "conforms sch data" "(k, ty, req) \<in> set sch"
  shows "case py_getitem data k of Inr v \<Rightarrow> field_ok ty v | Inl _ \<Rightarrow> \<not> req"
proof -
  obtain kvs where d: "data = JObj kvs" using assms(1) by (cases data) (auto simp: conforms_def)
  have "\<forall>x\<in>set sch. case x of (k, ty, req) \<Rightarrow>
          (case py_getitem data k of Inr v \<Rightarrow> field_ok ty v | Inl _ \<Rightarrow> \<not> req)"
    using assms(1) d by (simp add: conforms_def list_all_iff)
  from bspec [OF this assms(2)] show ?thesis by simp
qed

lemma conforms_required:
  assumes "conforms sch data" "(k, ty, True) \<in> set sch"
  shows "\<exists>v. py_getitem data k = Inr v \<and> field_ok ty v"
  using conforms_field [OF assms] by (cases "py_getitem data k") auto

lemma conforms_optional:
  assumes "conforms sch data" "(k, ty, False) \<in> set sch"
  shows "\<exists>v. py_get data k dflt = Inr v \<and> (field_ok ty v \<or> v = dflt)"
proof -
  obtain kvs where d: "data = JObj kvs" using assms(1) by (cases data) (auto simp: conforms_def)
  show ?thesis
    using conforms_field [OF assms] d by (auto simp: py_get_def py_getitem_def split: option.splits)
qed

lemma field_text: "field_ok FText v \<Longrightarrow> \<exists>s. v = JStr s"
  by (cases v) auto

lemma field_count: "field_ok FCount v \<Longrightarrow> \<exists>i. py_int v = Inr i \<and> 0 \<le> i"
  by (cases v) auto

lemma field_integer: "field_ok FInteger v \<Longrightarrow> \<exists>i. py_int v = Inr i"
  by (cases v) auto

lemma field_number: "field_ok FNumber v \<Longrightarrow> float_fits v \<Longrightarrow> \<exists>r. py_float v = Inr r"
  by (cases v) auto

lemma field_amount: "field_ok FAmount v \<Longrightarrow> float_fits v \<Longrightarrow> \<exists>r. py_float v = Inr r"
  by (cases v) auto

lemma field_amount_Inr: "field_ok FAmount v \<Longrightarrow> py_float v = Inr r \<Longrightarrow> 0 \<le> r"
  by (cases v) (auto split: if_splits)

lemma field_percent: "field_ok FPercent v \<Longrightarrow> \<exists>r. py_float v = Inr r \<and> 0 \<le> r \<and> r \<le> 100"
  by (cases v) (auto simp: float_int_limit_def)

lemma floats_fit_field:
  "floats_fit sch data \<Longrightarrow> (k, ty, req) \<in> set sch \<Longrightarrow> py_getitem data k = Inr v \<Longrightarrow>
     ty \<in> {FNumber, FAmount} \<Longrightarrow> float_fits v"
  by (force simp: floats_fit_def list_all_iff)

text \<open>What a conforming body yields for each kind of field, as the handlers read it.\<close>

lemma req_text: "conforms sch data \<Longrightarrow> (k, FText, True) \<in> set sch \<Longrightarrow> \<exists>s. py_getitem data k = Inr (JStr s)"
  by (auto dest!: conforms_required dest: field_text)

lemma req_count:
  "conforms sch data \<Longrightarrow> (k, FCount, True) \<in> set sch \<Longrightarrow>
     \<exists>v i. py_getitem data k = Inr v \<and> py_int v = Inr i \<and> 0 \<le> i"
  by (blast dest: conforms_required field_count)

lemma req_integer:
  "conforms sch data \<Longrightarrow> (k, FInteger, True) \<in> set sch \<Longrightarrow> \<exists>v i. py_getitem data k = Inr v \<and> py_int v = Inr i"
  by (blast dest: conforms_required field_integer)

lemma req_number:
  "conforms sch data \<Longrightarrow> (k, FNumber, True) \<in> set sch \<Longrightarrow> \<exists>v. py_getitem data k = Inr v \<and> field_ok FNumber v"
  by (rule conforms_required)

lemma req_amount:
  "conforms sch data \<Longrightarrow> (k, FAmount, True) \<in> set sch \<Longrightarrow> \<exists>v. py_getitem data k = Inr v \<and> field_ok FAmount v"
  by (rule conforms_required)

lemma req_percent:
  "conforms sch data \<Longrightarrow> (k, FPercent, True) \<in> set sch \<Longrightarrow>
     \<exists>v r. py_getitem data k = Inr v \<and> py_float v = Inr r \<and> 0 \<le> r \<and> r \<le> 100"
  by (blast dest: conforms_required field_percent)

lemma opt_text:
  "conforms sch data \<Longrightarrow> (k, FText, False) \<in> set sch \<Longrightarrow> \<exists>s. py_get data k (JStr '''') = Inr (JStr s)"
proof -
  assume "conforms sch data" "(k, FText, False) \<in> set sch"
  from conforms_optional [OF this, of "JStr ''''"] obtain v where
    "py_get data k (JStr '''') = Inr v" "field_ok FText v \<or> v = JStr ''''" by blast
  then show ?thesis by (cases v) auto
qed

lemma opt_seq:
  "conforms sch data \<Longrightarrow> (k, FSeq, False) \<in> set sch \<Longrightarrow> \<exists>xs. py_get data k (JList []) = Inr (JList xs)"
proof -
  assume "conforms sch data" "(k, FSeq, False) \<in> set sch"
  from conforms_optional [OF this, of "JList []"] obtain v where
    "py_get data k (JList []) = Inr v" "field_ok FSeq v \<or> v = JList []" by blast
  then show ?thesis by (cases v) auto
qed

text \<open>The values a conforming body yields for the keys each handler reads, in one place.\<close>

lemma inventory_body:
  assumes c: "conforms inventory_schema data"
  shows "\<exists>s n ct sp vq q vm mq vp e.
     py_getitem data ''sku'' = Inr (JStr s) \<and> py_getitem data ''name'' = Inr (JStr n) \<and>
     py_getitem data ''category'' = Inr (JStr ct) \<and> py_getitem data ''supplier'' = Inr (JStr sp) \<and>
     py_getitem data ''quantity'' = Inr vq \<and> py_int vq = Inr q \<and> 0 \<le> q \<and>
     py_getitem data ''min_quantity'' = Inr vm \<and> py_int vm = Inr mq \<and> 0 \<le> mq \<and>
     py_getitem data ''price'' = Inr vp \<and> field_ok FAmount vp \<and>
     py_get data ''expiry_date'' (JStr '''') = Inr (JStr e)"
proof -
  have m: "(''sku'', FText, True) \<in> set inventory_schema" "(''name'', FText, True) \<in> set inventory_schema"
    "(''category'', FText, True) \<in> set inventory_schema" "(''supplier'', FText, True) \<in> set inventory_schema"
    "(''quantity'', FCount, True) \<in> set inventory_schema" "(''min_quantity'', FCount, True) \<in> set inventory_schema"
    "(''price'', FAmount, True) \<in> set inventory_schema" "(''expiry_date'', FText, False) \<in> set inventory_schema"
    by (simp_all add: inventory_schema_def)
  show ?thesis
    using req_text [OF c m(1)] req_text [OF c m(2)] req_text [OF c m(3)] req_text [OF c m(4)]
      req_count [OF c m(5)] req_count [OF c m(6)] req_amount [OF c m(7)] opt_text [OF c m(8)]
    by blast
qed

lemma production_body:
  assumes c: "conforms production_schema data"
  shows "\<exists>n p ms vr r ou st ve ef vt tp vg tg.
     py_getitem data ''name'' = Inr (JStr n) \<and> py_getitem data ''product'' = Inr (JStr p) \<and>
     py_get data ''materials'' (JList []) = Inr (JList ms) \<and>
     py_getitem data ''output_rate'' = Inr vr \<and> py_int vr = Inr r \<and>
     py_getitem data ''output_unit'' = Inr (JStr ou) \<and> py_getitem data ''status'' = Inr (JStr st) \<and>
     py_getitem data ''efficiency'' = Inr ve \<and> py_float ve = Inr ef \<and> 0 \<le> ef \<and> ef \<le> 100 \<and>
     py_getitem data ''today_produced'' = Inr vt \<and> py_int vt = Inr tp \<and> 0 \<le> tp \<and>
     py_getitem data ''target_production'' = Inr vg \<and> py_int vg = Inr tg \<and> 0 \<le> tg"
proof -
  have m: "(''name'', FText, True) \<in> set production_schema" "(''product'', FText, True) \<in> set production_schema"
    "(''materials'', FSeq, False) \<in> set production_schema" "(''output_rate'', FInteger, True) \<in> set production_schema"
    "(''output_unit'', FText, True) \<in> set production_schema" "(''status'', FText, True) \<in> set production_schema"
    "(''efficiency'', FPercent, True) \<in> set production_schema"
    "(''today_produced'', FCount, True) \<in> set production_schema"
    "(''target_production'', FCount, True) \<in> set production_schema"
    by (simp_all add: production_schema_def)
  show ?thesis
    using req_text [OF c m(1)] req_text [OF c m(2)] opt_seq [OF c m(3)] req_integer [OF c m(4)]
      req_text [OF c m(5)] req_text [OF c m(6)] req_percent [OF c m(7)] req_count [OF c m(8)]
      req_count [OF c m(9)]
    by blast
qed

lemma sales_body:
  assumes c: "conforms sales_schema data"
  shows "\<exists>num cl ps va od dd pst dst.
     py_getitem data ''order_number'' = Inr (JStr num) \<and> py_getitem data ''client'' = Inr (JStr cl) \<and>
     py_get data ''products'' (JList []) = Inr (JList ps) \<and>
     py_getitem data ''total_amount'' = Inr va \<and> field_ok FNumber va \<and>
     py_getitem data ''order_date'' = Inr (JStr od) \<and> py_getitem data ''due_date'' = Inr (JStr dd) \<and>
     py_getitem data ''payment_status'' = Inr (JStr pst) \<and> py_getitem data ''delivery_status'' = Inr (JStr dst)"
proof -
  have m: "(''order_number'', FText, True) \<in> set sales_schema" "(''client'', FText, True) \<in> set sales_schema"
    "(''products'', FSeq, False) \<in> set sales_schema" "(''total_amount'', FNumber, True) \<in> set sales_schema"
    "(''order_date'', FText, True) \<in> set sales_schema" "(''due_date'', FText, True) \<in> set sales_schema"
    "(''payment_status'', FText, True) \<in> set sales_schema" "(''delivery_status'', FText, True) \<in> set sales_schema"
    by (simp_all add: sales_schema_def)
  show ?thesis
    using req_text [OF c m(1)] req_text [OF c m(2)] opt_seq [OF c m(3)] req_number [OF c m(4)]
      req_text [OF c m(5)] req_text [OF c m(6)] req_text [OF c m(7)] req_text [OF c m(8)]
    by blast
qed

subsection \<open>What a conforming body stores when the handler succeeds\<close>

lemma new_inventory_item_typed:
  assumes c: "conforms inventory_schema data" and ok: "new_inventory_item nid data = Inr it"
  shows "item_typed it"
proof -
  obtain s n ct sp vq q vm mq vp e where b:
    "py_getitem data ''sku'' = Inr (JStr s)" "py_getitem data ''name'' = Inr (JStr n)"
    "py_getitem data ''category'' = Inr (JStr ct)" "py_getitem data ''supplier'' = Inr (JStr sp)"
    "py_getitem data ''quantity'' = Inr vq" "py_int vq = Inr q" "0 \<le> q"
    "py_getitem data ''min_quantity'' = Inr vm" "py_int vm = Inr mq" "0 \<le> mq"
    "py_getitem data ''price'' = Inr vp" "field_ok FAmount vp"
    "py_get data ''expiry_date'' (JStr '''') = Inr (JStr e)"
    using inventory_body [OF c] by blast
  from ok b obtain p where p: "py_float vp = Inr p"
    and it: "it = \<lparr>item_id = nid, sku = JStr s, item_name = JStr n, category = JStr ct, quantity = q,
      min_quantity = mq, price = p, supplier = JStr sp, expiry_date = JStr e, total_sold = 0\<rparr>"
    by (auto simp: new_inventory_item_def)
  show ?thesis using it b field_amount_Inr [OF b(12) p] by (simp add: item_typed_def)
qed

lemma inventory_update_fields_typed:
  assumes c: "conforms inventory_schema data" and ok: "inventory_update_fields data = Inr f"
    and i: "item_typed i"
  shows "item_typed (f i)"
proof -
  obtain s n ct sp vq q vm mq vp e where b:
    "py_getitem data ''sku'' = Inr (JStr s)" "py_getitem data ''name'' = Inr (JStr n)"
    "py_getitem data ''category'' = Inr (JStr ct)" "py_getitem data ''supplier'' = Inr (JStr sp)"
    "py_getitem data ''quantity'' = Inr vq" "py_int vq = Inr q" "0 \<le> q"
    "py_getitem data ''min_quantity'' = Inr vm" "py_int vm = Inr mq" "0 \<le> mq"
    "py_getitem data ''price'' = Inr vp" "field_ok FAmount vp"
    "py_get data ''expiry_date'' (JStr '''') = Inr (JStr e)"
    using inventory_body [OF c] by blast
  from ok b obtain p where p: "py_float vp = Inr p"
    and f: "f = (\<lambda>item. item\<lparr>sku := JStr s, item_name := JStr n, category := JStr ct, quantity := q,
      min_quantity := mq, price := p, supplier := JStr sp, expiry_date := JStr e\<rparr>)"
    by (auto simp: inventory_update_fields_def)
  show ?thesis using f b i field_amount_Inr [OF b(12) p] by (simp add: item_typed_def)
qed

lemma new_production_line_typed:
  "conforms production_schema data \<Longrightarrow> \<exists>l. new_production_line nid data = Inr l \<and> line_typed l"
  by (auto dest!: production_body simp: new_production_line_def line_typed_def)

lemma production_update_fields_typed:
  "conforms production_schema data \<Longrightarrow> production_update_fields data = Inr f \<Longrightarrow>
     line_typed l \<Longrightarrow> line_typed (f l)"
  by (auto dest!: production_body simp: production_update_fields_def line_typed_def)

lemma new_sales_order_typed:
  "conforms sales_schema data \<Longrightarrow> new_sales_order nid data = Inr x \<Longrightarrow> order_typed x"
  by (auto dest!: sales_body simp: new_sales_order_def order_typed_def)

lemma sales_update_fields_typed:
  "conforms sales_schema data \<Longrightarrow> sales_update_fields data = Inr f \<Longrightarrow>
     order_typed x \<Longrightarrow> order_typed (f x)"
  by (auto dest!: sales_body simp: sales_update_fields_def order_typed_def)

subsection \<open>A conforming body whose numbers fit a double never makes a create raise\<close>

lemma new_inventory_item_exists:
  assumes c: "conforms inventory_schema data" and fit: "floats_fit inventory_schema data"
  shows "\<exists>it. new_inventory_item nid data = Inr it"
proof -
  obtain s n ct sp vq q vm mq vp e where b:
    "py_getitem data ''sku'' = Inr (JStr s)" "py_getitem data ''name'' = Inr (JStr n)"
    "py_getitem data ''category'' = Inr (JStr ct)" "py_getitem data ''supplier'' = Inr (JStr sp)"
    "py_getitem data ''quantity'' = Inr vq" "py_int vq = Inr q" "0 \<le> q"
    "py_getitem data ''min_quantity'' = Inr vm" "py_int vm = Inr mq" "0 \<le> mq"
    "py_getitem data ''price'' = Inr vp" "field_ok FAmount vp"
    "py_get data ''expiry_date'' (JStr '''') = Inr (JStr e)"
    using inventory_body [OF c] by blast
  have "float_fits vp"
    using floats_fit_field [OF fit _ b(11), of FAmount True] by (simp add: inventory_schema_def)
  then obtain p where "py_float vp = Inr p" using field_amount [OF b(12)] by blast
  then show ?thesis using b by (simp add: new_inventory_item_def)
qed

lemma new_sales_order_exists:
  assumes c: "conforms sales_schema data" and fit: "floats_fit sales_schema data"
  shows "\<exists>x. new_sales_order nid data = Inr x"
proof -
  obtain num cl ps va od dd pst dst where b:
    "py_getitem data ''order_number'' = Inr (JStr num)" "py_getitem data ''client'' = Inr (JStr cl)"
    "py_get data ''products'' (JList []) = Inr (JList ps)"
    "py_getitem data ''total_amount'' = Inr va" "field_ok FNumber va"
    "py_getitem data ''order_date'' = Inr (JStr od)" "py_getitem data ''due_date'' = Inr (JStr dd)"
    "py_getitem data ''payment_status'' = Inr (JStr pst)" "py_getitem data ''delivery_status'' = Inr (JStr dst)"
    using sales_body [OF c] by blast
  have "float_fits va"
    using floats_fit_field [OF fit _ b(4), of FNumber True] by (simp add: sales_schema_def)
  then obtain amt where "py_float va = Inr amt" using field_number [OF b(5)] by blast
  then show ?thesis using b by (simp add: new_sales_order_def)
qed

subsection \<open>The handlers keep the store typed\<close>

lemma add_inventory_typed:
  "conforms inventory_schema data \<Longrightarrow> add_inventory sess data items = Inr (it, items') \<Longrightarrow>
     list_all item_typed items \<Longrightarrow> list_all item_typed items'"
  by (auto dest!: add_inventory_Inr dest: new_inventory_item_typed)

lemma update_inventory_typed:
  "conforms inventory_schema data \<Longrightarrow> update_inventory sess iid data items = Inr (it, items') \<Longrightarrow>
     list_all item_typed items \<Longrightarrow> list_all item_typed items'"
  by (auto dest!: update_inventory_Inr intro!: list_all_update_first dest: inventory_update_fields_typed)

lemma delete_inventory_typed:
  "delete_inventory sess iid items = Inr items' \<Longrightarrow> list_all item_typed items \<Longrightarrow> list_all item_typed items'"
  by (auto dest!: delete_inventory_Inr simp: list_all_iff)

lemma add_production_typed:
  "conforms production_schema data \<Longrightarrow> add_production sess data lines = Inr (l, lines') \<Longrightarrow>
     list_all line_typed lines \<Longrightarrow> list_all line_typed lines'"
  using add_production_Inr [of sess data lines] new_production_line_typed [of data "next_id line_id lines"] by (auto simp: conj_commute)

lemma update_production_typed:
  "conforms production_schema data \<Longrightarrow> update_production sess lid data lines = Inr (l, lines') \<Longrightarrow>
     list_all line_typed lines \<Longrightarrow> list_all line_typed lines'"
  by (auto dest!: update_production_Inr intro!: list_all_update_first dest: production_update_fields_typed)

lemma add_sales_typed:
  "conforms sales_schema data \<Longrightarrow> add_sales sess data orders = Inr (x, orders') \<Longrightarrow>
     list_all order_typed orders \<Longrightarrow> list_all order_typed orders'"
  by (auto dest!: add_sales_Inr dest: new_sales_order_typed)

lemma update_sales_typed:
  "conforms sales_schema data \<Longrightarrow> update_sales sess oid data orders = Inr (x, orders') \<Longrightarrow>
     list_all order_typed orders \<Longrightarrow> list_all order_typed orders'"
  by (auto dest!: update_sales_Inr intro!: list_all_update_first dest: sales_update_fields_typed)

lemmas handler_typed = add_inventory_typed update_inventory_typed delete_inventory_typed
  add_production_typed update_production_typed add_sales_typed update_sales_typed

lemma dispatch_typed:
  "db_typed d \<Longrightarrow> request_conforms req \<Longrightarrow> db_typed (snd (snd (dispatch (sess, d) req)))"
  by (cases req; simp only: dispatch.simps request_conforms.simps;
      (rule answer_induct [where P = "\<lambda>s. db_typed (snd s)"])?)
     (auto simp: db_typed_def split: prod.splits dest: handler_typed)

lemma db_typed_init: "db_typed (init_db now)"
  by (simp add: db_typed_def init_db_def item_typed_def line_typed_def order_typed_def inventory_init_def
      production_lines_init_def sales_orders_init_def order_line_def material_def)

subsection \<open>Properties\<close>

text \<open>
  C19: the store keeps the types of the specification's data model (text fields are
  strings, counts and prices are non-negative, efficiency is a percentage, materials and
  products are lists) across any sequence of requests whose bodies conform to the schema:
  well-typed requests never put an ill-typed record in the store.
\<close>

theorem run_preserves_typing:
  "db_typed (snd s) \<Longrightarrow> list_all request_conforms rs \<Longrightarrow> db_typed (snd (snd (run s rs)))"
proof (induction rs arbitrary: s)
  case Nil
  then show ?case by simp
next
  case (Cons r rs)
  obtain sess d where s: "s = (sess, d)" by (cases s)
  have "db_typed (snd (snd (dispatch (sess, d) r)))"
    using Cons.prems s by (intro dispatch_typed) simp_all
  then show ?case using Cons.IH [of "snd (dispatch (sess, d) r)"] Cons.prems s
    by (simp del: run.simps add: run_Cons_snd)
qed

text \<open>
  C25: a create whose body conforms to the schema, by a role the permission table
  allows, never raises: it succeeds, appends exactly the new record, and the record has the
  specified types.
\<close>

theorem conforming_creates_succeed:
  "conforms inventory_schema di \<Longrightarrow> floats_fit inventory_schema di \<Longrightarrow>
   conforms production_schema dp \<Longrightarrow>
   conforms sales_schema ds \<Longrightarrow> floats_fit sales_schema ds \<Longrightarrow>
   (\<exists>it. add_inventory (session_of Admin) di items = Inr (it, items @ [it]) \<and> item_typed it) \<and>
   (\<exists>l. add_production (session_of Production) dp lines = Inr (l, lines @ [l]) \<and> line_typed l) \<and>
   (\<exists>x. add_sales (session_of Sales) ds orders = Inr (x, orders @ [x]) \<and> order_typed x)"
proof -
  assume ci: "conforms inventory_schema di" and fi: "floats_fit inventory_schema di"
    and cp: "conforms production_schema dp"
    and cs: "conforms sales_schema ds" and fs: "floats_fit sales_schema ds"
  from new_inventory_item_exists [OF ci fi, of "next_id item_id items"] obtain it where
    i: "new_inventory_item (next_id item_id items) di = Inr it" by blast
  from new_production_line_typed [OF cp, of "next_id line_id lines"] obtain l where
    "new_production_line (next_id line_id lines) dp = Inr l" "line_typed l" by blast
  moreover from new_sales_order_exists [OF cs fs, of "next_id order_id orders"] obtain x where
    x: "new_sales_order (next_id order_id orders) ds = Inr x" by blast
  moreover note i new_inventory_item_typed [OF ci i] new_sales_order_typed [OF cs x]
  ultimately show ?thesis
    by (simp add: add_inventory_def add_production_def add_sales_def session_of_def)
qed

subsection \<open>Witnesses\<close>

lemma typed_bodies_conform:
  "conforms inventory_schema typed_item_body" "conforms production_schema typed_line_body"
  "conforms sales_schema typed_order_body"
  by (simp_all add: conforms_def inventory_schema_def production_schema_def sales_schema_def py_getitem_def
      typed_item_body_def typed_line_body_def typed_order_body_def)

theorem run_preserves_typing_witness:
  "db_typed (snd (session_of Admin, init_db 0)) \<and>
   list_all request_conforms [AddInventory typed_item_body, UpdateInventory 2 typed_item_body] \<and>
   db_typed (snd (snd (run (session_of Admin, init_db 0) [AddInventory typed_item_body, UpdateInventory 2 typed_item_body])))"
proof -
  have h1: "db_typed (snd (session_of Admin, init_db 0))" using db_typed_init by simp
  have h2: "list_all request_conforms [AddInventory typed_item_body, UpdateInventory 2 typed_item_body]"
    using typed_bodies_conform by simp
  show ?thesis using h1 h2 run_preserves_typing [OF h1 h2] by blast
qed

theorem conforming_creates_succeed_witness:
  "conforms inventory_schema typed_item_body \<and> floats_fit inventory_schema typed_item_body \<and>
   conforms production_schema typed_line_body \<and>
   conforms sales_schema typed_order_body \<and> floats_fit sales_schema typed_order_body \<and>
   (\<exists>it. add_inventory (session_of Admin) typed_item_body inventory_init = Inr (it, inventory_init @ [it]) \<and> item_typed it) \<and>
   (\<exists>l. add_production (session_of Production) typed_line_body production_lines_init =
      Inr (l, production_lines_init @ [l]) \<and> line_typed l) \<and>
   (\<exists>x. add_sales (session_of Sales) typed_order_body sales_orders_init = Inr (x, sales_orders_init @ [x]) \<and> order_typed x)"
proof -
  have f: "floats_fit inventory_schema typed_item_body" "floats_fit sales_schema typed_order_body"
    by (simp_all add: floats_fit_def inventory_schema_def sales_schema_def py_getitem_def
        typed_item_body_def typed_order_body_def float_int_limit_def)
  show ?thesis
    using typed_bodies_conform f
      conforming_creates_succeed [OF typed_bodies_conform(1) f(1) typed_bodies_conform(2,3) f(2)]
    by blast
qed

end
