(* ===== verification/Concurrency.thy ===== *)
theory Concurrency
  imports Inventory
begin

text \<open>
  Concurrent creates. \<^verbatim>\<open>app.run(debug=True, ...)\<close> starts Werkzeug's development
  server, which since Flask 1.0 serves each request in its own thread. The interpreter may
  switch threads between the bytecodes of \<^verbatim>\<open>add_inventory\<close>, in particular between
  computing \<^verbatim>\<open>new_id\<close> from the list and \<^verbatim>\<open>inventory.append(new_item)\<close>, which
  are the two phases modelled here: \<open>add_inventory_read\<close> (the guards, the id and the
  dict literal, evaluated against the list as it is when the thread runs them) and
  \<open>add_inventory_write\<close> (the append to the list as it is then). An event is one phase of
  one thread; a schedule is the list of events in the order the interpreter runs them.
\<close>

definition add_inventory_read :: "session \<Rightarrow> jval \<Rightarrow> inv_item list \<Rightarrow> api_error + inv_item" where
  "add_inventory_read sess data items =
     login_required sess (\<lambda>u.
       if su_role u \<notin> set [''admin''] then Inl (Forbidden ''Permission denied'')
       else let new_id = next_id item_id items in lift_err Raised (new_inventory_item new_id data))"

definition add_inventory_write :: "inv_item list \<Rightarrow> inv_item \<Rightarrow> inv_item list" where
  "add_inventory_write items new_item = items @ [new_item]"

text \<open>
  \<^verbatim>\<open>delete_inventory\<close> has two phases as well: the comprehension
  \<^verbatim>\<open>[i for i in inventory if i['id'] != item_id]\<close> builds a new list from the list as
  it is then, and the assignment to the global \<^verbatim>\<open>inventory\<close> installs it later.
\<close>

definition delete_inventory_write :: "inv_item list \<Rightarrow> inv_item list \<Rightarrow> inv_item list" where
  "delete_inventory_write items new_items = new_items"

datatype cevent =
    Begin nat session jval
  | Commit nat
  | DelBegin nat session nat
  | DelCommit nat

record cstate =
  shared :: "inv_item list"
  pending :: "nat \<rightharpoonup> inv_item"
  pending_del :: "nat \<rightharpoonup> inv_item list"

fun cstep :: "cstate \<Rightarrow> cevent \<Rightarrow> cstate" where
  "cstep s (Begin t sess data) =
     (case add_inventory_read sess data (shared s) of
        Inl _ \<Rightarrow> s
      | Inr it \<Rightarrow> s\<lparr>pending := (pending s)(t \<mapsto> it)\<rparr>)"
| "cstep s (Commit t) =
     (case pending s t of
        None \<Rightarrow> s
      | Some it \<Rightarrow> s\<lparr>shared := add_inventory_write (shared s) it, pending := (pending s)(t := None)\<rparr>)"
| "cstep s (DelBegin t sess iid) =
     (case delete_inventory sess iid (shared s) of
        Inl _ \<Rightarrow> s
      | Inr items' \<Rightarrow> s\<lparr>pending_del := (pending_del s)(t \<mapsto> items')\<rparr>)"
| "cstep s (DelCommit t) =
     (case pending_del s t of
        None \<Rightarrow> s
      | Some items' \<Rightarrow>
          s\<lparr>shared := delete_inventory_write (shared s) items', pending_del := (pending_del s)(t := None)\<rparr>)"

definition cexec :: "cstate \<Rightarrow> cevent list \<Rightarrow> cstate" where
  "cexec s es = foldl cstep s es"

text \<open>A request of a thread, and the single-threaded meaning of a sequence of them.\<close>

datatype job = CreateJob nat session jval | DeleteJob nat session nat

fun job_events :: "job \<Rightarrow> cevent list" where
  "job_events (CreateJob t sess data) = [Begin t sess data, Commit t]"
| "job_events (DeleteJob t sess iid) = [DelBegin t sess iid, DelCommit t]"

fun job_store :: "inv_item list \<Rightarrow> job \<Rightarrow> inv_item list" where
  "job_store items (CreateJob t sess data) =
     (case add_inventory sess data items of Inl _ \<Rightarrow> items | Inr (_, items') \<Rightarrow> items')"
| "job_store items (DeleteJob t sess iid) =
     (case delete_inventory sess iid items of Inl _ \<Rightarrow> items | Inr items' \<Rightarrow> items')"

text \<open>The schedules a lock around the handlers allows: each thread's two phases back to back.\<close>

definition serial_schedule :: "job list \<Rightarrow> cevent list" where
  "serial_schedule jobs = concat (map job_events jobs)"

text \<open>The store at start-up, no thread half way through a request.\<close>

definition cinit :: cstate where
  "cinit = \<lparr>shared = inventory_init, pending = Map.empty, pending_del = Map.empty\<rparr>"

section \<open>Lemmas\<close>

lemma add_inventory_phases:
  "add_inventory sess data items =
     sbind (add_inventory_read sess data items) (\<lambda>it. Inr (it, add_inventory_write items it))"
  by (simp add: add_inventory_def add_inventory_read_def add_inventory_write_def login_required_def
      sbind_def lift_err_def split: option.splits sum.splits)

lemma cexec_Nil [simp]: "cexec s [] = s"
  by (simp add: cexec_def)

lemma cexec_append [simp]: "cexec s (es @ es') = cexec (cexec s es) es'"
  by (simp add: cexec_def)

lemma cexec_job:
  assumes "pending s = Map.empty" "pending_del s = Map.empty"
  shows "cexec s (job_events job) =
     \<lparr>shared = job_store (shared s) job, pending = Map.empty, pending_del = Map.empty\<rparr>"
  using assms
  by (cases s; cases job)
     (auto simp: cexec_def add_inventory_phases delete_inventory_write_def split: sum.splits)

lemma job_store_ids_ok:
  "ids_ok item_id items \<Longrightarrow> ids_ok item_id (job_store items job)"
  by (cases job) (auto split: sum.splits dest: add_inventory_ids_ok delete_inventory_ids_ok)

lemma new_inventory_item_any_id:
  "new_inventory_item nid data = Inr it \<Longrightarrow> new_inventory_item nid' data = Inr (it\<lparr>item_id := nid'\<rparr>)"
  by (auto simp: new_inventory_item_def)

lemma add_inventory_read_Inr:
  assumes "add_inventory_read sess data items = Inr it"
  shows "item_id it = next_id item_id items \<and>
    add_inventory_read sess data ys = Inr (it\<lparr>item_id := next_id item_id ys\<rparr>)"
  using assms new_inventory_item_Inr new_inventory_item_any_id
  by (auto simp: add_inventory_read_def login_required_def split: option.splits if_splits)

lemma job_store_create:
  "add_inventory_read sess data items = Inr it \<Longrightarrow>
     job_store ys (CreateJob t sess data) = ys @ [it\<lparr>item_id := next_id item_id ys\<rparr>]"
  by (auto simp: add_inventory_phases add_inventory_write_def dest: add_inventory_read_Inr [where ys = ys])

lemma job_store_delete:
  "delete_inventory sess iid items = Inr items' \<Longrightarrow>
     job_store ys (DeleteJob t sess iid) = filter (\<lambda>i. item_id i \<noteq> iid) ys"
  by (auto simp: delete_inventory_def login_required_def split: option.splits if_splits)

lemma foldl_job_store_ids_ok:
  "ids_ok item_id items \<Longrightarrow> ids_ok item_id (foldl job_store items jobs)"
  by (induction jobs arbitrary: items) (simp_all add: job_store_ids_ok)

subsection \<open>Properties\<close>

text \<open>
  C21: under the schedules a lock around the handlers allows (each thread's two
  phases back to back) concurrent creates and deletes have exactly the effect of the same
  requests served one at a time, so the ids stay distinct and positive: the specification's
  serialisation requirement is enough for the id policy and loses no update.
\<close>

theorem serial_schedule_sequential:
  "ids_ok item_id (shared s) \<Longrightarrow> pending s = Map.empty \<Longrightarrow> pending_del s = Map.empty \<Longrightarrow>
     shared (cexec s (serial_schedule jobs)) = foldl job_store (shared s) jobs \<and>
     ids_ok item_id (shared (cexec s (serial_schedule jobs)))"
proof (induction jobs arbitrary: s)
  case Nil
  then show ?case by (simp add: serial_schedule_def)
next
  case (Cons job jobs)
  let ?s' = "\<lparr>shared = job_store (shared s) job, pending = Map.empty, pending_del = Map.empty\<rparr>"
  have "cexec s (serial_schedule (job # jobs)) = cexec ?s' (serial_schedule jobs)"
    using cexec_job [OF Cons.prems(2,3), of job] by (simp add: serial_schedule_def)
  moreover have "ids_ok item_id (shared ?s')" using Cons.prems(1) by (simp add: job_store_ids_ok)
  then have "shared (cexec ?s' (serial_schedule jobs)) = foldl job_store (shared ?s') jobs \<and>
      ids_ok item_id (shared (cexec ?s' (serial_schedule jobs)))"
    by (intro Cons.IH) simp_all
  ultimately show ?case by auto
qed

text \<open>
  C26: without that lock the id policy breaks: whenever two creates that
  succeed on the same store (two threads \<open>t1 \<noteq> t2\<close>) both run their read phase before
  either append, as the threaded server allows, both new items get the id
  \<open>max + 1\<close> of that store, the ids stop being distinct, and neither order of serving
  the two requests one at a time produces that store.
\<close>

theorem concurrent_creates_duplicate_id:
  assumes ok: "ids_ok item_id items" and t: "t1 \<noteq> t2"
    and r1: "add_inventory_read sess1 d1 items = Inr it1"
    and r2: "add_inventory_read sess2 d2 items = Inr it2"
  shows "shared (cexec \<lparr>shared = items, pending = Map.empty, pending_del = Map.empty\<rparr>
            [Begin t1 sess1 d1, Begin t2 sess2 d2, Commit t1, Commit t2]) = items @ [it1, it2] \<and>
    item_id it1 = item_id it2 \<and>
    \<not> ids_ok item_id (items @ [it1, it2]) \<and>
    items @ [it1, it2] \<notin>
      {foldl job_store items [CreateJob t1 sess1 d1, CreateJob t2 sess2 d2],
       foldl job_store items [CreateJob t2 sess2 d2, CreateJob t1 sess1 d1]}"
proof -
  have same: "item_id it1 = item_id it2"
    using add_inventory_read_Inr [OF r1] add_inventory_read_Inr [OF r2] by simp
  then have dup: "\<not> ids_ok item_id (items @ [it1, it2])" by (simp add: ids_ok_def)
  moreover have "items @ [it1, it2] \<noteq> foldl job_store items jobs" for jobs
    using dup foldl_job_store_ids_ok [OF ok, of jobs] by metis
  moreover have "shared (cexec \<lparr>shared = items, pending = Map.empty, pending_del = Map.empty\<rparr>
            [Begin t1 sess1 d1, Begin t2 sess2 d2, Commit t1, Commit t2]) = items @ [it1, it2]"
    using t r1 r2 by (simp add: cexec_def add_inventory_write_def)
  ultimately show ?thesis using same by blast
qed

text \<open>
  C27: and an update is lost: whenever a create's read and append both fall
  between the comprehension of a concurrent delete of an existing item and its assignment,
  the create has answered with its new item, but the item is not in the store afterwards,
  the store is exactly the delete's comprehension, and no order of serving the two
  requests one at a time ends in that store.
\<close>

theorem concurrent_delete_loses_create:
  assumes del: "delete_inventory sessd iid items = Inr items'" and ex: "iid \<in> item_id ` set items"
    and r: "add_inventory_read sessc d items = Inr it"
  shows "add_inventory sessc d items = Inr (it, items @ [it]) \<and>
    shared (cexec \<lparr>shared = items, pending = Map.empty, pending_del = Map.empty\<rparr>
            [DelBegin t1 sessd iid, Begin t2 sessc d, Commit t2, DelCommit t1]) = items' \<and>
    it \<notin> set items' \<and>
    items' \<notin>
      {foldl job_store items [DeleteJob t1 sessd iid, CreateJob t2 sessc d],
       foldl job_store items [CreateJob t2 sessc d, DeleteJob t1 sessd iid]}"
proof -
  have itid: "item_id it = next_id item_id items" using add_inventory_read_Inr [OF r] by simp
  have items': "items' = filter (\<lambda>i. item_id i \<noteq> iid) items"
    using delete_inventory_Inr [OF del] by auto
  have ne: "item_id it \<noteq> iid" using ex itid by (auto dest: next_id_gt [where ident = item_id])
  have "it \<notin> set items" by (metis image_eqI itid next_id_fresh)
  then have notin: "it \<notin> set items'" using items' by simp
  have s1: "foldl job_store items [DeleteJob t1 sessd iid, CreateJob t2 sessc d] =
      items' @ [it\<lparr>item_id := next_id item_id items'\<rparr>]"
    using job_store_delete [OF del] job_store_create [OF r] items' by simp
  have s2: "foldl job_store items [CreateJob t2 sessc d, DeleteJob t1 sessd iid] = items' @ [it]"
    using job_store_delete [OF del] job_store_create [OF r, of items] items' itid ne by simp
  have "shared (cexec \<lparr>shared = items, pending = Map.empty, pending_del = Map.empty\<rparr>
            [DelBegin t1 sessd iid, Begin t2 sessc d, Commit t2, DelCommit t1]) = items'"
    using del r by (simp add: cexec_def delete_inventory_write_def)
  moreover have "add_inventory sessc d items = Inr (it, items @ [it])"
    using r by (simp add: add_inventory_phases add_inventory_write_def)
  moreover have "items' \<noteq> xs @ [x]" if "length xs = length items'" for xs x
    using that by (metis length_append_singleton n_not_Suc_n)
  ultimately show ?thesis using notin s1 s2 by auto
qed

subsection \<open>Witnesses\<close>

theorem serial_schedule_sequential_witness:
  "ids_ok item_id (shared cinit) \<and> pending cinit = Map.empty \<and> pending_del cinit = Map.empty \<and>
   shared (cexec cinit (serial_schedule [DeleteJob 1 (session_of Admin) 5, CreateJob 2 (session_of Admin) sample_item_payload])) =
     foldl job_store (shared cinit) [DeleteJob 1 (session_of Admin) 5, CreateJob 2 (session_of Admin) sample_item_payload] \<and>
   ids_ok item_id (shared (cexec cinit
     (serial_schedule [DeleteJob 1 (session_of Admin) 5, CreateJob 2 (session_of Admin) sample_item_payload])))"
proof -
  have h1: "ids_ok item_id (shared cinit)" by (simp add: cinit_def ids_ok_def inventory_init_def)
  have h2: "pending cinit = Map.empty" and h3: "pending_del cinit = Map.empty" by (simp_all add: cinit_def)
  show ?thesis using h1 h2 h3 serial_schedule_sequential [OF h1 h2 h3] by blast
qed

theorem concurrent_creates_duplicate_id_witness:
  "ids_ok item_id inventory_init \<and> (1::nat) \<noteq> 2 \<and>
   add_inventory_read (session_of Admin) sample_item_payload inventory_init = Inr sample_item \<and>
   shared (cexec \<lparr>shared = inventory_init, pending = Map.empty, pending_del = Map.empty\<rparr>
     [Begin 1 (session_of Admin) sample_item_payload, Begin 2 (session_of Admin) sample_item_payload,
      Commit 1, Commit 2]) = inventory_init @ [sample_item, sample_item] \<and>
   \<not> ids_ok item_id (inventory_init @ [sample_item, sample_item]) \<and>
   inventory_init @ [sample_item, sample_item] \<notin>
     {foldl job_store inventory_init [CreateJob 1 (session_of Admin) sample_item_payload, CreateJob 2 (session_of Admin) sample_item_payload],
      foldl job_store inventory_init [CreateJob 2 (session_of Admin) sample_item_payload, CreateJob 1 (session_of Admin) sample_item_payload]}"
proof -
  have h1: "ids_ok item_id inventory_init" by (simp add: ids_ok_def inventory_init_def)
  have h2: "(1::nat) \<noteq> 2" by simp
  have h3: "add_inventory_read (session_of Admin) sample_item_payload inventory_init = Inr sample_item"
    by code_simp
  show ?thesis using h1 h2 h3 concurrent_creates_duplicate_id [OF h1 h2 h3 h3] by blast
qed

theorem concurrent_delete_loses_create_witness:
  "delete_inventory (session_of Admin) 5 inventory_init = Inr (take 4 inventory_init) \<and>
   (5::nat) \<in> item_id ` set inventory_init \<and>
   add_inventory_read (session_of Admin) sample_item_payload inventory_init = Inr sample_item \<and>
   add_inventory (session_of Admin) sample_item_payload inventory_init = Inr (sample_item, inventory_init @ [sample_item]) \<and>
   shared (cexec \<lparr>shared = inventory_init, pending = Map.empty, pending_del = Map.empty\<rparr>
     [DelBegin 1 (session_of Admin) 5, Begin 2 (session_of Admin) sample_item_payload,
      Commit 2, DelCommit 1]) = take 4 inventory_init \<and>
   sample_item \<notin> set (take 4 inventory_init) \<and>
   take 4 inventory_init \<notin>
     {foldl job_store inventory_init [DeleteJob 1 (session_of Admin) 5, CreateJob 2 (session_of Admin) sample_item_payload],
      foldl job_store inventory_init [CreateJob 2 (session_of Admin) sample_item_payload, DeleteJob 1 (session_of Admin) 5]}"
proof -
  have h1: "delete_inventory (session_of Admin) 5 inventory_init = Inr (take 4 inventory_init)" by code_simp
  have h2: "(5::nat) \<in> item_id ` set inventory_init" by (simp add: inventory_init_def)
  have h3: "add_inventory_read (session_of Admin) sample_item_payload inventory_init = Inr sample_item"
    by code_simp
  show ?thesis using h1 h2 h3 concurrent_delete_loses_create [OF h1 h2 h3] by blast
qed

end
