(* ===== verification/Loops.thy ===== *)
theory Loops
  imports Py_Values "HOL-Library.While_Combinator"
begin

text \<open>
  The two loops every handler of \<^verbatim>\<open>src/main.py\<close> runs over a collection, written as the
  interpreter runs them: the generator search \<^verbatim>\<open>next((x for x in xs if p(x)), None)\<close>
  (lines 286, 391, 464, 525, 561) as a \<open>while_option\<close> loop over an index that stops at the
  first match, and the id expression \<^verbatim>\<open>max([x['id'] for x in xs]) + 1 if xs else 1\<close>
  (lines 365, 438, 500) with Python's \<^verbatim>\<open>max\<close>, which raises \<^verbatim>\<open>ValueError\<close> on an empty
  sequence. The lemmas show that the record-store operations of \<open>Prelude\<close> that the handlers
  are written with (\<open>find\<close>, \<open>next_id\<close>) compute exactly these.
\<close>

definition next_step :: "('a \<Rightarrow> bool) \<Rightarrow> 'a list \<Rightarrow> nat \<times> 'a option \<Rightarrow> nat \<times> 'a option" where
  "next_step p xs = (\<lambda>(i, r). (Suc i, if p (xs ! i) then Some (xs ! i) else None))"

definition next_continue :: "'a list \<Rightarrow> nat \<times> 'a option \<Rightarrow> bool" where
  "next_continue xs = (\<lambda>(i, r). r = None \<and> i < length xs)"

definition py_next :: "('a \<Rightarrow> bool) \<Rightarrow> 'a list \<Rightarrow> 'a option" where
  "py_next p xs =
     (case while_option (next_continue xs) (next_step p xs) (0, None) of
        Some (_, r) \<Rightarrow> r
      | None \<Rightarrow> None)"

fun py_max :: "nat list \<Rightarrow> py_exc + nat" where
  "py_max [] = Inl (ValueError ''max() arg is an empty sequence'')"
| "py_max (x # xs) = Inr (foldl max x xs)"

definition py_new_id :: "('a \<Rightarrow> nat) \<Rightarrow> 'a list \<Rightarrow> py_exc + nat" where
  "py_new_id ident xs = (if xs \<noteq> [] then sbind (py_max (map ident xs)) (\<lambda>m. Inr (m + 1)) else Inr 1)"

section \<open>Lemmas\<close>

lemma find_append_eq:
  "find p (xs @ ys) = (case find p xs of None \<Rightarrow> find p ys | Some x \<Rightarrow> Some x)"
  by (induction xs) auto

lemma find_take_Suc:
  "i < length xs \<Longrightarrow> find p (take (Suc i) xs) =
     (case find p (take i xs) of None \<Rightarrow> if p (xs ! i) then Some (xs ! i) else None | Some x \<Rightarrow> Some x)"
  by (simp add: take_Suc_conv_app_nth find_append_eq split: option.splits)

lemma find_take_Some: "find p (take i xs) = Some x \<Longrightarrow> find p xs = Some x"
  using find_append_eq [of p "take i xs" "drop i xs"] by simp

lemma foldl_max_Max: "foldl max (x::nat) xs = Max (set (x # xs))"
proof -
  have m: "(\<lambda>y s. max s y) = (max :: nat \<Rightarrow> nat \<Rightarrow> nat)" by (auto simp: fun_eq_iff max.commute)
  show ?thesis by (simp only: foldl_conv_fold m Max.set_eq_fold)
qed

text \<open>The loop invariant: the result so far is the search over the prefix already visited.\<close>

definition next_inv :: "('a \<Rightarrow> bool) \<Rightarrow> 'a list \<Rightarrow> nat \<times> 'a option \<Rightarrow> bool" where
  "next_inv p xs = (\<lambda>(i, r). i \<le> length xs \<and> r = find p (take i xs))"

lemma next_inv_step:
  "next_inv p xs s \<Longrightarrow> next_continue xs s \<Longrightarrow> next_inv p xs (next_step p xs s)"
  by (cases s) (simp add: next_inv_def next_continue_def next_step_def find_take_Suc)

lemma next_inv_exit:
  assumes inv: "next_inv p xs s" and stop: "\<not> next_continue xs s"
  shows "snd s = find p xs"
proof -
  obtain i r where s: "s = (i, r)" by (cases s)
  have i: "i \<le> length xs" and r: "r = find p (take i xs)" using inv s by (simp_all add: next_inv_def)
  have st: "r \<noteq> None \<or> length xs \<le> i" using stop s by (auto simp: next_continue_def)
  show ?thesis
  proof (cases r)
    case None
    then have "i = length xs" using i st by simp
    then show ?thesis using r s by simp
  next
    case (Some y)
    then have "find p xs = Some y" using r find_take_Some by metis
    then show ?thesis using s Some by simp
  qed
qed

lemma next_measure:
  "next_inv p xs s \<Longrightarrow> next_continue xs s \<Longrightarrow>
     next_inv p xs (next_step p xs s) \<and> (\<lambda>(i, r). length xs - i) (next_step p xs s) < (\<lambda>(i, r). length xs - i) s"
proof -
  assume inv: "next_inv p xs s" and go: "next_continue xs s"
  have "next_inv p xs (next_step p xs s)" using inv go by (rule next_inv_step)
  moreover have "(\<lambda>(i, r). length xs - i) (next_step p xs s) < (\<lambda>(i, r). length xs - i) s"
    using go by (cases s) (simp add: next_step_def next_continue_def)
  ultimately show ?thesis by (rule conjI)
qed

text \<open>
  The generator search terminates on every list, and what it returns is \<open>find\<close>.
\<close>

lemma py_next_terminates:
  "\<exists>i. while_option (next_continue xs) (next_step p xs) (0, None) = Some (i, find p xs)"
proof -
  have start: "next_inv p xs (0, None)" by (simp add: next_inv_def)
  obtain t where t: "while_option (next_continue xs) (next_step p xs) (0, None) = Some t"
    using measure_while_option_Some [where P = "next_inv p xs", OF next_measure start] by blast
  have "next_inv p xs t" by (rule while_option_rule [OF _ t]) (auto intro: next_inv_step start)
  moreover have "\<not> next_continue xs t" by (rule while_option_stop [OF t])
  ultimately have "snd t = find p xs" by (rule next_inv_exit)
  then show ?thesis using t by (metis prod.collapse)
qed

lemma py_next_find: "py_next p xs = find p xs"
  using py_next_terminates [of xs p] by (auto simp: py_next_def)

text \<open>
  The id expression with Python's \<^verbatim>\<open>max\<close> never raises, since the guard
  \<^verbatim>\<open>if xs\<close> keeps \<^verbatim>\<open>max\<close> away from the empty list, and it computes \<open>next_id\<close>.
\<close>

lemma py_new_id_next_id: "py_new_id ident xs = Inr (next_id ident xs)"
  by (cases "map ident xs") (auto simp: py_new_id_def next_id_def foldl_max_Max)

end
