(* ===== verification/Spec2Isabelle.thy ===== *)
theory Spec2Isabelle
  imports Schema Concurrency Loops
begin

text \<open>
  \<^bold>\<open>A verification model of the production back-office in \<^verbatim>\<open>src/main.py\<close>.\<close>

  The program is one Flask module. Four module-level lists (\<^verbatim>\<open>inventory\<close>,
  \<^verbatim>\<open>production_lines\<close>, \<^verbatim>\<open>sales_orders\<close>, \<^verbatim>\<open>alerts\<close>) are the whole
  store; a fixed credential table \<^verbatim>\<open>USERS\<close> and the session cookie give each request
  a role; every API handler checks the session (\<^verbatim>\<open>login_required\<close>), then the role,
  then reads the JSON body, converts its fields with \<^verbatim>\<open>int()\<close>/\<^verbatim>\<open>float()\<close> and
  appends to, updates in place, or filters one list. The dashboard statistics and the
  inventory status are computed from the lists at read time.

  \<^bold>\<open>Theories and what they model.\<close>
  \<^item> \<open>Prelude\<close>: \<open>sbind\<close> (evaluation that stops at the first exception) and the
    record-store operations all four lists share, over any record type with an id
    projection: \<open>next_id\<close> (\<^verbatim>\<open>max(ids) + 1 if xs else 1\<close>), \<open>find\<close> (the
    \<^verbatim>\<open>next(...)\<close> lookup), \<open>update_first\<close> (\<^verbatim>\<open>dict.update\<close> of the record found),
    filtering (delete), and the abstraction \<open>id_map\<close> of a list to the map from ids to
    records with the lemmas that the list operations refine map insert, update and
    delete (\<open>store_simps\<close>).
  \<^item> \<open>Py_Values\<close>: JSON request bodies (\<open>jval\<close>), Python exceptions (\<open>py_exc\<close>),
    subscripting and \<^verbatim>\<open>dict.get\<close> of a body, and \<^verbatim>\<open>int()\<close>, \<^verbatim>\<open>float()\<close> on JSON
    values, with a decimal parser for strings (whitespace, sign, underscores, fraction,
    exponent) and the \<^verbatim>\<open>OverflowError\<close> of \<^verbatim>\<open>float()\<close> on an integer too large
    for a double.
  \<^item> \<open>Auth\<close>: \<^verbatim>\<open>USERS\<close>, the session, \<^verbatim>\<open>login_required\<close>, \<^verbatim>\<open>admin_required\<close>,
    \<^verbatim>\<open>login\<close> (POST) and \<^verbatim>\<open>logout\<close>; the handlers' error answers \<open>api_error\<close>; the
    specification's permission table \<open>spec_permits\<close>.
  \<^item> \<open>Inventory\<close>, \<open>Production\<close>, \<open>Sales\<close>, \<open>Alerts\<close>: one record per collection, its
    start-up fixture, and one definition per handler (\<^verbatim>\<open>get_/add_/update_/delete_...\<close>,
    \<^verbatim>\<open>get_alerts\<close>, \<^verbatim>\<open>resolve_alert\<close>), each a function of the session, the request
    arguments and the current list returning the error or the result and the new list;
    the dict literals the handlers build are separate definitions
    (\<open>new_inventory_item\<close>, \<open>inventory_update_fields\<close>, ...), evaluated key by key in
    source order.
  \<^item> \<open>Dashboard\<close>: \<^verbatim>\<open>calculate_dashboard_stats\<close> and the page routes.
  \<^item> \<open>App\<close>: the state (session and the four lists), the requests, \<open>dispatch\<close> (one
    request served: the handler runs and its new list replaces the module global),
    \<open>run\<close> (requests one at a time) and the inductive set \<open>reachable\<close> of states reached
    from start-up.
  \<^item> \<open>Schema\<close>: the typed input structure the specification asks for (the fields
    of each create and update with their JSON types and bounds, \<open>conforms\<close>) and the
    types of the stored records (\<open>item_typed\<close>, \<open>line_typed\<close>, \<open>order_typed\<close>); the
    handlers themselves validate nothing.
  \<^item> \<open>Concurrency\<close>: the threaded development server. \<^verbatim>\<open>add_inventory\<close> split into
    its read phase (guards, \<^verbatim>\<open>new_id\<close>, dict literal) and its write phase
    (\<^verbatim>\<open>append\<close>), \<^verbatim>\<open>delete_inventory\<close> into its comprehension and the assignment of
    the global; events of numbered threads, and schedules as event lists.
  \<^item> \<open>Loops\<close>: the two loops the handlers run over a collection, as the interpreter
    runs them: the generator search \<^verbatim>\<open>next((x for x in xs if ...), None)\<close> as a
    \<open>while_option\<close> loop (\<open>py_next\<close>), and \<^verbatim>\<open>max(...) + 1 if xs else 1\<close> with Python's
    raising \<^verbatim>\<open>max\<close> (\<open>py_new_id\<close>); its lemmas (the loop terminates and returns
    \<open>find\<close>; the id expression never raises and equals \<open>next_id\<close>) justify the
    \<open>find\<close> and \<open>next_id\<close> the handler models are written with.
  \<^item> this theory: properties over whole runs and the places where code and
    specification disagree.

  \<^bold>\<open>What is proved.\<close> The role tests implement the specification's permission table
  (C1); every reachable state has distinct positive ids in each list, a session of one of
  the four roles or none, and alerts that only ever move from Active to Resolved (C2);
  failing requests change nothing (C3) and unauthenticated requests are redirected (C4);
  creation assigns the next id and successive creations from empty number the items 1 to
  N (C5, C6); update and delete refine map update and map delete on the abstract store
  (C7, C8); the stock status and the revenue behave as specified (C9, C10); resolving an
  alert is idempotent (C11); login accepts exactly the four accounts (C12). The production
  and sales updates refine map update and keep \<^verbatim>\<open>materials\<close> and \<^verbatim>\<open>products\<close>
  whatever the body says, a departure from the specification's full-field replacement
  (C13, C14); all three updates share one refinement lemma, \<open>update_first_refines\<close> of
  \<open>Prelude\<close>. The in-place inventory update equals the list comprehension that replaces
  the record (C15). From every reachable state the admin can still log in and resolve every
  alert (C16, a liveness property proved from the invariant that the alert ids never
  change). Only an admin session sees the dashboard statistics (C17); the update and
  resolve routes answer 404 exactly for absent ids (C18). Requests whose bodies conform to
  the schema keep every stored record of its specified type over any run (C19, type
  preservation); no route ever sets \<^verbatim>\<open>total_sold\<close> (C20). Schedules that keep each
  request's phases together, as a lock would, have exactly the effect of serving the
  requests one at a time (C21). Over any run of sales creates the dashboard revenue grows
  by exactly the amounts of the orders created (C22). A body that is not a JSON object
  makes every create and the login raise an uncaught exception (C23). A client with no
  session or a staff session cannot change the store by any sequence of requests without
  a login (C24). A conforming create by a permitted role never raises, provided its
  numbers fit a double (C25, type soundness; a larger integer makes \<^verbatim>\<open>float()\<close>
  raise \<^verbatim>\<open>OverflowError\<close>).

  Where the code departs from the specification: under the threaded server any two
  creates whose read phases both run before either append store the same id, a store no
  serial order produces (C26); a create whose read and append fall between a delete's
  comprehension and its assignment is lost, again a store no serial order produces (C27);
  a body without a required key escapes as an uncaught exception (HTTP 500, not a 400
  validation error) for every create route (C28); no quantity is validated, so negative
  quantities are stored (C29); and ids are recomputed from the store, so deleting the
  largest id \<open>m\<close> makes the next create hand out an id of at most \<open>m\<close>, \<open>m\<close> itself
  when \<open>m - 1\<close> is still present (C30).

  \<^bold>\<open>Choices.\<close> Python \<^verbatim>\<open>int\<close> is \<open>int\<close>; ids are \<open>nat\<close> (the route converter
  \<^verbatim>\<open><int:...>\<close> admits no negative ids). Python floats are \<open>real\<close>: IEEE rounding is
  not modelled, so the revenue is the exact sum; the one float failure the handlers can
  meet on a JSON body, \<^verbatim>\<open>OverflowError\<close> of \<^verbatim>\<open>float()\<close> on an integer of magnitude
  at least \<open>2^1024 - 2^970\<close>, is modelled, and C25 assumes it away explicitly. Strings are HOL strings of 8-bit
  characters. No loop of the program is unbounded: every definition is structural
  recursion, so no fuel is needed. The one loop written as a loop, the generator search of
  \<open>Loops\<close>, is a \<open>while_option\<close>, whose termination is proved (by a measure on
  the unvisited suffix) rather than assumed. The schema of \<open>Schema\<close> is the specification's, not the
  code's: the code has none.

  \<^bold>\<open>Not modelled.\<close> HTML rendering (\<^verbatim>\<open>render_template\<close>) and the JSON
  serialisation of answers (\<^verbatim>\<open>jsonify\<close>); the session cookie and its signing (the
  session is a value passed to each request); Flask's own failures of
  \<^verbatim>\<open>request.get_json()\<close> (wrong content type); routes that do not exist; the start-up
  banner; non-finite floats, which are reported as \<open>Unrepresented\<close>. \<open>App\<close> serves one
  request at a time; interleaving is modelled for the inventory create and delete, the two
  handlers whose phases read the list and write it back at different moments. The other
  creates have the same shape as the inventory create and are not repeated; the updates
  change the shared record in one \<^verbatim>\<open>dict.update\<close> call. Interleavings inside the
  comprehension itself (an append the running comprehension still sees) are not modelled:
  the schedules are a subset of the real ones, enough for C26 and C27 and the ones a lock
  leaves for C21. The lines of \<^verbatim>\<open>src/main.py\<close> no definition translates are the module
  docstring, the imports, the creation of the Flask object and its secret key (lines 1 to
  16) and the start-up banner with \<^verbatim>\<open>app.run\<close> (lines 572 to 587): configuration and
  console output with no state a request reads, apart from the threading \<^verbatim>\<open>app.run\<close>
  selects, which \<open>Concurrency\<close> models.
\<close>

text \<open>The amount a reply adds to the revenue: that of the order a create returned.\<close>

fun created_amount :: "api_error + reply \<Rightarrow> real" where
  "created_amount (Inr (OrderItem x)) = total_amount x"
| "created_amount _ = 0"

text \<open>Bodies that are not JSON objects (\<^verbatim>\<open>null\<close>, numbers, strings, lists), and requests that are not logins.\<close>

fun is_object :: "jval \<Rightarrow> bool" where
  "is_object (JObj _) = True"
| "is_object _ = False"

fun is_login :: "request \<Rightarrow> bool" where
  "is_login (Login _) = True"
| "is_login _ = False"

section \<open>Properties across components\<close>

lemma resolve_alert_admin_found:
  "find (\<lambda>a. alert_id a = aid) als = Some a \<Longrightarrow>
     resolve_alert (session_of Admin) aid als =
       Inr (mark_resolved a, update_first (\<lambda>a. alert_id a = aid) mark_resolved als)"
  by (simp add: resolve_alert_def session_of_def)

lemma dispatch_add_inventory_Inr:
  "dispatch s (AddInventory data) = (Inr rep, s') \<Longrightarrow>
     \<exists>it. add_inventory (fst s) data (inventory (snd s)) = Inr (it, inventory (snd s) @ [it]) \<and>
       snd s' = (snd s)\<lparr>inventory := inventory (snd s) @ [it]\<rparr> \<and> fst s' = fst s"
  by (cases s; cases "add_inventory (fst s) data (inventory (snd s))")
     (auto dest!: add_inventory_Inr)

lemma run_add_inventory_ids:
  "map item_id (inventory (snd s)) = [1..<n + 1] \<Longrightarrow> run s (map AddInventory ps) = (ress, s') \<Longrightarrow>
     \<forall>r\<in>set ress. \<not> isl r \<Longrightarrow> map item_id (inventory (snd s')) = [1..<n + length ps + 1]"
proof (induction ps arbitrary: s n ress)
  case Nil
  then show ?case by simp
next
  case (Cons p ps)
  obtain r s1 where d: "dispatch s (AddInventory p) = (r, s1)" by (cases "dispatch s (AddInventory p)")
  obtain ress1 where r1: "run s1 (map AddInventory ps) = (ress1, s')" and ress: "ress = r # ress1"
    using Cons.prems(2) d by (auto split: prod.splits)
  from Cons.prems(3) ress obtain rep where r: "r = Inr rep" by (cases r) auto
  from dispatch_add_inventory_Inr [OF d [unfolded r]] obtain it where
      add: "add_inventory (fst s) p (inventory (snd s)) = Inr (it, inventory (snd s) @ [it])"
      and s1: "snd s1 = (snd s)\<lparr>inventory := inventory (snd s) @ [it]\<rparr>" by blast
  have "item_id it = n + 1"
    using add_inventory_Inr [OF add] new_inventory_item_Inr next_id_upto [OF Cons.prems(1)] by fastforce
  then have ids1: "map item_id (inventory (snd s1)) = [1..<Suc n + 1]"
    using Cons.prems(1) s1 by simp
  have ok1: "\<forall>r\<in>set ress1. \<not> isl r" using Cons.prems(3) ress by simp
  have "map item_id (inventory (snd s')) = [1..<Suc n + length ps + 1]"
    by (rule Cons.IH [OF ids1 r1 ok1])
  moreover have "Suc n + length ps + 1 = n + length (p # ps) + 1" by simp
  ultimately show ?case by (simp only:)
qed

lemma py_getitem_override:
  "py_getitem (JObj (kvs @ [(k, v)])) k' = (if k' = k then Inr v else py_getitem (JObj kvs) k')"
  by (simp add: py_getitem_def)

lemma py_get_override:
  "py_get (JObj (kvs @ [(k, v)])) k' dflt = (if k' = k then Inr v else py_get (JObj kvs) k' dflt)"
  by (simp add: py_get_def)

lemma new_inventory_item_quantity:
  "new_inventory_item nid (JObj kvs) = Inr it \<Longrightarrow>
     new_inventory_item nid (JObj (kvs @ [(''quantity'', JInt q)])) = Inr (it\<lparr>quantity := q\<rparr>)"
  by (auto simp: new_inventory_item_def py_getitem_override py_get_override)

lemma new_inventory_item_missing:
  "(k, ty, True) \<in> set inventory_schema \<Longrightarrow> py_getitem data k = Inl e \<Longrightarrow> isl (new_inventory_item nid data)"
  by (cases "new_inventory_item nid data") (auto simp: new_inventory_item_def inventory_schema_def)

lemma new_production_line_missing:
  "(k, ty, True) \<in> set production_schema \<Longrightarrow> py_getitem data k = Inl e \<Longrightarrow> isl (new_production_line nid data)"
  by (cases "new_production_line nid data") (auto simp: new_production_line_def production_schema_def)

lemma new_sales_order_missing:
  "(k, ty, True) \<in> set sales_schema \<Longrightarrow> py_getitem data k = Inl e \<Longrightarrow> isl (new_sales_order nid data)"
  by (cases "new_sales_order nid data") (auto simp: new_sales_order_def sales_schema_def)

text \<open>
  C11: resolving an existing alert twice in a row succeeds both times and
  leaves the alert resolved.
\<close>

theorem resolve_alert_twice:
  "find (\<lambda>a. alert_id a = aid) (alerts d) = Some a \<Longrightarrow>
   run (session_of Admin, d) [ResolveAlert aid, ResolveAlert aid] = (ress, s') \<Longrightarrow>
   ress = [Inr (AlertItem (mark_resolved a)), Inr (AlertItem (mark_resolved a))] \<and>
   find (\<lambda>a. alert_id a = aid) (alerts (snd s')) = Some (mark_resolved a) \<and>
   alert_status (mark_resolved a) = ''Resolved''"
proof -
  assume f: "find (\<lambda>a. alert_id a = aid) (alerts d) = Some a"
    and run: "run (session_of Admin, d) [ResolveAlert aid, ResolveAlert aid] = (ress, s')"
  let ?als1 = "update_first (\<lambda>a. alert_id a = aid) mark_resolved (alerts d)"
  have f1: "find (\<lambda>a. alert_id a = aid) ?als1 = Some (mark_resolved a)"
    using f by (simp add: find_update_first)
  have "find (\<lambda>a. alert_id a = aid) (update_first (\<lambda>a. alert_id a = aid) mark_resolved ?als1) =
      map_option mark_resolved (find (\<lambda>a. alert_id a = aid) ?als1)"
    by (rule find_update_first) simp
  with f1 have f2: "find (\<lambda>a. alert_id a = aid) (update_first (\<lambda>a. alert_id a = aid) mark_resolved ?als1) =
      Some (mark_resolved a)" by simp
  show ?thesis
    using run f f1 f2 by (auto simp: resolve_alert_admin_found)
qed

text \<open>
  C6: creating N items one after another in an empty inventory, each
  request succeeding, gives the ids 1 to N in creation order.
\<close>

theorem add_inventory_sequence_ids:
  "inventory (snd s) = [] \<Longrightarrow> run s (map AddInventory ps) = (ress, s') \<Longrightarrow>
     \<forall>r\<in>set ress. \<not> isl r \<Longrightarrow> map item_id (inventory (snd s')) = [1..<length ps + 1]"
  using run_add_inventory_ids [of s 0] by simp

text \<open>
  C18: for a permitted session, each update route and the resolve route answer
  404 exactly when no record of the collection has the id; when the record exists an
  error can only come from the request body.
\<close>

theorem update_not_found:
  "((\<exists>m. fst (dispatch (session_of Admin, d) (UpdateInventory k data)) = Inl (NotFound m)) \<longleftrightarrow>
      k \<notin> item_id ` set (inventory d)) \<and>
   ((\<exists>m. fst (dispatch (session_of Admin, d) (UpdateProduction k data)) = Inl (NotFound m)) \<longleftrightarrow>
      k \<notin> line_id ` set (production_lines d)) \<and>
   ((\<exists>m. fst (dispatch (session_of Admin, d) (UpdateSales k data)) = Inl (NotFound m)) \<longleftrightarrow>
      k \<notin> order_id ` set (sales_orders d)) \<and>
   ((\<exists>m. fst (dispatch (session_of Admin, d) (ResolveAlert k)) = Inl (NotFound m)) \<longleftrightarrow>
      k \<notin> alert_id ` set (alerts d))"
  by (auto simp: session_of_def answer_fst_Inl handler_defs find_None_ident [symmetric] split: option.splits)

text \<open>
  C28: a create whose body lacks a key the handler reads with \<^verbatim>\<open>data[...]\<close>
  (a required key of the section-3 data model) is never answered with a validation error:
  for the roles that may create, an exception escapes the handler, the reply is the
  status 500, and nothing is stored.
\<close>

theorem missing_key_uncaught:
  assumes ki: "(ki, ti, True) \<in> set inventory_schema" "py_getitem di ki = Inl (KeyError ki)"
    and kp: "(kp, tp, True) \<in> set production_schema" "py_getitem dp kp = Inl (KeyError kp)"
    and ks: "(ks, ts, True) \<in> set sales_schema" "py_getitem ds ks = Inl (KeyError ks)"
  shows "(\<exists>e. dispatch (session_of Admin, d) (AddInventory di) = (Inl (Raised e), (session_of Admin, d)) \<and>
           http_status (Raised e) = 500) \<and>
    (\<exists>e. dispatch (session_of Production, d) (AddProduction dp) = (Inl (Raised e), (session_of Production, d)) \<and>
           http_status (Raised e) = 500) \<and>
    (\<exists>e. dispatch (session_of Sales, d) (AddSales ds) = (Inl (Raised e), (session_of Sales, d)) \<and>
           http_status (Raised e) = 500)"
proof -
  obtain ei where "new_inventory_item (next_id item_id (inventory d)) di = Inl ei"
    using new_inventory_item_missing [OF ki] by (metis isl_def)
  moreover obtain ep where "new_production_line (next_id line_id (production_lines d)) dp = Inl ep"
    using new_production_line_missing [OF kp] by (metis isl_def)
  moreover obtain es where "new_sales_order (next_id order_id (sales_orders d)) ds = Inl es"
    using new_sales_order_missing [OF ks] by (metis isl_def)
  ultimately show ?thesis
    by (simp add: add_inventory_def add_production_def add_sales_def session_of_def answer_def)
qed

text \<open>
  C29: the code validates no quantity: whatever body a create accepts, the
  same body with its \<^verbatim>\<open>quantity\<close> replaced by any integer (a negative one included,
  although the data model requires quantities of at least 0) is accepted as well and stores
  that integer, which leaves the stored item outside the data model.
\<close>

theorem quantity_unvalidated:
  "add_inventory sess (JObj kvs) items = Inr (it, items') \<Longrightarrow>
   add_inventory sess (JObj (kvs @ [(''quantity'', JInt q)])) items =
     Inr (it\<lparr>quantity := q\<rparr>, items @ [it\<lparr>quantity := q\<rparr>]) \<and>
   (q < 0 \<longrightarrow> \<not> item_typed (it\<lparr>quantity := q\<rparr>))"
proof -
  assume "add_inventory sess (JObj kvs) items = Inr (it, items')"
  from add_inventory_Inr [OF this] obtain u where "sess = Some u" "su_role u = ''admin''"
    and "new_inventory_item (next_id item_id items) (JObj kvs) = Inr it" by blast
  then show ?thesis
    by (simp add: add_inventory_def login_required_def item_typed_def new_inventory_item_quantity)
qed

text \<open>
  C30: ids are recomputed from the store, so they are not monotone: after the
  item with the largest id \<open>m\<close> is deleted, the next create hands out an id of at most
  \<open>m\<close>, and exactly \<open>m\<close> (the deleted item's id, reused) when \<open>m = 1\<close> or \<open>m - 1\<close> is
  still in use.
\<close>

theorem deleted_max_id_reused:
  assumes ok: "ids_ok item_id (inventory d)" and ne: "inventory d \<noteq> []"
    and m: "m = Max (item_id ` set (inventory d))"
    and r: "run (session_of Admin, d) [DeleteInventory m, AddInventory data] = (ress, s')"
    and it: "last ress = Inr (InventoryItem it)"
  shows "item_id it \<le> m \<and> (item_id it = m \<longleftrightarrow> m = 1 \<or> m - 1 \<in> item_id ` set (inventory d))"
proof -
  let ?R = "filter (\<lambda>i. item_id i \<noteq> m) (inventory d)"
  have "add_inventory (session_of Admin) data ?R = Inr (it, ?R @ [it])"
    using r it by (auto simp: delete_inventory_def add_inventory_def session_of_def answer_def
        split: sum.splits prod.splits)
  then have itid: "item_id it = next_id item_id ?R"
    using add_inventory_Inr new_inventory_item_Inr by blast
  obtain x where x: "x \<in> set (inventory d)" using ne by (metis list.set_sel(1))
  then have "item_id x \<le> m" using m by simp
  moreover have "0 < item_id x" using ok x by (simp add: ids_ok_def)
  ultimately have pos: "0 < m" by simp
  have lt: "item_id i < m" if "i \<in> set ?R" for i
    using that m by (auto simp: le_neq_trans)
  show ?thesis
  proof (cases "?R = []")
    case True
    then have "\<forall>i\<in>set (inventory d). item_id i = m" by (simp add: filter_empty_conv)
    then have "m - 1 \<notin> item_id ` set (inventory d)" using pos by auto
    then show ?thesis using itid True pos by auto
  next
    case False
    then have nid: "item_id it = Max (item_id ` set ?R) + 1" using itid by (simp add: next_id_def)
    let ?A = "item_id ` set ?R"
    have fin: "finite ?A" "?A \<noteq> {}"
      by (rule finite_imageI [OF finite_set]) (simp only: image_is_empty set_empty, rule False)
    have mx: "Max ?A < m" using fin lt by (subst Max_less_iff) auto
    have "Max ?A = m - 1 \<longleftrightarrow> m - 1 \<in> ?A"
    proof
      assume "Max ?A = m - 1" then show "m - 1 \<in> ?A" using Max_in [OF fin] by simp
    next
      assume "m - 1 \<in> ?A"
      then have "m - 1 \<le> Max ?A" by (rule Max_ge [OF fin(1)])
      then show "Max ?A = m - 1" using mx by linarith
    qed
    moreover have "m - 1 \<in> ?A \<longleftrightarrow> m - 1 \<in> item_id ` set (inventory d)" using pos by auto
    moreover note mx
    ultimately show ?thesis using nid pos by auto
  qed
qed

lemma stats_revenue_sum:
  "total_revenue (calculate_dashboard_stats items lines orders) = sum_list (map total_amount orders)"
  by (simp add: calculate_dashboard_stats_def foldl_total_amount)

lemma dispatch_AddSales:
  "dispatch (sess, d) (AddSales p) =
     (case add_sales sess p (sales_orders d) of
        Inl e \<Rightarrow> (Inl e, (sess, d))
      | Inr (x, os) \<Rightarrow> (Inr (OrderItem x), (sess, d\<lparr>sales_orders := os\<rparr>)))"
  by (simp add: answer_def split: sum.splits prod.splits)

text \<open>
  C22: over any sequence of sales creates, by any sessions and with any bodies,
  the dashboard revenue grows by exactly the amounts of the orders the successful creates
  returned; a refused or failing create adds nothing.
\<close>

theorem run_sales_revenue:
  "total_revenue (calculate_dashboard_stats items lines (sales_orders (snd (snd (run s (map AddSales ps)))))) =
   total_revenue (calculate_dashboard_stats items lines (sales_orders (snd s))) +
   sum_list (map created_amount (fst (run s (map AddSales ps))))"
proof (induction ps arbitrary: s)
  case Nil
  then show ?case by simp
next
  case (Cons p ps)
  obtain sess d where s: "s = (sess, d)" by (cases s)
  show ?case
  proof (cases "add_sales sess p (sales_orders d)")
    case (Inl e)
    then show ?thesis using Cons.IH [of s] s
      by (simp del: run.simps add: run_Cons_fst run_Cons_snd dispatch_AddSales)
  next
    case (Inr r)
    obtain x os where r: "r = (x, os)" by (cases r)
    have os: "os = sales_orders d @ [x]" using add_sales_Inr Inr r by blast
    show ?thesis using Cons.IH [of "(sess, d\<lparr>sales_orders := os\<rparr>)"] s Inr r os
      by (simp del: run.simps add: run_Cons_fst run_Cons_snd dispatch_AddSales stats_revenue_sum)
  qed
qed

text \<open>
  C23: a create or a login whose body is not a JSON object (a \<^verbatim>\<open>null\<close> body, a
  number, a string, a list) raises: \<^verbatim>\<open>data['...']\<close> raises \<^verbatim>\<open>TypeError\<close> and
  \<^verbatim>\<open>data.get\<close> raises \<^verbatim>\<open>AttributeError\<close>, uncaught (HTTP 500), where the specification
  asks for a validation error.
\<close>

theorem non_object_body_raises:
  "\<not> is_object v \<Longrightarrow>
   add_inventory (session_of Admin) v items = Inl (Raised (TypeError (py_type_name v))) \<and>
   add_production (session_of Production) v lines = Inl (Raised (TypeError (py_type_name v))) \<and>
   add_sales (session_of Sales) v orders = Inl (Raised (TypeError (py_type_name v))) \<and>
   login_post v = Inl (Raised (AttributeError (py_type_name v)))"
  by (cases v)
     (simp_all add: add_inventory_def add_production_def add_sales_def new_inventory_item_def
       new_production_line_def new_sales_order_def login_post_def py_getitem_def py_get_def session_of_def)

lemma read_only_dispatch:
  "sess \<in> {None, session_of Staff} \<Longrightarrow> \<not> is_login r \<Longrightarrow>
     snd (snd (dispatch (sess, d) r)) = d \<and> fst (snd (dispatch (sess, d) r)) \<in> {None, session_of Staff}"
  by (cases r) (auto simp: handler_defs session_of_def logout_def)

text \<open>
  C24: a client without a session, or logged in as staff, cannot change the store
  by any sequence of requests that contains no login: every write is refused (staff) or
  redirected (no session), logout keeps the client read-only, and reads change nothing.
\<close>

theorem read_only_client:
  "sess \<in> {None, session_of Staff} \<Longrightarrow> list_all (\<lambda>r. \<not> is_login r) rs \<Longrightarrow>
     snd (snd (run (sess, d) rs)) = d"
proof (induction rs arbitrary: sess)
  case Nil
  then show ?case by simp
next
  case (Cons r rs)
  have step: "snd (snd (dispatch (sess, d) r)) = d \<and> fst (snd (dispatch (sess, d) r)) \<in> {None, session_of Staff}"
    using Cons.prems by (intro read_only_dispatch) simp_all
  then have "snd (dispatch (sess, d) r) = (fst (snd (dispatch (sess, d) r)), d)"
    by (metis prod.collapse)
  then show ?case using Cons.IH [of "fst (snd (dispatch (sess, d) r))"] Cons.prems step
    by (simp del: run.simps add: run_Cons_snd)
qed

subsection \<open>Witnesses\<close>

theorem resolve_alert_twice_witness:
  "find (\<lambda>a. alert_id a = 1) (alerts (init_db 0)) = Some (hd (alerts_init 0)) \<and>
   fst (run (session_of Admin, init_db 0) [ResolveAlert 1, ResolveAlert 1]) =
     [Inr (AlertItem (mark_resolved (hd (alerts_init 0)))), Inr (AlertItem (mark_resolved (hd (alerts_init 0))))]"
proof -
  have h: "find (\<lambda>a. alert_id a = 1) (alerts (init_db 0)) = Some (hd (alerts_init 0))"
    by (simp add: init_db_def alerts_init_def)
  have r: "run (session_of Admin, init_db 0) [ResolveAlert 1, ResolveAlert 1] =
      (fst (run (session_of Admin, init_db 0) [ResolveAlert 1, ResolveAlert 1]),
       snd (run (session_of Admin, init_db 0) [ResolveAlert 1, ResolveAlert 1]))" by simp
  show ?thesis using h resolve_alert_twice [OF h r] by blast
qed

theorem add_inventory_sequence_ids_witness:
  "inventory (snd (session_of Admin, (init_db 0)\<lparr>inventory := []\<rparr>)) = [] \<and>
   list_all (\<lambda>r. \<not> isl r) (fst (run (session_of Admin, (init_db 0)\<lparr>inventory := []\<rparr>)
      (map AddInventory [sample_item_payload, sample_item_payload]))) \<and>
   map item_id (inventory (snd (snd (run (session_of Admin, (init_db 0)\<lparr>inventory := []\<rparr>)
      (map AddInventory [sample_item_payload, sample_item_payload]))))) =
     [1..<length [sample_item_payload, sample_item_payload] + 1]"
proof -
  let ?s = "(session_of Admin, (init_db 0)\<lparr>inventory := []\<rparr>)"
  let ?ps = "[sample_item_payload, sample_item_payload]"
  have h1: "inventory (snd ?s) = []" by simp
  have h2: "run ?s (map AddInventory ?ps) = (fst (run ?s (map AddInventory ?ps)), snd (run ?s (map AddInventory ?ps)))"
    by simp
  have h3: "\<forall>r\<in>set (fst (run ?s (map AddInventory ?ps))). \<not> isl r" by code_simp
  show ?thesis using h1 h3 add_inventory_sequence_ids [OF h1 h2 h3] by (simp add: list_all_iff)
qed

theorem non_object_body_raises_witness:
  "\<not> is_object JNull \<and>
   add_inventory (session_of Admin) JNull inventory_init = Inl (Raised (TypeError ''NoneType'')) \<and>
   add_production (session_of Production) JNull production_lines_init = Inl (Raised (TypeError ''NoneType'')) \<and>
   add_sales (session_of Sales) JNull sales_orders_init = Inl (Raised (TypeError ''NoneType'')) \<and>
   login_post JNull = Inl (Raised (AttributeError ''NoneType''))"
proof -
  have h: "\<not> is_object JNull" by simp
  show ?thesis
    using h non_object_body_raises [OF h, where items = inventory_init and lines = production_lines_init
      and orders = sales_orders_init] by simp
qed

theorem missing_key_uncaught_witness:
  "(''sku'', FText, True) \<in> set inventory_schema \<and> py_getitem (JObj []) ''sku'' = Inl (KeyError ''sku'') \<and>
   (''name'', FText, True) \<in> set production_schema \<and> py_getitem (JObj []) ''name'' = Inl (KeyError ''name'') \<and>
   (''order_number'', FText, True) \<in> set sales_schema \<and>
   py_getitem (JObj []) ''order_number'' = Inl (KeyError ''order_number'') \<and>
   (\<exists>e. dispatch (session_of Admin, init_db 0) (AddInventory (JObj [])) =
      (Inl (Raised e), (session_of Admin, init_db 0)) \<and> http_status (Raised e) = 500) \<and>
   (\<exists>e. dispatch (session_of Production, init_db 0) (AddProduction (JObj [])) =
      (Inl (Raised e), (session_of Production, init_db 0)) \<and> http_status (Raised e) = 500) \<and>
   (\<exists>e. dispatch (session_of Sales, init_db 0) (AddSales (JObj [])) =
      (Inl (Raised e), (session_of Sales, init_db 0)) \<and> http_status (Raised e) = 500)"
proof -
  have h1: "(''sku'', FText, True) \<in> set inventory_schema" by (simp add: inventory_schema_def)
  have h3: "(''name'', FText, True) \<in> set production_schema" by (simp add: production_schema_def)
  have h5: "(''order_number'', FText, True) \<in> set sales_schema" by (simp add: sales_schema_def)
  have h2: "py_getitem (JObj []) ''sku'' = Inl (KeyError ''sku'')"
    and h4: "py_getitem (JObj []) ''name'' = Inl (KeyError ''name'')"
    and h6: "py_getitem (JObj []) ''order_number'' = Inl (KeyError ''order_number'')"
    by (simp_all add: py_getitem_def)
  show ?thesis using h1 h2 h3 h4 h5 h6 missing_key_uncaught [OF h1 h2 h3 h4 h5 h6, of "init_db 0"] by blast
qed

theorem quantity_unvalidated_witness:
  "add_inventory (session_of Admin)
     (JObj [(''sku'', JStr ''MSK-506''), (''name'', JStr ''Clay Face Mask''), (''category'', JStr ''Masks''),
           (''quantity'', JStr ''40''), (''min_quantity'', JInt 25), (''price'', JStr ''15.50''),
           (''supplier'', JStr ''Botanical Supplies Co'')]) inventory_init = Inr (sample_item, inventory_init @ [sample_item]) \<and>
   add_inventory (session_of Admin)
     (JObj ([(''sku'', JStr ''MSK-506''), (''name'', JStr ''Clay Face Mask''), (''category'', JStr ''Masks''),
           (''quantity'', JStr ''40''), (''min_quantity'', JInt 25), (''price'', JStr ''15.50''),
           (''supplier'', JStr ''Botanical Supplies Co'')] @ [(''quantity'', JInt (-5))])) inventory_init =
     Inr (sample_item\<lparr>quantity := -5\<rparr>, inventory_init @ [sample_item\<lparr>quantity := -5\<rparr>]) \<and>
   \<not> item_typed (sample_item\<lparr>quantity := -5\<rparr>)"
proof -
  have h: "add_inventory (session_of Admin)
     (JObj [(''sku'', JStr ''MSK-506''), (''name'', JStr ''Clay Face Mask''), (''category'', JStr ''Masks''),
           (''quantity'', JStr ''40''), (''min_quantity'', JInt 25), (''price'', JStr ''15.50''),
           (''supplier'', JStr ''Botanical Supplies Co'')]) inventory_init = Inr (sample_item, inventory_init @ [sample_item])"
    using add_sample_item by (simp add: sample_item_payload_def)
  show ?thesis using h quantity_unvalidated [OF h, of "-5"] by simp
qed

theorem deleted_max_id_reused_witness:
  "ids_ok item_id (inventory (init_db 0)) \<and> inventory (init_db 0) \<noteq> [] \<and>
   (5::nat) = Max (item_id ` set (inventory (init_db 0))) \<and>
   last (fst (run (session_of Admin, init_db 0) [DeleteInventory 5, AddInventory sample_item_payload])) =
     Inr (InventoryItem (sample_item\<lparr>item_id := 5\<rparr>)) \<and>
   item_id (sample_item\<lparr>item_id := 5\<rparr>) \<le> 5 \<and>
   (item_id (sample_item\<lparr>item_id := 5\<rparr>) = 5 \<longleftrightarrow> (5::nat) = 1 \<or> 5 - 1 \<in> item_id ` set (inventory (init_db 0)))"
proof -
  let ?rs = "[DeleteInventory 5, AddInventory sample_item_payload]"
  have h1: "ids_ok item_id (inventory (init_db 0))" and h2: "inventory (init_db 0) \<noteq> []"
    and h3: "(5::nat) = Max (item_id ` set (inventory (init_db 0)))"
    by (simp_all add: init_db_def inventory_init_def ids_ok_def)
  have h4: "run (session_of Admin, init_db 0) ?rs =
      (fst (run (session_of Admin, init_db 0) ?rs), snd (run (session_of Admin, init_db 0) ?rs))" by simp
  have h5: "last (fst (run (session_of Admin, init_db 0) ?rs)) = Inr (InventoryItem (sample_item\<lparr>item_id := 5\<rparr>))"
    by code_simp
  show ?thesis using h1 h2 h3 h5 deleted_max_id_reused [OF h1 h2 h3 h4 h5] by blast
qed

theorem read_only_client_witness:
  "session_of Staff \<in> {None, session_of Staff} \<and>
   list_all (\<lambda>r. \<not> is_login r) [AddInventory sample_item_payload, DeleteInventory 1, ResolveAlert 1, Logout,
     AddSales sample_order_payload] \<and>
   snd (snd (run (session_of Staff, init_db 0) [AddInventory sample_item_payload, DeleteInventory 1,
     ResolveAlert 1, Logout, AddSales sample_order_payload])) = init_db 0"
proof -
  have h1: "session_of Staff \<in> {None, session_of Staff}" by simp
  have h2: "list_all (\<lambda>r. \<not> is_login r) [AddInventory sample_item_payload, DeleteInventory 1, ResolveAlert 1,
     Logout, AddSales sample_order_payload]" by simp
  show ?thesis using h1 h2 read_only_client [OF h1 h2] by blast
qed

end
